theory Spec2Isabelle
  imports Complex_Main "HOL-Library.Word"
begin

section \<open>Strings as the Kotlin code uses them\<close>

text \<open>
  A \<^typ>\<open>string\<close> is a list of characters with codes below 256; the character
  classes below are those of \<^verbatim>\<open>Char.isWhitespace\<close>, \<^verbatim>\<open>Char.isUpperCase\<close> and
  \<^verbatim>\<open>String.lowercase\<close> on that range (ASCII and Latin-1).
\<close>

definition isWhitespace :: "char \<Rightarrow> bool" where
  "isWhitespace c =
     (let n = (of_char c :: nat)
      in (9 \<le> n \<and> n \<le> 13) \<or> (28 \<le> n \<and> n \<le> 32) \<or> n = 160)"

definition isUpperCase :: "char \<Rightarrow> bool" where
  "isUpperCase c =
     (let n = (of_char c :: nat)
      in (65 \<le> n \<and> n \<le> 90) \<or> (192 \<le> n \<and> n \<le> 214) \<or> (216 \<le> n \<and> n \<le> 222))"

definition lowercaseChar :: "char \<Rightarrow> char" where
  "lowercaseChar c = (if isUpperCase c then char_of ((of_char c :: nat) + 32) else c)"

definition lowercase :: "string \<Rightarrow> string" where
  "lowercase s = map lowercaseChar s"

definition trim :: "string \<Rightarrow> string" where
  "trim s = rev (dropWhile isWhitespace (rev (dropWhile isWhitespace s)))"

definition isBlank :: "string \<Rightarrow> bool" where
  "isBlank s = list_all isWhitespace s"

definition startsWith :: "string \<Rightarrow> string \<Rightarrow> bool" where
  "startsWith s p = (take (length p) s = p)"

text \<open>\<^verbatim>\<open>msg.split(":", limit = 2)\<close>: the text before the first colon and the text
  after it, or the whole string when it has no colon.\<close>

definition split_colon :: "string \<Rightarrow> string list" where
  "split_colon s =
     (if CHR '':'' \<in> set s
      then [takeWhile (\<lambda>c. c \<noteq> CHR '':'') s, tl (dropWhile (\<lambda>c. c \<noteq> CHR '':'') s)]
      else [s])"

text \<open>Decimal text of an integer, as string interpolation of an \<^verbatim>\<open>Int\<close> gives it.\<close>

fun showNat :: "nat \<Rightarrow> string" where
  "showNat n =
     (if n < 10 then [char_of (48 + n)]
      else showNat (n div 10) @ [char_of (48 + n mod 10)])"

declare showNat.simps [simp del]

definition showInt :: "int \<Rightarrow> string" where
  "showInt i = (if i < 0 then CHR ''-'' # showNat (nat (- i)) else showNat (nat i))"

text \<open>The horizontal ellipsis of the status texts, in UTF-8.\<close>

definition ellipsis :: string where
  "ellipsis = [char_of (226 :: nat), char_of (128 :: nat), char_of (166 :: nat)]"

section \<open>Data classes of BridgeSession.kt\<close>

record ErrorShape =
  code :: string
  message :: string

record InvokeRequest =
  req_id :: string
  command :: string
  paramsJson :: "string option"

record InvokeResult =
  ok :: bool
  payloadJson :: "string option"
  error :: "ErrorShape option"

definition InvokeResult_ok :: "string option \<Rightarrow> InvokeResult" where
  "InvokeResult_ok p = \<lparr>ok = True, payloadJson = p, error = None\<rparr>"

definition InvokeResult_error :: "string \<Rightarrow> string \<Rightarrow> InvokeResult" where
  "InvokeResult_error c m =
     \<lparr>ok = False, payloadJson = None, error = Some \<lparr>code = c, message = m\<rparr>\<rparr>"

record RpcResponse =
  res_id :: string
  res_ok :: bool
  res_payloadJson :: "string option"
  res_error :: "ErrorShape option"

record Hello =
  nodeId :: string
  displayName :: "string option"
  token :: "string option"
  platform :: "string option"
  version :: "string option"
  deviceFamily :: "string option"
  modelIdentifier :: "string option"
  caps :: "string list option"
  commands :: "string list option"

text \<open>
  \<^verbatim>\<open>BridgeEndpoint\<close> is declared outside the files at hand; its fields are the ones
  the session reads (\<^verbatim>\<open>host\<close>, \<^verbatim>\<open>port\<close>, \<^verbatim>\<open>lanHost\<close>, \<^verbatim>\<open>tailnetDns\<close>,
  \<^verbatim>\<open>canvasPort\<close>).
\<close>

record BridgeEndpoint =
  host :: string
  port :: int
  lanHost :: "string option"
  tailnetDns :: "string option"
  canvasPort :: "int option"

text \<open>A thrown exception: its \<^verbatim>\<open>message\<close> and the simple name of its class.\<close>

record Throwable =
  exn_message :: "string option"
  simpleName :: string

definition IllegalStateException :: "string \<Rightarrow> Throwable" where
  "IllegalStateException m = \<lparr>exn_message = Some m, simpleName = ''IllegalStateException''\<rparr>"

section \<open>invokeErrorFromThrowable\<close>

definition invokeErrorFromThrowable :: "Throwable \<Rightarrow> InvokeResult" where
  "invokeErrorFromThrowable err =
     (let msg = (case exn_message err of
                   None \<Rightarrow> simpleName err
                 | Some m \<Rightarrow> if trim m = [] then simpleName err else trim m);
          parts = split_colon msg
      in if length parts = 2
         then (let code = trim (parts ! 0); rest = trim (parts ! 1)
               in if code \<noteq> [] \<and> list_all (\<lambda>c. isUpperCase c \<or> c = CHR ''_'') code
                  then InvokeResult_error code (if rest = [] then msg else rest)
                  else InvokeResult_error ''UNAVAILABLE'' msg)
         else InvokeResult_error ''UNAVAILABLE'' msg)"

section \<open>Canvas host resolution\<close>

text \<open>
  What \<^verbatim>\<open>java.net.URI\<close> reports of a parsed URL: scheme, host and port (\<open>-1\<close> when
  the URL names none). The parser is a library class; \<open>normalizeCanvasHostUrl\<close> takes
  it as its first argument, \<open>None\<close> standing for a URISyntaxException caught by
  \<^verbatim>\<open>runCatching\<close>.
\<close>

record URI =
  uri_scheme :: "string option"
  uri_host :: "string option"
  uri_port :: int

definition isLoopbackHost :: "string option \<Rightarrow> bool" where
  "isLoopbackHost raw =
     (let host = (case raw of None \<Rightarrow> [] | Some r \<Rightarrow> lowercase (trim r))
      in if host = [] then False
         else if host = ''localhost'' then True
         else if host = ''::1'' then True
         else if host = ''0.0.0.0'' \<or> host = ''::'' then True
         else startsWith host ''127.'')"

definition normalizeCanvasHostUrl ::
  "(string \<Rightarrow> URI option) \<Rightarrow> string option \<Rightarrow> BridgeEndpoint \<Rightarrow> string option" where
  "normalizeCanvasHostUrl parseURI raw endpoint =
     (let trimmed = (case raw of None \<Rightarrow> [] | Some r \<Rightarrow> trim r);
          parsed = (if \<not> isBlank trimmed then parseURI trimmed else None);
          parsedHost = (case parsed of None \<Rightarrow> []
                  | Some u \<Rightarrow> (case uri_host u of None \<Rightarrow> [] | Some h \<Rightarrow> trim h));
          parsedPort = (case parsed of None \<Rightarrow> - 1 | Some u \<Rightarrow> uri_port u);
          scheme0 = (case parsed of None \<Rightarrow> []
                     | Some u \<Rightarrow> (case uri_scheme u of None \<Rightarrow> [] | Some x \<Rightarrow> trim x));
          scheme = (if isBlank scheme0 then ''http'' else scheme0)
      in if \<not> isBlank trimmed \<and> \<not> isLoopbackHost (Some parsedHost) then Some trimmed
         else
           (let fallbackHost =
                  (case (case tailnetDns endpoint of None \<Rightarrow> None
                         | Some t \<Rightarrow> if trim t = [] then None else Some (trim t)) of
                     Some t \<Rightarrow> t
                   | None \<Rightarrow>
                       (case (case lanHost endpoint of None \<Rightarrow> None
                              | Some l \<Rightarrow> if trim l = [] then None else Some (trim l)) of
                          Some l \<Rightarrow> l
                        | None \<Rightarrow> trim (host endpoint)))
            in if fallbackHost = [] then (if isBlank trimmed then None else Some trimmed)
               else
                 (let fallbackPort =
                        (case canvasPort endpoint of
                           Some p \<Rightarrow> p
                         | None \<Rightarrow> if parsedPort > 0 then parsedPort else 18793);
                      formattedHost =
                        (if CHR '':'' \<in> set fallbackHost then ''['' @ fallbackHost @ '']''
                         else fallbackHost)
                  in Some (scheme @ ''://'' @ formattedHost @ '':'' @ showInt fallbackPort))))"

text \<open>
  The components \<^verbatim>\<open>java.net.URI\<close> reports for the two URLs of the worked examples;
  any other text is left unparsed here.
\<close>

definition exampleURI :: "string \<Rightarrow> URI option" where
  "exampleURI s =
     (if s = ''http://10.0.0.5:18793''
      then Some \<lparr>uri_scheme = Some ''http'', uri_host = Some ''10.0.0.5'', uri_port = 18793\<rparr>
      else if s = ''http://127.0.0.1:9000''
      then Some \<lparr>uri_scheme = Some ''http'', uri_host = Some ''127.0.0.1'', uri_port = 9000\<rparr>
      else None)"

section \<open>JSON frames\<close>

text \<open>
  \<^verbatim>\<open>JsonElement\<close> of kotlinx.serialization. A primitive carries its \<^verbatim>\<open>content\<close>; an
  object is a map from field names to elements, listed as pairs and read with
  \<^const>\<open>map_of\<close>.
\<close>

datatype JsonElement =
    JsonNull
  | JsonPrimitive string
  | JsonArray "JsonElement list"
  | JsonObject "(string \<times> JsonElement) list"

definition asObjectOrNull :: "JsonElement \<Rightarrow> (string \<times> JsonElement) list option" where
  "asObjectOrNull e = (case e of JsonObject members \<Rightarrow> Some members | _ \<Rightarrow> None)"

definition asStringOrNull :: "JsonElement option \<Rightarrow> string option" where
  "asStringOrNull e =
     (case e of
        Some JsonNull \<Rightarrow> None
      | Some (JsonPrimitive content) \<Rightarrow> Some content
      | _ \<Rightarrow> None)"

text \<open>\<^verbatim>\<open>JsonNull\<close> is a primitive whose content is the text \<^verbatim>\<open>null\<close>, so it is
  neither true nor false.\<close>

definition asBooleanOrNull :: "JsonElement option \<Rightarrow> bool option" where
  "asBooleanOrNull e =
     (case e of
        Some (JsonPrimitive content) \<Rightarrow>
          (let c = trim content
           in if lowercase c = ''true'' then Some True
              else if lowercase c = ''false'' then Some False
              else None)
      | _ \<Rightarrow> None)"

definition orNull :: "string option \<Rightarrow> JsonElement" where
  "orNull v = (case v of None \<Rightarrow> JsonNull | Some x \<Rightarrow> JsonPrimitive x)"

definition optField :: "string \<Rightarrow> string option \<Rightarrow> (string \<times> JsonElement) list" where
  "optField k v = (case v of None \<Rightarrow> [] | Some x \<Rightarrow> [(k, JsonPrimitive x)])"

definition optList :: "string \<Rightarrow> string list option \<Rightarrow> (string \<times> JsonElement) list" where
  "optList k v = (case v of None \<Rightarrow> [] | Some xs \<Rightarrow> [(k, JsonArray (map JsonPrimitive xs))])"

definition helloFrame :: "Hello \<Rightarrow> JsonElement" where
  "helloFrame hello =
     JsonObject
       ([(''type'', JsonPrimitive ''hello''), (''nodeId'', JsonPrimitive (nodeId hello))]
        @ optField ''displayName'' (displayName hello)
        @ optField ''token'' (token hello)
        @ optField ''platform'' (platform hello)
        @ optField ''version'' (version hello)
        @ optField ''deviceFamily'' (deviceFamily hello)
        @ optField ''modelIdentifier'' (modelIdentifier hello)
        @ optList ''caps'' (caps hello)
        @ optList ''commands'' (commands hello))"

definition pongFrame :: "string \<Rightarrow> JsonElement" where
  "pongFrame i = JsonObject [(''type'', JsonPrimitive ''pong''), (''id'', JsonPrimitive i)]"

definition reqFrame :: "string \<Rightarrow> string \<Rightarrow> string option \<Rightarrow> JsonElement" where
  "reqFrame i method params =
     JsonObject
       [(''type'', JsonPrimitive ''req''), (''id'', JsonPrimitive i),
        (''method'', JsonPrimitive method), (''paramsJSON'', orNull params)]"

definition invokeResFrame :: "string \<Rightarrow> InvokeResult \<Rightarrow> JsonElement" where
  "invokeResFrame i result =
     JsonObject
       ([(''type'', JsonPrimitive ''invoke-res''), (''id'', JsonPrimitive i),
         (''ok'', JsonPrimitive (if ok result then ''true'' else ''false''))]
        @ optField ''payloadJSON'' (payloadJson result)
        @ (case error result of
             None \<Rightarrow> []
           | Some e \<Rightarrow>
               [(''error'',
                 JsonObject [(''code'', JsonPrimitive (code e)),
                             (''message'', JsonPrimitive (message e))])]))"

section \<open>The session\<close>

text \<open>
  A \<^verbatim>\<open>CompletableDeferred\<close> is active until it is completed or cancelled, once;
  later calls of \<^verbatim>\<open>complete\<close> and \<^verbatim>\<open>cancel\<close> change nothing.
\<close>

datatype Deferred = Active | Completed RpcResponse | Cancelled

definition complete :: "RpcResponse \<Rightarrow> Deferred \<Rightarrow> Deferred" where
  "complete r d = (case d of Active \<Rightarrow> Completed r | _ \<Rightarrow> d)"

definition cancel :: "Deferred \<Rightarrow> Deferred" where
  "cancel d = (case d of Active \<Rightarrow> Cancelled | _ \<Rightarrow> d)"

text \<open>What the session does that its surroundings can see, in order: the callbacks it
  calls, the frames it writes, the socket it closes and the delays it sleeps.\<close>

datatype event =
    OnConnected string "string option"
  | OnDisconnected string
  | OnEvent string "string option"
  | Sent JsonElement
  | SocketClosed
  | Delay int

text \<open>
  The mutable fields of a \<^verbatim>\<open>BridgeSession\<close>. \<open>currentConnection\<close> holds the
  connection's \<^verbatim>\<open>remoteAddress\<close>. \<open>pending\<close> is the map from request ids to
  deferreds; the deferreds live in the store \<open>deferreds\<close>, addressed by number, and
  \<open>allocated\<close> counts the addresses in use.
\<close>

record session =
  canvasHostUrl :: "string option"
  currentConnection :: "string option option"
  pending :: "(string \<times> nat) list"
  deferreds :: "nat \<Rightarrow> Deferred option"
  allocated :: nat
  trace :: "event list"

definition newSession :: session where
  "newSession =
     \<lparr>canvasHostUrl = None, currentConnection = None, pending = [],
      deferreds = (\<lambda>_. None), allocated = 0, trace = []\<rparr>"

definition emit :: "event \<Rightarrow> session \<Rightarrow> session" where
  "emit e s = s\<lparr>trace := trace s @ [e]\<rparr>"

definition pending_remove :: "string \<Rightarrow> (string \<times> nat) list \<Rightarrow> (string \<times> nat) list" where
  "pending_remove i p = filter (\<lambda>kv. fst kv \<noteq> i) p"

definition pending_put :: "string \<Rightarrow> nat \<Rightarrow> (string \<times> nat) list \<Rightarrow> (string \<times> nat) list" where
  "pending_put i h p = (i, h) # pending_remove i p"

text \<open>The calls a caller of \<^verbatim>\<open>request\<close> and a dispatcher handler can end in.\<close>

datatype 'a completion =
    Suspended
  | Returns 'a
  | Throws Throwable
  | ThrowsCancellation

text \<open>
  \<^verbatim>\<open>request\<close> up to \<^verbatim>\<open>deferred.await()\<close>: the request id is the caller's random
  UUID. The result is the address of the deferred the caller now waits on.
\<close>

definition request :: "string \<Rightarrow> string \<Rightarrow> string option \<Rightarrow> session \<Rightarrow> Throwable + (nat \<times> session)" where
  "request i method params s =
     (case currentConnection s of
        None \<Rightarrow> Inl (IllegalStateException ''not connected'')
      | Some conn \<Rightarrow>
          (let h = allocated s
           in Inr (h, emit (Sent (reqFrame i method params))
                        (s\<lparr>pending := pending_put i h (pending s),
                           deferreds := (deferreds s)(h \<mapsto> Active),
                           allocated := Suc h\<rparr>))))"

text \<open>\<^verbatim>\<open>request\<close> from \<^verbatim>\<open>deferred.await()\<close> on, by the state of the deferred.\<close>

definition request_await :: "Deferred \<Rightarrow> string completion" where
  "request_await d =
     (case d of
        Active \<Rightarrow> Suspended
      | Cancelled \<Rightarrow> ThrowsCancellation
      | Completed res \<Rightarrow>
          if res_ok res then Returns (case res_payloadJson res of None \<Rightarrow> [] | Some p \<Rightarrow> p)
          else Throws (IllegalStateException
                 ((case res_error res of None \<Rightarrow> ''UNAVAILABLE'' | Some e \<Rightarrow> code e)
                  @ '': ''
                  @ (case res_error res of None \<Rightarrow> ''request failed'' | Some e \<Rightarrow> message e))))"

section \<open>connectOnce: handshake, read loop and teardown\<close>

text \<open>
  What the socket delivers to one \<^verbatim>\<open>readLine\<close> call and the parser that follows it:
  the read throws, or the line is not JSON and \<^verbatim>\<open>parseToJsonElement\<close> throws, or
  the line parses to an element. The end of the list is the end of the stream
  (\<^verbatim>\<open>readLine\<close> returns \<^verbatim>\<open>null\<close>). Writes to the socket are taken to succeed.
\<close>

datatype line = ReadThrows Throwable | BadJson Throwable | Json JsonElement

text \<open>\<^verbatim>\<open>socket.connect\<close> throws, or the socket connects with a remote address and
  the lines it will deliver.\<close>

datatype socket = ConnectFails Throwable | Connects "string option" "line list"

text \<open>What the session is constructed with and the library it parses URLs with:
  \<open>onInvoke\<close> returns a result or throws.\<close>

record env =
  newURI :: "string \<Rightarrow> URI option"
  onInvoke :: "InvokeRequest \<Rightarrow> Throwable + InvokeResult"

definition resError :: "(string \<times> JsonElement) list \<Rightarrow> ErrorShape option" where
  "resError frame =
     (case map_of frame ''error'' of
        None \<Rightarrow> None
      | Some it \<Rightarrow>
          (case asObjectOrNull it of
             None \<Rightarrow> None
           | Some obj \<Rightarrow>
               Some \<lparr>code = (case asStringOrNull (map_of obj ''code'') of
                               None \<Rightarrow> ''UNAVAILABLE'' | Some c \<Rightarrow> c),
                     message = (case asStringOrNull (map_of obj ''message'') of
                                  None \<Rightarrow> ''request failed'' | Some m \<Rightarrow> m)\<rparr>))"

text \<open>\<^verbatim>\<open>pending.remove(id)?.complete(response)\<close>\<close>

definition completePending :: "string \<Rightarrow> RpcResponse \<Rightarrow> session \<Rightarrow> session" where
  "completePending i r s =
     (case map_of (pending s) i of
        None \<Rightarrow> s
      | Some h \<Rightarrow>
          s\<lparr>pending := pending_remove i (pending s),
            deferreds := (deferreds s)(h := map_option (complete r) (deferreds s h))\<rparr>)"

text \<open>
  The body of the read loop for a line that parsed to an object. \<open>None\<close> is
  \<^verbatim>\<open>return@withContext\<close>: \<^verbatim>\<open>connectOnce\<close> returns at once. A \<^verbatim>\<open>when\<close> without a
  matching branch, and \<^verbatim>\<open>continue\<close>, go on with the session as it is.
\<close>

definition handleFrame :: "env \<Rightarrow> (string \<times> JsonElement) list \<Rightarrow> session \<Rightarrow> session option" where
  "handleFrame e frame s =
     (case asStringOrNull (map_of frame ''type'') of
        None \<Rightarrow> Some s
      | Some t \<Rightarrow>
          if t = ''event'' then
            (case asStringOrNull (map_of frame ''event'') of
               None \<Rightarrow> None
             | Some ev \<Rightarrow> Some (emit (OnEvent ev (asStringOrNull (map_of frame ''payloadJSON''))) s))
          else if t = ''ping'' then
            (let i = (case asStringOrNull (map_of frame ''id'') of None \<Rightarrow> [] | Some x \<Rightarrow> x)
             in Some (emit (Sent (pongFrame i)) s))
          else if t = ''res'' then
            (case asStringOrNull (map_of frame ''id'') of
               None \<Rightarrow> Some s
             | Some i \<Rightarrow>
                 (let okv = (case asBooleanOrNull (map_of frame ''ok'') of
                               None \<Rightarrow> False | Some b \<Rightarrow> b);
                      payload = asStringOrNull (map_of frame ''payloadJSON'');
                      err = resError frame
                  in Some (completePending i
                             \<lparr>res_id = i, res_ok = okv, res_payloadJson = payload,
                              res_error = err\<rparr> s)))
          else if t = ''invoke'' then
            (case asStringOrNull (map_of frame ''id'') of
               None \<Rightarrow> Some s
             | Some i \<Rightarrow>
                 (let cmd = (case asStringOrNull (map_of frame ''command'') of
                               None \<Rightarrow> [] | Some c \<Rightarrow> c);
                      params = asStringOrNull (map_of frame ''paramsJSON'');
                      result =
                        (case onInvoke e \<lparr>req_id = i, command = cmd, paramsJson = params\<rparr> of
                           Inr r \<Rightarrow> r
                         | Inl thrown \<Rightarrow> invokeErrorFromThrowable thrown)
                  in Some (emit (Sent (invokeResFrame i result)) s)))
          else if t = ''invoke-res'' then Some s
          else Some s)"

text \<open>The \<^verbatim>\<open>while (scope.isActive)\<close> loop: the exception that left it, if any, and
  the session.\<close>

fun readLoop :: "env \<Rightarrow> line list \<Rightarrow> session \<Rightarrow> Throwable option \<times> session" where
  "readLoop e [] s = (None, s)"
| "readLoop e (ReadThrows x # rest) s = (Some x, s)"
| "readLoop e (BadJson x # rest) s = (Some x, s)"
| "readLoop e (Json el # rest) s =
     (case asObjectOrNull el of
        None \<Rightarrow> readLoop e rest s
      | Some frame \<Rightarrow>
          (case handleFrame e frame s of
             None \<Rightarrow> (None, s)
           | Some s' \<Rightarrow> readLoop e rest s'))"

text \<open>The \<^verbatim>\<open>finally\<close> block of \<^verbatim>\<open>connectOnce\<close>.\<close>

definition connectOnce_finally :: "session \<Rightarrow> session" where
  "connectOnce_finally s =
     emit SocketClosed
       (s\<lparr>currentConnection := None,
          deferreds := (\<lambda>h. if h \<in> snd ` set (pending s)
                             then map_option cancel (deferreds s h) else deferreds s h),
          pending := []\<rparr>)"

text \<open>The \<^verbatim>\<open>try\<close> block of \<^verbatim>\<open>connectOnce\<close>, entered with the connection stored:
  \<^verbatim>\<open>hello\<close> is sent, one line is read, and on \<^verbatim>\<open>hello-ok\<close> the read loop runs.\<close>

definition connectOnce_try ::
  "env \<Rightarrow> BridgeEndpoint \<Rightarrow> Hello \<Rightarrow> string option \<Rightarrow> line list \<Rightarrow> session
     \<Rightarrow> Throwable option \<times> session" where
  "connectOnce_try e endpoint hello remoteAddress input s0 =
     (let s = emit (Sent (helloFrame hello)) s0
      in case input of
           [] \<Rightarrow> (Some (IllegalStateException ''bridge closed connection''), s)
         | ReadThrows x # rest \<Rightarrow> (Some x, s)
         | BadJson x # rest \<Rightarrow> (Some x, s)
         | Json el # rest \<Rightarrow>
             (case asObjectOrNull el of
                None \<Rightarrow> (Some (IllegalStateException ''unexpected bridge response''), s)
              | Some first \<Rightarrow>
                  (let t = asStringOrNull (map_of first ''type'')
                   in if t = Some ''hello-ok'' then
                        (let name = (case asStringOrNull (map_of first ''serverName'') of
                                       None \<Rightarrow> ''Bridge'' | Some n \<Rightarrow> n);
                             rawCanvasUrl =
                               (case asStringOrNull (map_of first ''canvasHostUrl'') of
                                  None \<Rightarrow> None
                                | Some u \<Rightarrow> if trim u = [] then None else Some (trim u));
                             s1 = s\<lparr>canvasHostUrl :=
                                      normalizeCanvasHostUrl (newURI e) rawCanvasUrl endpoint\<rparr>
                         in readLoop e rest (emit (OnConnected name remoteAddress) s1))
                      else if t = Some ''error'' then
                        (let c = (case asStringOrNull (map_of first ''code'') of
                                    None \<Rightarrow> ''UNAVAILABLE'' | Some x \<Rightarrow> x);
                             msg = (case asStringOrNull (map_of first ''message'') of
                                      None \<Rightarrow> ''connect failed'' | Some x \<Rightarrow> x)
                         in (Some (IllegalStateException (c @ '': '' @ msg)), s))
                      else (Some (IllegalStateException ''unexpected bridge response''), s))))"

definition connectOnce ::
  "env \<Rightarrow> BridgeEndpoint \<Rightarrow> Hello \<Rightarrow> socket \<Rightarrow> session \<Rightarrow> Throwable option \<times> session" where
  "connectOnce e endpoint hello sock s =
     (case sock of
        ConnectFails x \<Rightarrow> (Some x, s)
      | Connects remoteAddress input \<Rightarrow>
          (let r = connectOnce_try e endpoint hello remoteAddress input
                     (s\<lparr>currentConnection := Some remoteAddress\<rparr>)
           in (fst r, connectOnce_finally (snd r))))"

section \<open>runLoop and disconnect\<close>

text \<open>
  \<^verbatim>\<open>attempt\<close> is a 32-bit \<^verbatim>\<open>Int\<close>: \<open>inc32\<close> is \<^verbatim>\<open>attempt += 1\<close> with its
  wrap-around. The delay is computed in \<^verbatim>\<open>Double\<close>; the model computes it in the
  reals, where \<^verbatim>\<open>toLong\<close> truncates towards zero and saturates at the ends of
  \<^verbatim>\<open>Long\<close>.
\<close>

definition inc32 :: "int \<Rightarrow> int" where
  "inc32 i = (i + 1 + 2 ^ 31) mod 2 ^ 32 - 2 ^ 31"

definition toLong :: "real \<Rightarrow> int" where
  "toLong x =
     (let t = (if 0 \<le> x then \<lfloor>x\<rfloor> else \<lceil>x\<rceil>)
      in max (- (2 ^ 63)) (min (2 ^ 63 - 1) t))"

definition sleepMs :: "int \<Rightarrow> int" where
  "sleepMs attempt = min 8000 (toLong (350 * (17 / 10) powi attempt))"

text \<open>What one turn of the loop finds: no target (\<^verbatim>\<open>desired\<close> is \<^verbatim>\<open>null\<close>), or a
  target and the socket the attempt gets.\<close>

datatype iteration = NoTarget | Target BridgeEndpoint Hello socket

definition errorText :: "Throwable \<Rightarrow> string" where
  "errorText err = (case exn_message err of None \<Rightarrow> simpleName err | Some m \<Rightarrow> m)"

fun runLoop :: "env \<Rightarrow> iteration list \<Rightarrow> int \<Rightarrow> session \<Rightarrow> int \<times> session" where
  "runLoop e [] attempt s = (attempt, s)"
| "runLoop e (NoTarget # its) attempt s =
     runLoop e its attempt
       (emit (Delay 250)
          ((case currentConnection s of None \<Rightarrow> s | Some c \<Rightarrow> emit SocketClosed s)
             \<lparr>currentConnection := None\<rparr>))"
| "runLoop e (Target endpoint hello sock # its) attempt s =
     (let s1 = emit (OnDisconnected
                       (if attempt = 0 then ''Connecting'' @ ellipsis
                        else ''Reconnecting'' @ ellipsis)) s;
          r = connectOnce e endpoint hello sock s1
      in case fst r of
           None \<Rightarrow> runLoop e its 0 (snd r)
         | Some err \<Rightarrow>
             (let attempt' = inc32 attempt;
                  s2 = emit (OnDisconnected (''Bridge error: '' @ errorText err)) (snd r)
              in runLoop e its attempt' (emit (Delay (sleepMs attempt')) s2)))"

text \<open>
  What the peer does once it has sent its lines: it closes the stream, and
  \<^verbatim>\<open>readLine\<close> returns \<^verbatim>\<open>null\<close>; or it keeps the stream open and sends nothing
  more, and \<^verbatim>\<open>readLine\<close> does not return (\<^verbatim>\<open>soTimeout\<close> is 0).
\<close>

datatype peer = Closes | Silent

text \<open>
  The read loop on a stream that stays open after its lines: the state in which the
  loop then waits in \<^verbatim>\<open>readLine\<close>, or \<open>None\<close> when the loop has left before the lines
  are used up.
\<close>

fun readLoop_waits :: "env \<Rightarrow> line list \<Rightarrow> session \<Rightarrow> session option" where
  "readLoop_waits e [] s = Some s"
| "readLoop_waits e (ReadThrows x # rest) s = None"
| "readLoop_waits e (BadJson x # rest) s = None"
| "readLoop_waits e (Json el # rest) s =
     (case asObjectOrNull el of
        None \<Rightarrow> readLoop_waits e rest s
      | Some frame \<Rightarrow>
          (case handleFrame e frame s of
             None \<Rightarrow> None
           | Some s' \<Rightarrow> readLoop_waits e rest s'))"

text \<open>
  Where the job is when \<^verbatim>\<open>disconnect\<close> is called: there is none; or it waits in a
  \<^verbatim>\<open>delay\<close> of \<^verbatim>\<open>runLoop\<close>; or it is inside the read loop of a connection, and then
  the lines and the peer are what the socket delivers from that moment on. (A job that
  is connecting or in the handshake is not modelled.)
\<close>

datatype job = NoJob | InDelay | InReadLoop "line list" peer

text \<open>How the coroutine that \<^verbatim>\<open>disconnect\<close> launches ends: it runs to its end and
  leaves the session in a state, or it waits for ever in \<^verbatim>\<open>cancelAndJoin\<close> while the
  session is in a state.\<close>

datatype outcome = Finished session | Blocked session

text \<open>
  \<^verbatim>\<open>disconnect\<close>. \<^verbatim>\<open>desired\<close> is the target that the turns of \<^verbatim>\<open>runLoop\<close> are
  given; the cancelled job takes no further turn. The launched coroutine cancels the
  job and waits for its end; without a job it goes on at once, and a job in \<^verbatim>\<open>delay\<close>
  ends at once. Cancelling does not interrupt \<^verbatim>\<open>readLine\<close>, and the read loop tests
  \<^verbatim>\<open>scope.isActive\<close> of the session's own scope, which stays active: a job inside the
  read loop goes on reading and handling lines until the loop leaves by itself
  (\<^verbatim>\<open>sendJson\<close> takes a free lock without suspending). When it does, the \<^verbatim>\<open>finally\<close>
  block runs; \<^verbatim>\<open>withContext\<close> of the cancelled job ends with the exception thrown in
  it, or with the job's \<^verbatim>\<open>CancellationException\<close> (\<open>cancellation\<close>) when its block has
  returned; \<^verbatim>\<open>runLoop\<close> catches it and reports it, and its \<^verbatim>\<open>delay\<close> throws at once,
  which ends the job. After the job the launched coroutine clears \<^verbatim>\<open>canvasHostUrl\<close>
  and reports \<^verbatim>\<open>Offline\<close>.
\<close>

definition disconnect :: "env \<Rightarrow> Throwable \<Rightarrow> job \<Rightarrow> session \<Rightarrow> outcome" where
  "disconnect e cancellation j s =
     (case j of
        NoJob \<Rightarrow> Finished (emit (OnDisconnected ''Offline'') (s\<lparr>canvasHostUrl := None\<rparr>))
      | InDelay \<Rightarrow> Finished (emit (OnDisconnected ''Offline'') (s\<lparr>canvasHostUrl := None\<rparr>))
      | InReadLoop input after \<Rightarrow>
          (case (case after of Closes \<Rightarrow> None | Silent \<Rightarrow> readLoop_waits e input s) of
             Some w \<Rightarrow> Blocked w
           | None \<Rightarrow>
               (let r = readLoop e input s;
                    left = connectOnce_finally (snd r);
                    err = (case fst r of None \<Rightarrow> cancellation | Some x \<Rightarrow> x);
                    ended = emit (OnDisconnected (''Bridge error: '' @ errorText err)) left
                in Finished
                     (emit (OnDisconnected ''Offline'') (ended\<lparr>canvasHostUrl := None\<rparr>)))))"

section \<open>The Swift dispatchers\<close>

datatype ClawdisNodeErrorCode = unavailable | invalidRequest | backgroundUnavailable

text \<open>
  Modelled from the spec: the raw values of \<^verbatim>\<open>ClawdisNodeErrorCode\<close>, an enum of
  ClawdisKit that is not among the files at hand, are the code names of the spec's
  error taxonomy.
\<close>

definition rawValue :: "ClawdisNodeErrorCode \<Rightarrow> string" where
  "rawValue c =
     (case c of
        unavailable \<Rightarrow> ''UNAVAILABLE''
      | invalidRequest \<Rightarrow> ''INVALID_REQUEST''
      | backgroundUnavailable \<Rightarrow> ''NODE_BACKGROUND_UNAVAILABLE'')"

record ClawdisNodeError =
  ne_code :: ClawdisNodeErrorCode
  ne_message :: string

record BridgeInvokeRequest =
  rq_id :: string
  rq_command :: string
  rq_paramsJSON :: "string option"

record BridgeInvokeResponse =
  rs_id :: string
  rs_ok :: bool
  rs_payloadJSON :: "string option"
  rs_error :: "ClawdisNodeError option"

definition okResponse :: "BridgeInvokeRequest \<Rightarrow> string option \<Rightarrow> BridgeInvokeResponse" where
  "okResponse req payload =
     \<lparr>rs_id = rq_id req, rs_ok = True, rs_payloadJSON = payload, rs_error = None\<rparr>"

definition errorResponse ::
  "BridgeInvokeRequest \<Rightarrow> ClawdisNodeErrorCode \<Rightarrow> string \<Rightarrow> BridgeInvokeResponse" where
  "errorResponse req c m =
     \<lparr>rs_id = rq_id req, rs_ok = False, rs_payloadJSON = None,
      rs_error = Some \<lparr>ne_code = c, ne_message = m\<rparr>\<rparr>"

text \<open>
  Modelled from the spec: the raw values of \<^verbatim>\<open>ClawdisCameraCommand\<close> and
  \<^verbatim>\<open>ClawdisCanvasCommand.snapshot\<close>, enums of ClawdisKit that are not among the
  files at hand, are the command names of the spec's command surface.
\<close>

definition camera_snap :: string where
  "camera_snap = ''camera.snap''"

definition camera_clip :: string where
  "camera_clip = ''camera.clip''"

definition canvas_snapshot :: string where
  "canvas_snapshot = ''canvas.snapshot''"

datatype ClawdisCanvasSnapshotFormat = png | jpeg

text \<open>The parameters of \<^verbatim>\<open>canvas.snapshot\<close> as the dispatchers read them; a
  \<^verbatim>\<open>Double\<close> is a real here, and the code only compares it.\<close>

record ClawdisCanvasSnapshotParams =
  format :: "ClawdisCanvasSnapshotFormat option"
  maxWidth :: "int option"
  quality :: "real option"

datatype CameraHUDKind = photo | recording | success | hudError

text \<open>The calls a dispatcher makes on the services behind it, in order.\<close>

datatype call =
    DecodeParams
  | CameraSnap
  | CameraClip
  | ShowCameraHUD CameraHUDKind
  | TriggerCameraFlash
  | CanvasSnapshot
  | Representation ClawdisCanvasSnapshotFormat "real option"
  | SnapshotBase64 "int option" ClawdisCanvasSnapshotFormat "real option"
  | EncodePayload
  | OtherCommand

text \<open>\<^verbatim>\<open>params?.format ?? .jpeg\<close>\<close>

definition snapshotFormat :: "ClawdisCanvasSnapshotParams option \<Rightarrow> ClawdisCanvasSnapshotFormat" where
  "snapshotFormat params =
     (case params of
        None \<Rightarrow> jpeg
      | Some p \<Rightarrow> (case format p of None \<Rightarrow> jpeg | Some f \<Rightarrow> f))"

text \<open>The closure that computes \<^verbatim>\<open>maxWidth\<close> in both dispatchers.\<close>

definition snapshotMaxWidth :: "ClawdisCanvasSnapshotParams option \<Rightarrow> int option" where
  "snapshotMaxWidth params =
     (let fallback = (case snapshotFormat params of png \<Rightarrow> Some 900 | jpeg \<Rightarrow> Some 1600)
      in case params of
           None \<Rightarrow> fallback
         | Some p \<Rightarrow>
             (case maxWidth p of
                None \<Rightarrow> fallback
              | Some raw \<Rightarrow> if raw > 0 then Some raw else fallback))"

text \<open>\<^verbatim>\<open>params?.quality ?? 0.9\<close> of the macOS dispatcher.\<close>

definition snapshotQuality :: "ClawdisCanvasSnapshotParams option \<Rightarrow> real" where
  "snapshotQuality params =
     (case params of
        None \<Rightarrow> 9 / 10
      | Some p \<Rightarrow> (case quality p of None \<Rightarrow> 9 / 10 | Some q \<Rightarrow> q))"

subsection \<open>macOS: MacNodeRuntime\<close>

text \<open>
  The preferences and services the macOS dispatcher calls. Errors are the
  \<^verbatim>\<open>localizedDescription\<close> of what was thrown. \<open>canvasSnapshot\<close> is the snapshot
  file read back as an image (\<open>Inr None\<close> when \<^verbatim>\<open>NSImage(data:)\<close> is \<^verbatim>\<open>nil\<close>);
  \<open>imageWidth\<close> is \<^verbatim>\<open>image.size.width\<close>; \<open>draw\<close> is the image drawn into a new
  image whose width is the given one and whose height keeps the proportion;
  \<open>bitmapRep\<close> is the TIFF bitmap of an image; \<open>representation\<close> is
  \<^verbatim>\<open>rep.representation(using:properties:)\<close> with the compression factor of its
  properties; \<open>cameraSnap\<close> and \<open>cameraClip\<close> stand for the capture and the encoding of
  its payload, from the decoded parameters on; \<open>otherCommand\<close> is the rest of the
  \<^verbatim>\<open>switch\<close>.
\<close>

record ('i, 'r) mac_env =
  canvasEnabled :: bool
  cameraEnabled :: bool
  decodeSnapshotParams :: "string option \<Rightarrow> ClawdisCanvasSnapshotParams option"
  canvasSnapshot :: "string + 'i option"
  imageWidth :: "'i \<Rightarrow> real"
  draw :: "'i \<Rightarrow> int \<Rightarrow> 'i"
  bitmapRep :: "'i \<Rightarrow> 'r option"
  representation :: "'r \<Rightarrow> ClawdisCanvasSnapshotFormat \<Rightarrow> real option \<Rightarrow> string option"
  encodePayload :: "ClawdisCanvasSnapshotFormat \<Rightarrow> string \<Rightarrow> string + string"
  cameraSnap :: "string option \<Rightarrow> string + string"
  cameraClip :: "string option \<Rightarrow> string + string"
  otherCommand :: "BridgeInvokeRequest \<Rightarrow> BridgeInvokeResponse"

text \<open>\<^verbatim>\<open>scaleImage\<close>: the image itself unless a positive \<^verbatim>\<open>maxWidth\<close> is given and the
  image is wider than that.\<close>

definition scaleImage :: "('i, 'r) mac_env \<Rightarrow> 'i \<Rightarrow> int option \<Rightarrow> 'i" where
  "scaleImage e img width =
     (case width of
        None \<Rightarrow> img
      | Some w \<Rightarrow>
          if 0 < w
          then (if 0 < imageWidth e img \<and> real_of_int w < imageWidth e img
                then draw e img w else img)
          else img)"

definition encodeCanvasSnapshot ::
  "('i, 'r) mac_env \<Rightarrow> 'i \<Rightarrow> ClawdisCanvasSnapshotFormat \<Rightarrow> int option \<Rightarrow> real
     \<Rightarrow> (string + string) \<times> call list" where
  "encodeCanvasSnapshot e img fmt width q =
     (let source = scaleImage e img width
      in case bitmapRep e source of
           None \<Rightarrow> (Inl ''snapshot encode failed'', [])
         | Some rep \<Rightarrow>
             (case fmt of
                png \<Rightarrow>
                  (case representation e rep png None of
                     None \<Rightarrow> (Inl ''png encode failed'', [Representation png None])
                   | Some data \<Rightarrow> (Inr data, [Representation png None]))
              | jpeg \<Rightarrow>
                  (let clamped = min 1 (max (5 / 100) q)
                   in case representation e rep jpeg (Some clamped) of
                        None \<Rightarrow> (Inl ''jpeg encode failed'', [Representation jpeg (Some clamped)])
                      | Some data \<Rightarrow> (Inr data, [Representation jpeg (Some clamped)]))))"

definition mac_handleInvoke ::
  "('i, 'r) mac_env \<Rightarrow> BridgeInvokeRequest \<Rightarrow> BridgeInvokeResponse \<times> call list" where
  "mac_handleInvoke e req =
     (let cmd = rq_command req
      in if (startsWith cmd ''canvas.'' \<or> startsWith cmd ''canvas.a2ui.'') \<and> \<not> canvasEnabled e
         then (errorResponse req unavailable ''CANVAS_DISABLED: enable Canvas in Settings'', [])
         else if cmd = canvas_snapshot then
           (let params = decodeSnapshotParams e (rq_paramsJSON req);
                fmt = snapshotFormat params;
                width = snapshotMaxWidth params;
                q = snapshotQuality params
            in case canvasSnapshot e of
                 Inl thrown \<Rightarrow> (errorResponse req unavailable thrown, [DecodeParams, CanvasSnapshot])
               | Inr None \<Rightarrow>
                   (errorResponse req unavailable ''canvas snapshot decode failed'',
                    [DecodeParams, CanvasSnapshot])
               | Inr (Some img) \<Rightarrow>
                   (let enc = encodeCanvasSnapshot e img fmt width q
                    in case fst enc of
                         Inl thrown \<Rightarrow>
                           (errorResponse req unavailable thrown,
                            [DecodeParams, CanvasSnapshot] @ snd enc)
                       | Inr data \<Rightarrow>
                           (case encodePayload e fmt data of
                              Inl thrown \<Rightarrow>
                                (errorResponse req unavailable thrown,
                                 [DecodeParams, CanvasSnapshot] @ snd enc @ [EncodePayload])
                            | Inr payload \<Rightarrow>
                                (okResponse req (Some payload),
                                 [DecodeParams, CanvasSnapshot] @ snd enc @ [EncodePayload]))))
         else if cmd = camera_snap then
           (if \<not> cameraEnabled e
            then (errorResponse req unavailable ''CAMERA_DISABLED: enable Camera in Settings'', [])
            else (case cameraSnap e (rq_paramsJSON req) of
                    Inl thrown \<Rightarrow> (errorResponse req unavailable thrown, [DecodeParams, CameraSnap])
                  | Inr payload \<Rightarrow> (okResponse req (Some payload), [DecodeParams, CameraSnap])))
         else if cmd = camera_clip then
           (if \<not> cameraEnabled e
            then (errorResponse req unavailable ''CAMERA_DISABLED: enable Camera in Settings'', [])
            else (case cameraClip e (rq_paramsJSON req) of
                    Inl thrown \<Rightarrow> (errorResponse req unavailable thrown, [DecodeParams, CameraClip])
                  | Inr payload \<Rightarrow> (okResponse req (Some payload), [DecodeParams, CameraClip])))
         else (otherCommand e req, [OtherCommand]))"

subsection \<open>iOS: NodeAppModel\<close>

text \<open>The right arrows of the iOS message, in UTF-8.\<close>

definition arrow :: string where
  "arrow = [char_of (226 :: nat), char_of (134 :: nat), char_of (146 :: nat)]"

text \<open>
  The state and services the iOS dispatcher calls. \<open>renderBase64\<close> stands for the
  rendering and encoding of the screen at a width, in a format and with a JPEG
  quality; \<open>ios_cameraSnap\<close> and \<open>ios_cameraClip\<close> stand for the capture and the
  encoding of its payload, from the decoded parameters on; \<open>ios_otherCommand\<close> is the
  rest of the \<^verbatim>\<open>switch\<close>.
\<close>

record ios_env =
  isBackgrounded :: bool
  isCameraEnabled :: bool
  ios_decodeSnapshotParams :: "string option \<Rightarrow> ClawdisCanvasSnapshotParams option"
  renderBase64 :: "int option \<Rightarrow> ClawdisCanvasSnapshotFormat \<Rightarrow> real \<Rightarrow> string + string"
  ios_encodePayload :: "ClawdisCanvasSnapshotFormat \<Rightarrow> string \<Rightarrow> string + string"
  ios_cameraSnap :: "string option \<Rightarrow> string + string"
  ios_cameraClip :: "string option \<Rightarrow> string + string"
  ios_otherCommand :: "BridgeInvokeRequest \<Rightarrow> BridgeInvokeResponse"

text \<open>
  Modelled from the spec: \<^verbatim>\<open>ScreenController.snapshotBase64(maxWidth:format:quality:)\<close>
  is not among the files at hand. By the spec's snapshot defaults (JPEG quality 0.9,
  quality clamped to [0.05, 1.0]) the quality it applies is the one it is given, 0.9
  when it is given none, clamped to that interval.
\<close>

definition screen_quality :: "real option \<Rightarrow> real" where
  "screen_quality q = min 1 (max (5 / 100) (case q of None \<Rightarrow> 9 / 10 | Some x \<Rightarrow> x))"

definition screen_snapshotBase64 ::
  "ios_env \<Rightarrow> int option \<Rightarrow> ClawdisCanvasSnapshotFormat \<Rightarrow> real option \<Rightarrow> string + string" where
  "screen_snapshotBase64 e width fmt q = renderBase64 e width fmt (screen_quality q)"

definition ios_handleInvoke ::
  "ios_env \<Rightarrow> BridgeInvokeRequest \<Rightarrow> BridgeInvokeResponse \<times> call list" where
  "ios_handleInvoke e req =
     (let cmd = rq_command req
      in if (startsWith cmd ''canvas.'' \<or> startsWith cmd ''camera.'' \<or> startsWith cmd ''screen.'')
            \<and> isBackgrounded e
         then (errorResponse req backgroundUnavailable
                 ''NODE_BACKGROUND_UNAVAILABLE: canvas/camera/screen commands require foreground'',
               [])
         else if startsWith cmd ''camera.'' \<and> \<not> isCameraEnabled e
         then (errorResponse req unavailable
                 (''CAMERA_DISABLED: enable Camera in iOS Settings '' @ arrow @ '' Camera ''
                  @ arrow @ '' Allow Camera''),
               [])
         else if cmd = canvas_snapshot then
           (let params = ios_decodeSnapshotParams e (rq_paramsJSON req);
                fmt = snapshotFormat params;
                width = snapshotMaxWidth params;
                q = (case params of None \<Rightarrow> None | Some p \<Rightarrow> quality p)
            in case screen_snapshotBase64 e width fmt q of
                 Inl thrown \<Rightarrow>
                   (errorResponse req unavailable thrown, [DecodeParams, SnapshotBase64 width fmt q])
               | Inr base64 \<Rightarrow>
                   (case ios_encodePayload e fmt base64 of
                      Inl thrown \<Rightarrow>
                        (errorResponse req unavailable thrown,
                         [DecodeParams, SnapshotBase64 width fmt q, EncodePayload])
                    | Inr payload \<Rightarrow>
                        (okResponse req (Some payload),
                         [DecodeParams, SnapshotBase64 width fmt q, EncodePayload])))
         else if cmd = camera_snap then
           (case ios_cameraSnap e (rq_paramsJSON req) of
              Inl thrown \<Rightarrow>
                (errorResponse req unavailable thrown,
                 [ShowCameraHUD photo, TriggerCameraFlash, DecodeParams, CameraSnap,
                  ShowCameraHUD hudError])
            | Inr payload \<Rightarrow>
                (okResponse req (Some payload),
                 [ShowCameraHUD photo, TriggerCameraFlash, DecodeParams, CameraSnap,
                  ShowCameraHUD success]))
         else if cmd = camera_clip then
           (case ios_cameraClip e (rq_paramsJSON req) of
              Inl thrown \<Rightarrow>
                (errorResponse req unavailable thrown,
                 [DecodeParams, ShowCameraHUD recording, CameraClip, ShowCameraHUD hudError])
            | Inr payload \<Rightarrow>
                (okResponse req (Some payload),
                 [DecodeParams, ShowCameraHUD recording, CameraClip, ShowCameraHUD success]))
         else (ios_otherCommand e req, [OtherCommand]))"

section \<open>Predicates of the specification\<close>

text \<open>A code as the specification words it: non-empty, of uppercase letters and
  underscores only.\<close>

definition validCode :: "string \<Rightarrow> bool" where
  "validCode c = (c \<noteq> [] \<and> (\<forall>ch \<in> set c. isUpperCase ch \<or> ch = CHR ''_''))"

text \<open>The loopback hosts the specification lists: \<^verbatim>\<open>localhost\<close>, \<^verbatim>\<open>127.*\<close>,
  \<^verbatim>\<open>::1\<close>, \<^verbatim>\<open>0.0.0.0\<close> and \<^verbatim>\<open>::\<close>.\<close>

definition loopbackName :: "string \<Rightarrow> bool" where
  "loopbackName h =
     (h = ''localhost'' \<or> startsWith h ''127.'' \<or> h = ''::1'' \<or> h = ''0.0.0.0'' \<or> h = ''::'')"

text \<open>The first non-empty text of a list, in priority order; empty when there is none.\<close>

definition firstNonEmpty :: "string list \<Rightarrow> string" where
  "firstNonEmpty xs = (case filter (\<lambda>x. x \<noteq> []) xs of [] \<Rightarrow> [] | x # rest \<Rightarrow> x)"

definition trimmedOrEmpty :: "string option \<Rightarrow> string" where
  "trimmedOrEmpty v = (case v of None \<Rightarrow> [] | Some x \<Rightarrow> trim x)"

text \<open>A line that parses to a \<^verbatim>\<open>hello-ok\<close> frame.\<close>

definition isHelloOk :: "line \<Rightarrow> bool" where
  "isHelloOk l =
     (case l of
        Json (JsonObject first) \<Rightarrow> asStringOrNull (map_of first ''type'') = Some ''hello-ok''
      | _ \<Rightarrow> False)"

text \<open>The fields of a frame, when the line parses to an object.\<close>

definition frameOf :: "line \<Rightarrow> (string \<times> JsonElement) list" where
  "frameOf l = (case l of Json (JsonObject first) \<Rightarrow> first | _ \<Rightarrow> [])"

text \<open>The name, and the canvas host URL as advertised, that \<^verbatim>\<open>connectOnce\<close> reads
  from a \<^verbatim>\<open>hello-ok\<close> frame.\<close>

definition advertisedName :: "(string \<times> JsonElement) list \<Rightarrow> string" where
  "advertisedName first =
     (case asStringOrNull (map_of first ''serverName'') of None \<Rightarrow> ''Bridge'' | Some n \<Rightarrow> n)"

definition advertisedCanvasUrl :: "(string \<times> JsonElement) list \<Rightarrow> string option" where
  "advertisedCanvasUrl first =
     (case asStringOrNull (map_of first ''canvasHostUrl'') of
        None \<Rightarrow> None
      | Some u \<Rightarrow> if trim u = [] then None else Some (trim u))"

text \<open>A \<^verbatim>\<open>res\<close> line for a request id, with its \<^verbatim>\<open>ok\<close> flag and payload.\<close>

definition resLine :: "string \<times> bool \<times> string option \<Rightarrow> line" where
  "resLine r =
     Json (JsonObject
       [(''type'', JsonPrimitive ''res''), (''id'', JsonPrimitive (fst r)),
        (''ok'', JsonPrimitive (if fst (snd r) then ''true'' else ''false'')),
        (''payloadJSON'', orNull (snd (snd r)))])"

definition resResponse :: "string \<times> bool \<times> string option \<Rightarrow> RpcResponse" where
  "resResponse r =
     \<lparr>res_id = fst r, res_ok = fst (snd r), res_payloadJson = snd (snd r), res_error = None\<rparr>"

text \<open>A session and a connection to try the definitions on.\<close>

definition exampleEnv :: env where
  "exampleEnv = \<lparr>newURI = exampleURI, onInvoke = (\<lambda>r. Inr (InvokeResult_ok None))\<rparr>"

definition exampleEndpoint :: BridgeEndpoint where
  "exampleEndpoint =
     \<lparr>host = ''203.0.113.9'', port = 18790, lanHost = None, tailnetDns = None,
      canvasPort = None\<rparr>"

definition exampleHello :: Hello where
  "exampleHello =
     \<lparr>nodeId = ''n1'', displayName = None, token = None, platform = None, version = None,
      deviceFamily = None, modelIdentifier = None, caps = None, commands = None\<rparr>"

definition helloOkLine :: "string \<Rightarrow> line" where
  "helloOkLine url =
     Json (JsonObject
       [(''type'', JsonPrimitive ''hello-ok''), (''serverName'', JsonPrimitive ''gw''),
        (''canvasHostUrl'', JsonPrimitive url)])"

definition pingLine :: line where
  "pingLine = Json (JsonObject [(''type'', JsonPrimitive ''ping''), (''id'', JsonPrimitive ''p1'')])"

definition parseError :: Throwable where
  "parseError = \<lparr>exn_message = Some ''Unexpected JSON token'', simpleName = ''JsonDecodingException''\<rparr>"

text \<open>A waiter that was in the table stays there while its deferred is active.\<close>

definition waiting :: "session \<Rightarrow> nat \<Rightarrow> bool" where
  "waiting s h = (h \<in> snd ` set (pending s) \<or> deferreds s h \<noteq> Some Active)"

text \<open>
  The correlation table of a session as \<^verbatim>\<open>request\<close> builds it: one entry for an id, a
  deferred of its own for every entry, allocated before.
\<close>

definition wellFormed :: "session \<Rightarrow> bool" where
  "wellFormed s =
     (distinct (map fst (pending s)) \<and> distinct (map snd (pending s))
      \<and> (\<forall>kv \<in> set (pending s). snd kv < allocated s))"

text \<open>A connected session with two requests outstanding.\<close>

definition twoRequests :: session where
  "twoRequests =
     (case request ''r1'' ''voicewake.get'' (Some ''{}'')
             (newSession\<lparr>currentConnection := Some None\<rparr>) of
        Inl x \<Rightarrow> newSession
      | Inr a \<Rightarrow>
          (case request ''r2'' ''voicewake.set'' None (snd a) of
             Inl x \<Rightarrow> newSession
           | Inr b \<Rightarrow> snd b))"

definition connectionReset :: Throwable where
  "connectionReset = \<lparr>exn_message = Some ''Connection reset'', simpleName = ''SocketException''\<rparr>"

text \<open>The example session once \<^verbatim>\<open>hello-ok\<close> with the URL \<^verbatim>\<open>http://10.0.0.5:18793\<close>
  has been processed.\<close>

definition exampleConnected :: session where
  "exampleConnected =
     emit (OnConnected ''gw'' None)
       ((emit (Sent (helloFrame exampleHello)) (newSession\<lparr>currentConnection := Some None\<rparr>))
          \<lparr>canvasHostUrl := Some ''http://10.0.0.5:18793''\<rparr>)"

text \<open>The exception of a cancelled job.\<close>

definition jobCancelled :: Throwable where
  "jobCancelled =
     \<lparr>exn_message = Some ''StandaloneCoroutine was cancelled'',
      simpleName = ''JobCancellationException''\<rparr>"

definition bogusLine :: line where
  "bogusLine = Json (JsonObject [(''type'', JsonPrimitive ''bogus'')])"

text \<open>The delays a trace sleeps, in order.\<close>

definition delays :: "event list \<Rightarrow> int list" where
  "delays t = concat (map (\<lambda>ev. case ev of Delay ms \<Rightarrow> [ms] | _ \<Rightarrow> []) t)"


text \<open>A macOS node and an iOS node with the camera switched off, and a macOS node whose
  camera is on and fails; every other service answers.\<close>

text \<open>An image is given by its width here, and a bitmap by the width of its image.\<close>

definition exampleMac :: "bool \<Rightarrow> (int, int) mac_env" where
  "exampleMac camera =
     \<lparr>canvasEnabled = True, cameraEnabled = camera,
      decodeSnapshotParams = (\<lambda>json. None),
      canvasSnapshot = Inr (Some 2000),
      imageWidth = real_of_int,
      draw = (\<lambda>img width. width),
      bitmapRep = Some,
      representation = (\<lambda>rep fmt factor. if rep = 1600 \<and> fmt = jpeg \<and> factor = Some (9 / 10)
                                       then Some ''jpeg 1600 0.9'' else None),
      encodePayload = (\<lambda>fmt data. Inr data),
      cameraSnap = (\<lambda>json. Inl ''camera failed''),
      cameraClip = (\<lambda>json. Inl ''camera failed''),
      otherCommand = (\<lambda>req. okResponse req None)\<rparr>"

definition exampleIos :: "bool \<Rightarrow> ios_env" where
  "exampleIos background =
     \<lparr>isBackgrounded = background, isCameraEnabled = False,
      ios_decodeSnapshotParams = (\<lambda>json. None),
      renderBase64 = (\<lambda>width fmt q. if width = Some 1600 \<and> fmt = jpeg \<and> q = 9 / 10
                                    then Inr ''jpeg 1600 0.9'' else Inl ''other''),
      ios_encodePayload = (\<lambda>fmt data. Inr data),
      ios_cameraSnap = (\<lambda>json. Inr ''{}''),
      ios_cameraClip = (\<lambda>json. Inr ''{}''),
      ios_otherCommand = (\<lambda>req. okResponse req None)\<rparr>"

definition snapRequest :: BridgeInvokeRequest where
  "snapRequest = \<lparr>rq_id = ''1'', rq_command = ''camera.snap'', rq_paramsJSON = None\<rparr>"

definition snapshotRequest :: BridgeInvokeRequest where
  "snapshotRequest = \<lparr>rq_id = ''2'', rq_command = ''canvas.snapshot'', rq_paramsJSON = None\<rparr>"

section \<open>Lemmas on strings\<close>

lemma dropWhile_all: "(\<forall>x\<in>set (dropWhile P xs). P x) \<longleftrightarrow> (\<forall>x\<in>set xs. P x)"
  by (induction xs) auto

lemma trim_empty_iff: "trim m = [] \<longleftrightarrow> isBlank m"
  by (simp add: trim_def isBlank_def list_all_iff dropWhile_eq_Nil_conv dropWhile_all)

lemma split_colon_decomp:
  "CHR '':'' \<notin> set pre \<Longrightarrow> split_colon (pre @ CHR '':'' # post) = [pre, post]"
  by (induction pre) (auto simp: split_colon_def)

lemma split_colon_none: "CHR '':'' \<notin> set s \<Longrightarrow> split_colon s = [s]"
  by (simp add: split_colon_def)

lemma colon_decomp:
  "CHR '':'' \<in> set s \<Longrightarrow> \<exists>pre post. s = pre @ CHR '':'' # post \<and> CHR '':'' \<notin> set pre"
  by (metis split_list_first)

lemma dropWhile_all_Nil: "(\<forall>x\<in>set (dropWhile P xs). P x) \<longleftrightarrow> dropWhile P xs = []"
  by (metis dropWhile_eq_Nil_conv dropWhile_all)

lemma isBlank_trim: "isBlank (trim r) \<longleftrightarrow> trim r = []"
  by (simp add: trim_def isBlank_def list_all_iff dropWhile_all_Nil)

lemma isLoopbackHost_iff: "isLoopbackHost (Some h) = loopbackName (lowercase (trim h))"
  by (auto simp: isLoopbackHost_def loopbackName_def Let_def startsWith_def)

lemma trim_prefix: "\<exists>u. dropWhile isWhitespace s = trim s @ u"
  unfolding trim_def by (metis takeWhile_dropWhile_id rev_append rev_rev_ident)

lemma trim_hd: "trim s \<noteq> [] \<Longrightarrow> \<not> isWhitespace (hd (trim s))"
proof -
  assume n: "trim s \<noteq> []"
  obtain u where u: "dropWhile isWhitespace s = trim s @ u"
    using trim_prefix by blast
  with n have "hd (trim s) = hd (dropWhile isWhitespace s)" by simp
  moreover from u n have "dropWhile isWhitespace s \<noteq> []" by auto
  ultimately show ?thesis by (simp add: hd_dropWhile)
qed

lemma dropWhile_trim: "dropWhile isWhitespace (trim s) = trim s"
proof (cases "trim s")
  case Nil
  then show ?thesis by simp
next
  case (Cons c cs)
  with trim_hd [of s] have "\<not> isWhitespace c" by simp
  with Cons show ?thesis by simp
qed

lemma trim_trim: "trim (trim s) = trim s"
proof -
  have "dropWhile isWhitespace (rev (trim s)) = rev (trim s)"
    by (simp add: trim_def)
  then show ?thesis
    by (metis dropWhile_trim rev_rev_ident trim_def)
qed

lemma trim_Nil: "trim [] = []"
  by (simp add: trim_def)

lemma isBlank_Nil: "isBlank []"
  by (simp add: isBlank_def)

lemma showNat_digit: "n < 10 \<Longrightarrow> showNat n = [char_of (48 + n)]"
  by (simp add: showNat.simps)

lemma showNat_step:
  "10 \<le> n \<Longrightarrow> showNat n = showNat (n div 10) @ [char_of (48 + n mod 10)]"
  by (subst showNat.simps) simp

lemma digit_chars:
  "char_of (48 :: nat) = CHR ''0''" "char_of (49 :: nat) = CHR ''1''"
  "char_of (50 :: nat) = CHR ''2''" "char_of (51 :: nat) = CHR ''3''"
  "char_of (52 :: nat) = CHR ''4''" "char_of (53 :: nat) = CHR ''5''"
  "char_of (54 :: nat) = CHR ''6''" "char_of (55 :: nat) = CHR ''7''"
  "char_of (56 :: nat) = CHR ''8''" "char_of (57 :: nat) = CHR ''9''"
  by code_simp+

lemmas showInt_eval = showInt_def showNat_digit showNat_step digit_chars

lemma showInt_9000: "showInt 9000 = ''9000''"
  by (simp add: showInt_eval)

lemma showInt_18793: "showInt 18793 = ''18793''"
  by (simp add: showInt_eval)

section \<open>Lemmas on canvas host resolution\<close>

lemma normalizeCanvasHostUrl_cases:
  assumes "trimmed = trimmedOrEmpty raw"
    and "parsed = (if trimmed = [] then None else parseURI trimmed)"
    and "advertisedHost = (case parsed of None \<Rightarrow> [] | Some u \<Rightarrow> trimmedOrEmpty (uri_host u))"
    and "advertisedScheme = (case parsed of None \<Rightarrow> [] | Some u \<Rightarrow> trimmedOrEmpty (uri_scheme u))"
    and "advertisedPort = (case parsed of None \<Rightarrow> - 1 | Some u \<Rightarrow> uri_port u)"
    and "fallbackHost = firstNonEmpty [trimmedOrEmpty (tailnetDns endpoint),
                                       trimmedOrEmpty (lanHost endpoint), trim (host endpoint)]"
    and "fallbackPort = (case canvasPort endpoint of
                           Some p \<Rightarrow> p
                         | None \<Rightarrow> if advertisedPort > 0 then advertisedPort else 18793)"
  shows "normalizeCanvasHostUrl parseURI raw endpoint =
           (if trimmed \<noteq> [] \<and> \<not> loopbackName (lowercase advertisedHost) then Some trimmed
            else if fallbackHost = [] then (if trimmed = [] then None else Some trimmed)
            else Some ((if isBlank advertisedScheme then ''http'' else advertisedScheme)
                       @ ''://''
                       @ (if CHR '':'' \<in> set fallbackHost then ''['' @ fallbackHost @ '']''
                          else fallbackHost)
                       @ '':'' @ showInt fallbackPort))"
proof -
  have b: "isBlank trimmed \<longleftrightarrow> trimmed = []"
    using assms(1) by (auto simp: trimmedOrEmpty_def isBlank_trim isBlank_Nil split: option.splits)
  have l: "isLoopbackHost (Some advertisedHost) = loopbackName (lowercase advertisedHost)"
    using assms(3)
    by (auto simp: isLoopbackHost_iff trimmedOrEmpty_def trim_trim trim_Nil split: option.splits)
  have f: "fallbackHost =
             (case (case tailnetDns endpoint of None \<Rightarrow> None
                    | Some t \<Rightarrow> if trim t = [] then None else Some (trim t)) of
                Some t \<Rightarrow> t
              | None \<Rightarrow>
                  (case (case lanHost endpoint of None \<Rightarrow> None
                         | Some l \<Rightarrow> if trim l = [] then None else Some (trim l)) of
                     Some l \<Rightarrow> l
                   | None \<Rightarrow> trim (host endpoint)))"
    using assms(6) by (simp add: firstNonEmpty_def trimmedOrEmpty_def split: option.splits)
  have r: "trimmed = (case raw of None \<Rightarrow> [] | Some r \<Rightarrow> trim r)"
    using assms(1) by (simp add: trimmedOrEmpty_def)
  have p: "parsed = (if \<not> isBlank trimmed then parseURI trimmed else None)"
    using assms(2) b by simp
  have h: "advertisedHost = (case parsed of None \<Rightarrow> []
                  | Some u \<Rightarrow> (case uri_host u of None \<Rightarrow> [] | Some h \<Rightarrow> trim h))"
    using assms(3) by (simp add: trimmedOrEmpty_def split: option.splits)
  have sc: "advertisedScheme = (case parsed of None \<Rightarrow> []
                     | Some u \<Rightarrow> (case uri_scheme u of None \<Rightarrow> [] | Some x \<Rightarrow> trim x))"
    using assms(4) by (simp add: trimmedOrEmpty_def split: option.splits)
  have n: "normalizeCanvasHostUrl parseURI raw endpoint =
             (if \<not> isBlank trimmed \<and> \<not> isLoopbackHost (Some advertisedHost) then Some trimmed
              else if fallbackHost = [] then (if isBlank trimmed then None else Some trimmed)
              else Some ((if isBlank advertisedScheme then ''http'' else advertisedScheme)
                        @ ''://''
                        @ (if CHR '':'' \<in> set fallbackHost then ''['' @ fallbackHost @ '']''
                           else fallbackHost)
                        @ '':'' @ showInt fallbackPort))"
    unfolding normalizeCanvasHostUrl_def Let_def r [symmetric]
    unfolding p [symmetric] h [symmetric] sc [symmetric] f [symmetric]
      assms(5) [symmetric] assms(7) [symmetric]
    by simp
  show ?thesis
    unfolding n l b by simp
qed

lemma normalize_example_verbatim:
  "normalizeCanvasHostUrl exampleURI (Some ''http://10.0.0.5:18793'') exampleEndpoint
     = Some ''http://10.0.0.5:18793''"
proof -
  let ?u = "\<lparr>uri_scheme = Some ''http'', uri_host = Some ''10.0.0.5'', uri_port = 18793\<rparr>"
  have a1: "''http://10.0.0.5:18793'' = trimmedOrEmpty (Some ''http://10.0.0.5:18793'')"
    by code_simp
  have a2: "Some ?u = (if ''http://10.0.0.5:18793'' = [] then None
                       else exampleURI ''http://10.0.0.5:18793'')"
    by code_simp
  have a3: "''10.0.0.5'' = (case Some ?u of None \<Rightarrow> [] | Some u \<Rightarrow> trimmedOrEmpty (uri_host u))"
    by code_simp
  have a4: "''http'' = (case Some ?u of None \<Rightarrow> [] | Some u \<Rightarrow> trimmedOrEmpty (uri_scheme u))"
    by code_simp
  have a5: "18793 = (case Some ?u of None \<Rightarrow> - 1 | Some u \<Rightarrow> uri_port u)"
    by simp
  have a6: "''203.0.113.9'' = firstNonEmpty [trimmedOrEmpty (tailnetDns exampleEndpoint),
                                trimmedOrEmpty (lanHost exampleEndpoint),
                                trim (host exampleEndpoint)]"
    by code_simp
  have a7: "18793 = (case canvasPort exampleEndpoint of
                       Some p \<Rightarrow> p
                     | None \<Rightarrow> if (18793 :: int) > 0 then 18793 else 18793)"
    by (simp add: exampleEndpoint_def)
  have l: "\<not> loopbackName (lowercase ''10.0.0.5'')"
    by code_simp
  show ?thesis
    unfolding normalizeCanvasHostUrl_cases
      [where parseURI = exampleURI and trimmed = "''http://10.0.0.5:18793''"
         and raw = "Some ''http://10.0.0.5:18793''", OF a1 a2 a3 a4 a5 a6 a7]
    using l by simp
qed

lemma normalize_example_loopback:
  "normalizeCanvasHostUrl exampleURI (Some ''http://127.0.0.1:9000'') exampleEndpoint
     = Some ''http://203.0.113.9:9000''"
proof -
  let ?u = "\<lparr>uri_scheme = Some ''http'', uri_host = Some ''127.0.0.1'', uri_port = 9000\<rparr>"
  have a1: "''http://127.0.0.1:9000'' = trimmedOrEmpty (Some ''http://127.0.0.1:9000'')"
    by code_simp
  have a2: "Some ?u = (if ''http://127.0.0.1:9000'' = [] then None
                       else exampleURI ''http://127.0.0.1:9000'')"
    by code_simp
  have a3: "''127.0.0.1'' = (case Some ?u of None \<Rightarrow> [] | Some u \<Rightarrow> trimmedOrEmpty (uri_host u))"
    by code_simp
  have a4: "''http'' = (case Some ?u of None \<Rightarrow> [] | Some u \<Rightarrow> trimmedOrEmpty (uri_scheme u))"
    by code_simp
  have a5: "9000 = (case Some ?u of None \<Rightarrow> - 1 | Some u \<Rightarrow> uri_port u)"
    by simp
  have a6: "''203.0.113.9'' = firstNonEmpty [trimmedOrEmpty (tailnetDns exampleEndpoint),
                                trimmedOrEmpty (lanHost exampleEndpoint),
                                trim (host exampleEndpoint)]"
    by code_simp
  have a7: "9000 = (case canvasPort exampleEndpoint of
                      Some p \<Rightarrow> p
                    | None \<Rightarrow> if (9000 :: int) > 0 then 9000 else 18793)"
    by (simp add: exampleEndpoint_def)
  have l: "loopbackName (lowercase ''127.0.0.1'')"
    by code_simp
  have s: "\<not> isBlank ''http''"
    by code_simp
  show ?thesis
    unfolding normalizeCanvasHostUrl_cases
      [where parseURI = exampleURI and trimmed = "''http://127.0.0.1:9000''"
         and raw = "Some ''http://127.0.0.1:9000''", OF a1 a2 a3 a4 a5 a6 a7]
    using l s by (simp add: showInt_9000)
qed

section \<open>Lemmas on the read loop, the teardown and the supervisor\<close>

lemma emit_simps [simp]:
  "canvasHostUrl (emit ev s) = canvasHostUrl s"
  "currentConnection (emit ev s) = currentConnection s"
  "pending (emit ev s) = pending s"
  "deferreds (emit ev s) = deferreds s"
  "allocated (emit ev s) = allocated s"
  "trace (emit ev s) = trace s @ [ev]"
  by (simp_all add: emit_def)

lemma pending_remove_absent: "map_of p i = None \<Longrightarrow> pending_remove i p = p"
  by (induction p) (auto simp: pending_remove_def split: if_splits)

lemma completePending_simps [simp]:
  "canvasHostUrl (completePending i r s) = canvasHostUrl s"
  "currentConnection (completePending i r s) = currentConnection s"
  "allocated (completePending i r s) = allocated s"
  "trace (completePending i r s) = trace s"
  "pending (completePending i r s) = pending_remove i (pending s)"
  by (auto simp: completePending_def pending_remove_absent split: option.splits)

lemma handleFrame_frame:
  assumes "handleFrame e frame s = Some s'"
  shows "canvasHostUrl s' = canvasHostUrl s" and "currentConnection s' = currentConnection s"
    and "allocated s' = allocated s"
  using assms
  by (auto simp: handleFrame_def Let_def split: option.splits if_splits)

lemma readLoop_frame:
  "canvasHostUrl (snd (readLoop e input s)) = canvasHostUrl s
   \<and> currentConnection (snd (readLoop e input s)) = currentConnection s"
proof (induction e input s rule: readLoop.induct)
  case (4 e el rest s)
  then show ?case
    by (auto split: option.splits dest: handleFrame_frame)
qed simp_all


lemma complete_not_Active [simp]: "complete r d \<noteq> Active"
  by (simp add: complete_def split: Deferred.splits)

lemma cancel_not_Active [simp]: "cancel d \<noteq> Active"
  by (simp add: cancel_def split: Deferred.splits)

lemma completePending_deferreds:
  "deferreds (completePending i r s) =
     (case map_of (pending s) i of
        None \<Rightarrow> deferreds s
      | Some h \<Rightarrow> (deferreds s)(h := map_option (complete r) (deferreds s h)))"
  by (simp add: completePending_def split: option.splits)

lemma pending_remove_subset: "set (pending_remove i p) \<subseteq> set p"
  by (auto simp: pending_remove_def)

lemma pending_remove_distinct:
  "distinct (map fst p) \<Longrightarrow> distinct (map fst (pending_remove i p))"
  "distinct (map snd p) \<Longrightarrow> distinct (map snd (pending_remove i p))"
  by (simp_all add: pending_remove_def distinct_map_filter)

text \<open>One frame changes the table and the store only by \<open>completePending\<close>.\<close>

lemma handleFrame_table:
  assumes "handleFrame e frame s = Some s'"
  shows "(pending s' = pending s \<and> deferreds s' = deferreds s)
         \<or> (\<exists>i r. pending s' = pending (completePending i r s)
                  \<and> deferreds s' = deferreds (completePending i r s))"
  using assms
  by (auto simp: handleFrame_def Let_def split: option.splits if_splits)

lemma handleFrame_pending_subset:
  assumes "handleFrame e frame s = Some s'"
  shows "set (pending s') \<subseteq> set (pending s)"
  using handleFrame_table [OF assms] pending_remove_subset by fastforce

lemma handleFrame_distinct:
  assumes "handleFrame e frame s = Some s'" and "distinct (map fst (pending s))"
  shows "distinct (map fst (pending s'))"
  using handleFrame_table [OF assms(1)] assms(2) pending_remove_distinct(1) by fastforce

lemma handleFrame_deferreds_other:
  assumes "handleFrame e frame s = Some s'" and "h \<notin> snd ` set (pending s)"
  shows "deferreds s' h = deferreds s h"
proof -
  have "deferreds (completePending i r s) h = deferreds s h" for i r
    using assms(2)
    by (auto simp: completePending_deferreds image_iff split: option.splits
             dest!: map_of_SomeD)
  then show ?thesis
    using handleFrame_table [OF assms(1)] by auto
qed


lemma completePending_waiting:
  assumes "distinct (map fst (pending s))" and "waiting s h"
  shows "waiting (completePending i r s) h"
proof (cases "map_of (pending s) i")
  case None
  then show ?thesis using assms(2) by (simp add: completePending_def)
next
  case (Some h0)
  show ?thesis
  proof (cases "h = h0")
    case True
    then show ?thesis
      by (simp add: waiting_def completePending_deferreds Some)
  next
    case False
    have d: "deferreds (completePending i r s) h = deferreds s h"
      using False by (simp add: completePending_deferreds Some)
    show ?thesis
    proof (cases "deferreds s h = Some Active")
      case False
      then show ?thesis by (simp add: waiting_def d)
    next
      case True
      with assms(2) obtain j where j: "(j, h) \<in> set (pending s)"
        by (auto simp: waiting_def)
      have "map_of (pending s) j = Some h"
        using assms(1) j by simp
      with Some \<open>h \<noteq> h0\<close> have "j \<noteq> i" by auto
      with j have "(j, h) \<in> set (pending_remove i (pending s))"
        by (simp add: pending_remove_def)
      then show ?thesis
        by (force simp: waiting_def)
    qed
  qed
qed

lemma handleFrame_waiting:
  assumes "handleFrame e frame s = Some s'" and "distinct (map fst (pending s))"
    and "waiting s h"
  shows "waiting s' h"
proof -
  from handleFrame_table [OF assms(1)]
  consider "pending s' = pending s \<and> deferreds s' = deferreds s"
    | i r where "pending s' = pending (completePending i r s)"
        "deferreds s' = deferreds (completePending i r s)"
    by blast
  then show ?thesis
  proof cases
    case 1
    then show ?thesis using assms(3) by (simp add: waiting_def)
  next
    case 2
    with completePending_waiting [OF assms(2,3), of i r] show ?thesis
      by (simp add: waiting_def)
  qed
qed

lemma readLoop_waiting:
  "distinct (map fst (pending s)) \<Longrightarrow> waiting s h \<Longrightarrow> waiting (snd (readLoop e input s)) h"
proof (induction e input s rule: readLoop.induct)
  case (4 e el rest s)
  show ?case
  proof (cases "asObjectOrNull el")
    case None
    with 4 show ?thesis by simp
  next
    case (Some frame)
    show ?thesis
    proof (cases "handleFrame e frame s")
      case None
      with Some 4 show ?thesis by simp
    next
      case s': (Some s')
      from 4(2) [OF Some s' handleFrame_distinct [OF s' "4.prems"(1)]
                 handleFrame_waiting [OF s' "4.prems"]]
      show ?thesis using Some s' by simp
    qed
  qed
qed simp_all

lemma readLoop_deferreds_other:
  "h \<notin> snd ` set (pending s) \<Longrightarrow> deferreds (snd (readLoop e input s)) h = deferreds s h"
proof (induction e input s rule: readLoop.induct)
  case (4 e el rest s)
  show ?case
  proof (cases "asObjectOrNull el")
    case None
    with 4 show ?thesis by simp
  next
    case (Some frame)
    show ?thesis
    proof (cases "handleFrame e frame s")
      case None
      with Some show ?thesis by simp
    next
      case s': (Some s')
      have "h \<notin> snd ` set (pending s')"
        using handleFrame_pending_subset [OF s'] "4.prems" by auto
      from 4(2) [OF Some s' this] handleFrame_deferreds_other [OF s' "4.prems"]
      show ?thesis using Some s' by simp
    qed
  qed
qed simp_all

lemma connectOnce_finally_simps [simp]:
  "canvasHostUrl (connectOnce_finally s) = canvasHostUrl s"
  "currentConnection (connectOnce_finally s) = None"
  "pending (connectOnce_finally s) = []"
  "allocated (connectOnce_finally s) = allocated s"
  "trace (connectOnce_finally s) = trace s @ [SocketClosed]"
  by (simp_all add: connectOnce_finally_def)

lemma connectOnce_finally_deferreds:
  "deferreds (connectOnce_finally s) h =
     (if h \<in> snd ` set (pending s) then map_option cancel (deferreds s h) else deferreds s h)"
  by (simp add: connectOnce_finally_def)

lemma connectOnce_finally_resolved:
  "waiting s h \<Longrightarrow> deferreds (connectOnce_finally s) h \<noteq> Some Active"
  by (auto simp: waiting_def connectOnce_finally_deferreds)

lemma isHelloOk_cases:
  "isHelloOk l \<Longrightarrow> \<exists>first. l = Json (JsonObject first)
       \<and> asStringOrNull (map_of first ''type'') = Some ''hello-ok''"
  by (auto simp: isHelloOk_def split: line.splits JsonElement.splits)

lemma connectOnce_try_hello_ok:
  assumes "isHelloOk l"
  shows "connectOnce_try e endpoint hello addr (l # rest) s =
           readLoop e rest
             (emit (OnConnected (advertisedName (frameOf l)) addr)
                ((emit (Sent (helloFrame hello)) s)
                   \<lparr>canvasHostUrl :=
                      normalizeCanvasHostUrl (newURI e) (advertisedCanvasUrl (frameOf l))
                        endpoint\<rparr>))"
proof -
  from isHelloOk_cases [OF assms] obtain first where
    f: "l = Json (JsonObject first)" "asStringOrNull (map_of first ''type'') = Some ''hello-ok''"
    by blast
  show ?thesis
    by (simp add: connectOnce_try_def f asObjectOrNull_def frameOf_def advertisedName_def
          advertisedCanvasUrl_def Let_def)
qed

lemma connectOnce_try_rejected:
  assumes "input = [] \<or> \<not> isHelloOk (hd input)"
  shows "\<exists>x. connectOnce_try e endpoint hello addr input s
               = (Some x, emit (Sent (helloFrame hello)) s)"
proof (cases input)
  case Nil
  then show ?thesis by (simp add: connectOnce_try_def)
next
  case (Cons l rest)
  with assms have n: "\<not> isHelloOk l" by simp
  show ?thesis
  proof (cases l)
    case (Json el)
    show ?thesis
    proof (cases "asObjectOrNull el")
      case None
      then show ?thesis by (simp add: connectOnce_try_def Cons Json)
    next
      case (Some first)
      then have "el = JsonObject first"
        by (auto simp: asObjectOrNull_def split: JsonElement.splits)
      with n Json have "asStringOrNull (map_of first ''type'') \<noteq> Some ''hello-ok''"
        by (simp add: isHelloOk_def)
      then show ?thesis
        by (simp add: connectOnce_try_def Cons Json Some Let_def)
    qed
  qed (simp_all add: connectOnce_try_def Cons)
qed

lemma connectOnce_Connects:
  "connectOnce e endpoint hello (Connects addr input) s =
     (fst (connectOnce_try e endpoint hello addr input (s\<lparr>currentConnection := Some addr\<rparr>)),
      connectOnce_finally
        (snd (connectOnce_try e endpoint hello addr input (s\<lparr>currentConnection := Some addr\<rparr>))))"
  by (simp add: connectOnce_def Let_def)

lemma connectOnce_ConnectFails:
  "connectOnce e endpoint hello (ConnectFails x) s = (Some x, s)"
  by (simp add: connectOnce_def)

lemma runLoop_failure:
  assumes "fst (connectOnce e endpoint hello sock
                  (emit (OnDisconnected (if attempt = 0 then ''Connecting'' @ ellipsis
                                         else ''Reconnecting'' @ ellipsis)) s)) = Some x"
  shows "runLoop e (Target endpoint hello sock # its) attempt s =
           runLoop e its (inc32 attempt)
             (emit (Delay (sleepMs (inc32 attempt)))
                (emit (OnDisconnected (''Bridge error: '' @ errorText x))
                   (snd (connectOnce e endpoint hello sock
                           (emit (OnDisconnected (if attempt = 0 then ''Connecting'' @ ellipsis
                                                  else ''Reconnecting'' @ ellipsis)) s)))))"
  using assms by (simp add: Let_def)


lemma helloOkLine_facts:
  "isHelloOk (helloOkLine url)"
  "advertisedName (frameOf (helloOkLine url)) = ''gw''"
  "advertisedCanvasUrl (frameOf (helloOkLine url)) = (if trim url = [] then None else Some (trim url))"
  by (simp_all add: isHelloOk_def helloOkLine_def frameOf_def advertisedName_def
        advertisedCanvasUrl_def asStringOrNull_def)

lemma example_trims:
  "trim ''http://10.0.0.5:18793'' = ''http://10.0.0.5:18793''"
  "trim ''http://127.0.0.1:9000'' = ''http://127.0.0.1:9000''"
  by code_simp+

lemma newURI_exampleEnv: "newURI exampleEnv = exampleURI"
  by (simp add: exampleEnv_def)

lemma inc32_small: "0 \<le> n \<Longrightarrow> n < 2 ^ 31 - 1 \<Longrightarrow> inc32 n = n + 1"
  by (simp add: inc32_def)

lemma wellFormed_newSession: "wellFormed newSession"
  by (simp add: wellFormed_def newSession_def)

lemma wellFormed_connected: "wellFormed s \<Longrightarrow> wellFormed (s\<lparr>currentConnection := c\<rparr>)"
  by (simp add: wellFormed_def)

lemma request_wellFormed:
  assumes "wellFormed s" and "request i method params s = Inr (h, s')"
  shows "wellFormed s'" and "(i, h) \<in> set (pending s')" and "deferreds s' h = Some Active"
proof -
  from assms(2) have c: "currentConnection s \<noteq> None"
    by (auto simp: request_def split: option.splits)
  from assms(2) c have h: "h = allocated s"
    and p: "pending s' = pending_put i (allocated s) (pending s)"
    and a: "allocated s' = Suc (allocated s)"
    and d: "deferreds s' = (deferreds s)(allocated s \<mapsto> Active)"
    by (auto simp: request_def Let_def split: option.splits)
  have lt: "\<forall>kv \<in> set (pending s). snd kv < allocated s"
    using assms(1) by (simp add: wellFormed_def)
  have n: "allocated s \<notin> snd ` set (pending_remove i (pending s))"
    using lt pending_remove_subset [of i "pending s"] by fastforce
  have k: "i \<notin> fst ` set (pending_remove i (pending s))"
    by (auto simp: pending_remove_def)
  show "wellFormed s'"
    using assms(1) lt n k pending_remove_subset [of i "pending s"]
    by (auto simp: wellFormed_def p a pending_put_def pending_remove_distinct less_Suc_eq)
  show "(i, h) \<in> set (pending s')"
    by (simp add: p h pending_put_def)
  show "deferreds s' h = Some Active"
    by (simp add: d h)
qed

lemma completePending_wellFormed:
  "wellFormed s \<Longrightarrow> wellFormed (completePending i r s)"
  using pending_remove_subset [of i "pending s"]
  by (auto simp: wellFormed_def pending_remove_distinct)

lemma true_false_text:
  "lowercase (trim ''true'') = ''true''" "lowercase (trim ''false'') = ''false''"
  by code_simp+

lemma asBooleanOrNull_flag:
  "asBooleanOrNull (Some (JsonPrimitive (if b then ''true'' else ''false''))) = Some b"
  by (simp add: asBooleanOrNull_def Let_def true_false_text)

lemma asStringOrNull_orNull: "asStringOrNull (Some (orNull p)) = p"
  by (simp add: asStringOrNull_def orNull_def split: option.splits)

lemma asBooleanOrNull_text:
  "asBooleanOrNull (Some (JsonPrimitive ''true'')) = Some True"
  "asBooleanOrNull (Some (JsonPrimitive ''false'')) = Some False"
  by (simp_all add: asBooleanOrNull_def Let_def true_false_text)

lemma asStringOrNull_text: "asStringOrNull (Some (JsonPrimitive x)) = Some x"
  by (simp add: asStringOrNull_def)

lemma handleFrame_resLine:
  "handleFrame e (frameOf (resLine r)) s = Some (completePending (fst r) (resResponse r) s)"
proof -
  obtain i b p where r: "r = (i, b, p)"
    by (cases r) auto
  have t: "asStringOrNull (Some (orNull p)) = p"
    by (rule asStringOrNull_orNull)
  show ?thesis
    by (cases b)
       (simp_all add: r handleFrame_def frameOf_def resLine_def resResponse_def Let_def
          resError_def asBooleanOrNull_text asStringOrNull_text t)
qed

lemma readLoop_resLine:
  "readLoop e (resLine r # rest) s =
     readLoop e rest (completePending (fst r) (resResponse r) s)"
  using handleFrame_resLine [of e r s]
  by (simp add: resLine_def frameOf_def asObjectOrNull_def)

lemma readLoop_resLines_returns: "fst (readLoop e (map resLine rs) s) = None"
  by (induction rs arbitrary: s) (simp_all add: readLoop_resLine)

lemma wellFormed_lookup:
  "wellFormed s \<Longrightarrow> (i, h) \<in> set (pending s) \<Longrightarrow> map_of (pending s) i = Some h"
  by (simp add: wellFormed_def)

lemma wellFormed_unique_handle:
  assumes "wellFormed s" and "(i, h) \<in> set (pending s)" and "(j, h) \<in> set (pending s)"
  shows "j = i"
proof -
  have "inj_on snd (set (pending s))"
    using assms(1) by (simp add: wellFormed_def distinct_map)
  from inj_onD [OF this, of "(j, h)" "(i, h)"] assms(2,3) show ?thesis
    by simp
qed

lemma readLoop_resLines_deferred:
  "wellFormed s \<Longrightarrow> (i, h) \<in> set (pending s) \<Longrightarrow> deferreds s h = Some Active
   \<Longrightarrow> deferreds (snd (readLoop e (map resLine rs) s)) h =
         (case find (\<lambda>r. fst r = i) rs of
            None \<Rightarrow> Some Active
          | Some r \<Rightarrow> Some (Completed (resResponse r)))"
proof (induction rs arbitrary: s)
  case Nil
  then show ?case by simp
next
  case (Cons r rs)
  let ?s1 = "completePending (fst r) (resResponse r) s"
  have w1: "wellFormed ?s1"
    using Cons.prems(1) by (rule completePending_wellFormed)
  show ?case
  proof (cases "fst r = i")
    case True
    have m: "map_of (pending s) i = Some h"
      using Cons.prems(1,2) by (rule wellFormed_lookup)
    have d: "deferreds ?s1 h = Some (Completed (resResponse r))"
      using m True Cons.prems(3) by (simp add: completePending_deferreds complete_def)
    have "h \<notin> snd ` set (pending ?s1)"
    proof
      assume "h \<in> snd ` set (pending ?s1)"
      then obtain j where j: "(j, h) \<in> set (pending_remove (fst r) (pending s))"
        by auto
      then have "(j, h) \<in> set (pending s)" and "j \<noteq> i"
        using True by (auto simp: pending_remove_def)
      with wellFormed_unique_handle [OF Cons.prems(1,2)] show False by blast
    qed
    then have "deferreds (snd (readLoop e (map resLine rs) ?s1)) h = deferreds ?s1 h"
      by (rule readLoop_deferreds_other)
    with d True show ?thesis
      by (simp add: readLoop_resLine)
  next
    case False
    have p: "(i, h) \<in> set (pending ?s1)"
      using Cons.prems(2) False by (simp add: pending_remove_def)
    have d: "deferreds ?s1 h = Some Active"
    proof (cases "map_of (pending s) (fst r)")
      case None
      then show ?thesis using Cons.prems(3) by (simp add: completePending_deferreds)
    next
      case (Some h0)
      then have "(fst r, h0) \<in> set (pending s)" by (rule map_of_SomeD)
      with wellFormed_unique_handle [OF Cons.prems(1,2)] False have "h0 \<noteq> h" by blast
      then show ?thesis using Some Cons.prems(3) by (simp add: completePending_deferreds)
    qed
    from Cons.IH [OF w1 p d] False show ?thesis
      by (simp add: readLoop_resLine)
  qed
qed


lemma request_keeps:
  assumes "wellFormed s" and "request j method params s = Inr (h', s')" and "j \<noteq> i"
    and "(i, h) \<in> set (pending s)"
  shows "(i, h) \<in> set (pending s')" and "deferreds s' h = deferreds s h"
proof -
  from assms(2) have c: "currentConnection s \<noteq> None"
    by (auto simp: request_def split: option.splits)
  from assms(2) c have p: "pending s' = pending_put j (allocated s) (pending s)"
    and d: "deferreds s' = (deferreds s)(allocated s \<mapsto> Active)"
    by (auto simp: request_def Let_def split: option.splits)
  show "(i, h) \<in> set (pending s')"
    using assms(3,4) by (simp add: p pending_put_def pending_remove_def)
  have "h < allocated s"
    using assms(1,4) by (auto simp: wellFormed_def)
  then show "deferreds s' h = deferreds s h"
    by (simp add: d)
qed

lemma twoRequests_facts:
  "pending twoRequests = [(''r2'', 1), (''r1'', 0)]"
  "deferreds twoRequests 0 = Some Active"
  "deferreds twoRequests (Suc 0) = Some Active"
  "currentConnection twoRequests = Some None"
  "canvasHostUrl twoRequests = None"
  by (simp_all add: twoRequests_def request_def newSession_def pending_put_def
        pending_remove_def Let_def)

lemma wellFormed_twoRequests: "wellFormed twoRequests"
  by (simp add: wellFormed_def twoRequests_facts)
     (simp add: twoRequests_def request_def newSession_def Let_def)

lemma waiting_cong:
  "pending s' = pending s \<Longrightarrow> deferreds s' = deferreds s \<Longrightarrow> waiting s' h = waiting s h"
  by (simp add: waiting_def)

lemma connectOnce_try_cases:
  "(\<exists>x. connectOnce_try e endpoint hello addr input s = (Some x, emit (Sent (helloFrame hello)) s))
   \<or> (\<exists>rest s1. connectOnce_try e endpoint hello addr input s = readLoop e rest s1
         \<and> pending s1 = pending s \<and> deferreds s1 = deferreds s)"
proof (cases "input = [] \<or> \<not> isHelloOk (hd input)")
  case True
  then show ?thesis using connectOnce_try_rejected by blast
next
  case False
  then obtain l rest where i: "input = l # rest" and h: "isHelloOk l"
    by (cases input) auto
  show ?thesis
    unfolding i connectOnce_try_hello_ok [OF h]
    by (rule disjI2, intro exI conjI, rule refl) simp_all
qed

lemma connectOnce_try_waiting:
  assumes "distinct (map fst (pending s))" and "waiting s h"
  shows "waiting (snd (connectOnce_try e endpoint hello addr input s)) h"
proof -
  from connectOnce_try_cases [of e endpoint hello addr input s]
  consider x where "connectOnce_try e endpoint hello addr input s
                      = (Some x, emit (Sent (helloFrame hello)) s)"
    | rest s1 where "connectOnce_try e endpoint hello addr input s = readLoop e rest s1"
        "pending s1 = pending s" "deferreds s1 = deferreds s"
    by blast
  then show ?thesis
  proof cases
    case 1
    then show ?thesis using assms(2) by (simp add: waiting_def)
  next
    case 2
    have "waiting s1 h" using 2(2,3) assms(2) by (simp add: waiting_def)
    moreover have "distinct (map fst (pending s1))" using 2(2) assms(1) by simp
    ultimately show ?thesis using 2(1) readLoop_waiting by simp
  qed
qed

lemma handleFrame_defined:
  assumes "handleFrame e frame s = Some s'"
  shows "(deferreds s' h = None) = (deferreds s h = None)"
  using handleFrame_table [OF assms]
  by (auto simp: completePending_deferreds split: option.splits if_splits)

lemma readLoop_defined:
  "(deferreds (snd (readLoop e input s)) h = None) = (deferreds s h = None)"
proof (induction e input s rule: readLoop.induct)
  case (4 e el rest s)
  show ?case
  proof (cases "asObjectOrNull el")
    case None
    with 4 show ?thesis by simp
  next
    case (Some frame)
    show ?thesis
    proof (cases "handleFrame e frame s")
      case None
      with Some show ?thesis by simp
    next
      case s': (Some s')
      from 4(2) [OF Some s'] handleFrame_defined [OF s']
      show ?thesis using Some s' by simp
    qed
  qed
qed simp_all

lemma connectOnce_try_defined:
  "(deferreds (snd (connectOnce_try e endpoint hello addr input s)) h = None)
     = (deferreds s h = None)"
proof -
  from connectOnce_try_cases [of e endpoint hello addr input s]
  consider x where "connectOnce_try e endpoint hello addr input s
                      = (Some x, emit (Sent (helloFrame hello)) s)"
    | rest s1 where "connectOnce_try e endpoint hello addr input s = readLoop e rest s1"
        "pending s1 = pending s" "deferreds s1 = deferreds s"
    by blast
  then show ?thesis
  proof cases
    case 1
    then show ?thesis by simp
  next
    case 2
    then show ?thesis by (simp add: readLoop_defined)
  qed
qed

lemma connectOnce_finally_defined:
  "(deferreds (connectOnce_finally s) h = None) = (deferreds s h = None)"
  by (simp add: connectOnce_finally_deferreds)

lemma request_await_Suspended: "(request_await d = Suspended) = (d = Active)"
  by (cases d) (simp_all add: request_await_def)

text \<open>Every waiter of the table is resolved when a connected socket is left.\<close>

lemma connectOnce_resolves:
  assumes "distinct (map fst (pending s))" and "kv \<in> set (pending s)"
    and "deferreds s (snd kv) = Some d"
  shows "\<exists>d'. deferreds (snd (connectOnce e endpoint hello (Connects addr input) s)) (snd kv)
               = Some d' \<and> request_await d' \<noteq> Suspended"
proof -
  let ?s0 = "s\<lparr>currentConnection := Some addr\<rparr>"
  let ?t = "snd (connectOnce_try e endpoint hello addr input ?s0)"
  have w: "waiting ?s0 (snd kv)"
    using assms(2) by (auto simp: waiting_def)
  have "waiting ?t (snd kv)"
    using connectOnce_try_waiting [of ?s0 "snd kv"] assms(1) w by simp
  then have a: "deferreds (connectOnce_finally ?t) (snd kv) \<noteq> Some Active"
    by (rule connectOnce_finally_resolved)
  have "deferreds (connectOnce_finally ?t) (snd kv) \<noteq> None"
    using assms(3) by (simp add: connectOnce_finally_defined connectOnce_try_defined)
  then obtain d' where d': "deferreds (connectOnce_finally ?t) (snd kv) = Some d'"
    by auto
  with a have "d' \<noteq> Active" by simp
  with d' show ?thesis
    by (simp add: connectOnce_Connects request_await_Suspended)
qed

lemma connectOnce_finally_cancels:
  assumes "kv \<in> set (pending s)" and "deferreds s (snd kv) = Some Active"
  shows "deferreds (connectOnce_finally s) (snd kv) = Some Cancelled"
  using assms by (auto simp: connectOnce_finally_deferreds cancel_def)

lemma readLoop_waits_readLoop:
  "readLoop_waits e input s = Some w \<Longrightarrow> readLoop e input s = (None, w)"
proof (induction e input s rule: readLoop.induct)
  case (4 e el rest s)
  show ?case
  proof (cases "asObjectOrNull el")
    case None
    with 4 show ?thesis by simp
  next
    case (Some frame)
    show ?thesis
    proof (cases "handleFrame e frame s")
      case None
      with Some 4 show ?thesis by simp
    next
      case s': (Some s')
      with Some 4 show ?thesis by simp
    qed
  qed
qed simp_all

lemma disconnect_idle:
  "disconnect e c NoJob s
     = Finished (emit (OnDisconnected ''Offline'') (s\<lparr>canvasHostUrl := None\<rparr>))"
  "disconnect e c InDelay s
     = Finished (emit (OnDisconnected ''Offline'') (s\<lparr>canvasHostUrl := None\<rparr>))"
  by (simp_all add: disconnect_def)

lemma disconnect_blocked:
  "readLoop_waits e input s = Some w \<Longrightarrow> disconnect e c (InReadLoop input Silent) s = Blocked w"
  by (simp add: disconnect_def)

lemma disconnect_finished:
  assumes "after = Closes \<or> readLoop_waits e input s = None"
  shows "disconnect e c (InReadLoop input after) s
         = Finished
             (emit (OnDisconnected ''Offline'')
                ((emit (OnDisconnected
                          (''Bridge error: ''
                           @ errorText (case fst (readLoop e input s) of
                                          None \<Rightarrow> c | Some x \<Rightarrow> x)))
                    (connectOnce_finally (snd (readLoop e input s))))
                   \<lparr>canvasHostUrl := None\<rparr>))"
proof -
  from assms
  have "(case after of Closes \<Rightarrow> None | Silent \<Rightarrow> readLoop_waits e input s) = None"
    by (cases after) auto
  then show ?thesis
    by (simp add: disconnect_def Let_def)
qed

lemma connectOnce_pending:
  "pending (snd (connectOnce e endpoint hello (Connects addr input) s)) = []"
  "currentConnection (snd (connectOnce e endpoint hello (Connects addr input) s)) = None"
  "\<exists>t. trace (snd (connectOnce e endpoint hello (Connects addr input) s)) = t @ [SocketClosed]"
  by (simp_all add: connectOnce_Connects)

lemma sleepMs_first: "sleepMs 1 = 595"
  by (simp add: sleepMs_def toLong_def)

lemma connectOnce_example:
  "connectOnce exampleEnv exampleEndpoint exampleHello
     (Connects None (helloOkLine ''http://10.0.0.5:18793'' # rest)) newSession
   = (fst (readLoop exampleEnv rest exampleConnected),
      connectOnce_finally (snd (readLoop exampleEnv rest exampleConnected)))"
  by (simp add: connectOnce_Connects connectOnce_try_hello_ok helloOkLine_facts example_trims
        newURI_exampleEnv normalize_example_verbatim exampleConnected_def)

lemma readLoop_skips:
  "readLoop e (Json (JsonArray xs) # rest) s = readLoop e rest s"
  "readLoop e (bogusLine # rest) s = readLoop e rest s"
  "readLoop e (pingLine # rest) s = readLoop e rest (emit (Sent (pongFrame ''p1'')) s)"
  by (simp_all add: asObjectOrNull_def bogusLine_def pingLine_def handleFrame_def
        asStringOrNull_def)

section \<open>Lemmas on the delays\<close>






lemma delays_append [simp]: "delays (t @ u) = delays t @ delays u"
  by (simp add: delays_def)

lemma delays_simps [simp]:
  "delays [] = []"
  "delays (Delay ms # t) = ms # delays t"
  "delays (OnDisconnected m # t) = delays t"
  "delays (SocketClosed # t) = delays t"
  "delays (Sent f # t) = delays t"
  "delays (OnConnected n addr # t) = delays t"
  "delays (OnEvent ev p # t) = delays t"
  by (simp_all add: delays_def)




section \<open>Lemmas on the dispatchers\<close>

lemma command_prefixes:
  "\<not> startsWith camera_snap ''canvas.''" "\<not> startsWith camera_snap ''canvas.a2ui.''"
  "\<not> startsWith camera_clip ''canvas.''" "\<not> startsWith camera_clip ''canvas.a2ui.''"
  "startsWith camera_snap ''camera.''" "startsWith camera_clip ''camera.''"
  "startsWith canvas_snapshot ''canvas.''" "\<not> startsWith canvas_snapshot ''camera.''"
  "camera_snap \<noteq> canvas_snapshot" "camera_clip \<noteq> canvas_snapshot"
  "camera_clip \<noteq> camera_snap"
  by (simp_all add: startsWith_def camera_snap_def camera_clip_def canvas_snapshot_def)

lemma mac_camera_disabled:
  assumes "\<not> cameraEnabled e" and "rq_command req = camera_snap \<or> rq_command req = camera_clip"
  shows "mac_handleInvoke e req
           = (errorResponse req unavailable ''CAMERA_DISABLED: enable Camera in Settings'', [])"
  using assms by (auto simp: mac_handleInvoke_def Let_def command_prefixes)

lemma ios_camera_disabled:
  assumes "\<not> isCameraEnabled e" and "\<not> isBackgrounded e"
    and "startsWith (rq_command req) ''camera.''"
  shows "ios_handleInvoke e req
           = (errorResponse req unavailable
                (''CAMERA_DISABLED: enable Camera in iOS Settings '' @ arrow @ '' Camera ''
                 @ arrow @ '' Allow Camera''), [])"
  using assms by (simp add: ios_handleInvoke_def Let_def)

lemma ios_backgrounded:
  assumes "isBackgrounded e" and "startsWith (rq_command req) ''camera.''"
  shows "ios_handleInvoke e req
           = (errorResponse req backgroundUnavailable
                ''NODE_BACKGROUND_UNAVAILABLE: canvas/camera/screen commands require foreground'',
              [])"
  using assms by (simp add: ios_handleInvoke_def Let_def)

lemma snapRequest_command: "rq_command snapRequest = camera_snap"
  by (simp add: snapRequest_def camera_snap_def)

lemma encodeCanvasSnapshot_calls:
  assumes "c \<in> set (snd (encodeCanvasSnapshot e img fmt width q))"
  shows "(fmt = png \<and> c = Representation png None)
         \<or> (fmt = jpeg \<and> c = Representation jpeg (Some (min 1 (max (5 / 100) q))))"
proof (cases "bitmapRep e (scaleImage e img width)")
  case None
  with assms show ?thesis by (simp add: encodeCanvasSnapshot_def Let_def)
next
  case (Some rep)
  show ?thesis
  proof (cases fmt)
    case png
    with Some assms show ?thesis
      by (cases "representation e rep png None")
         (simp_all add: encodeCanvasSnapshot_def Let_def)
  next
    case jpeg
    with Some assms show ?thesis
      by (cases "representation e rep jpeg (Some (min 1 (max (5 / 100) q)))")
         (simp_all add: encodeCanvasSnapshot_def Let_def)
  qed
qed

lemma clamp_range: "5 / 100 \<le> min 1 (max (5 / 100) (q :: real)) \<and> min 1 (max (5 / 100) q) \<le> 1"
  by (simp add: min_def max_def)

lemma mac_snapshot_calls:
  assumes "canvasEnabled e" and "rq_command req = canvas_snapshot"
    and "canvasSnapshot e = Inr (Some img)"
  shows "\<exists>rest. snd (mac_handleInvoke e req) =
           [DecodeParams, CanvasSnapshot]
           @ snd (encodeCanvasSnapshot e img
                    (snapshotFormat (decodeSnapshotParams e (rq_paramsJSON req)))
                    (snapshotMaxWidth (decodeSnapshotParams e (rq_paramsJSON req)))
                    (snapshotQuality (decodeSnapshotParams e (rq_paramsJSON req))))
           @ rest"
proof -
  let ?ps = "decodeSnapshotParams e (rq_paramsJSON req)"
  let ?enc = "encodeCanvasSnapshot e img (snapshotFormat ?ps) (snapshotMaxWidth ?ps)
                (snapshotQuality ?ps)"
  show ?thesis
  proof (cases "fst ?enc")
    case (Inl thrown)
    then have "snd (mac_handleInvoke e req) = [DecodeParams, CanvasSnapshot] @ snd ?enc @ []"
      using assms by (simp add: mac_handleInvoke_def Let_def)
    then show ?thesis by blast
  next
    case (Inr data)
    show ?thesis
    proof (cases "encodePayload e (snapshotFormat ?ps) data")
      case (Inl thrown)
      with Inr have "snd (mac_handleInvoke e req)
                       = [DecodeParams, CanvasSnapshot] @ snd ?enc @ [EncodePayload]"
        using assms by (simp add: mac_handleInvoke_def Let_def)
      then show ?thesis by blast
    next
      case (Inr payload)
      with \<open>fst ?enc = Inr data\<close> have "snd (mac_handleInvoke e req)
                       = [DecodeParams, CanvasSnapshot] @ snd ?enc @ [EncodePayload]"
        using assms by (simp add: mac_handleInvoke_def Let_def)
      then show ?thesis by blast
    qed
  qed
qed

lemma ios_snapshot_calls:
  assumes "\<not> isBackgrounded e" and "rq_command req = canvas_snapshot"
  shows "\<exists>rest. snd (ios_handleInvoke e req) =
           DecodeParams
           # SnapshotBase64
               (snapshotMaxWidth (ios_decodeSnapshotParams e (rq_paramsJSON req)))
               (snapshotFormat (ios_decodeSnapshotParams e (rq_paramsJSON req)))
               (case ios_decodeSnapshotParams e (rq_paramsJSON req) of
                  None \<Rightarrow> None | Some p \<Rightarrow> quality p)
           # rest"
proof -
  let ?ps = "ios_decodeSnapshotParams e (rq_paramsJSON req)"
  let ?q = "case ?ps of None \<Rightarrow> None | Some p \<Rightarrow> quality p"
  let ?call = "SnapshotBase64 (snapshotMaxWidth ?ps) (snapshotFormat ?ps) ?q"
  show ?thesis
  proof (cases "screen_snapshotBase64 e (snapshotMaxWidth ?ps) (snapshotFormat ?ps) ?q")
    case (Inl thrown)
    then have "snd (ios_handleInvoke e req) = DecodeParams # ?call # []"
      using assms by (simp add: ios_handleInvoke_def Let_def command_prefixes)
    then show ?thesis by blast
  next
    case (Inr base64)
    show ?thesis
    proof (cases "ios_encodePayload e (snapshotFormat ?ps) base64")
      case (Inl thrown)
      with Inr have "snd (ios_handleInvoke e req) = DecodeParams # ?call # [EncodePayload]"
        using assms by (simp add: ios_handleInvoke_def Let_def command_prefixes)
      then show ?thesis by blast
    next
      case (Inr payload)
      with \<open>screen_snapshotBase64 e (snapshotMaxWidth ?ps) (snapshotFormat ?ps) ?q = Inr base64\<close>
      have "snd (ios_handleInvoke e req) = DecodeParams # ?call # [EncodePayload]"
        using assms by (simp add: ios_handleInvoke_def Let_def command_prefixes)
      then show ?thesis by blast
    qed
  qed
qed

lemma snapshotMaxWidth_default:
  assumes "params = None \<or> (\<exists>p. params = Some p
                        \<and> (maxWidth p = None \<or> (\<exists>w. maxWidth p = Some w \<and> w \<le> 0)))"
  shows "snapshotMaxWidth params
               = Some (case snapshotFormat params of png \<Rightarrow> 900 | jpeg \<Rightarrow> 1600)"
proof (cases params)
  case None
  then show ?thesis
    by (simp add: snapshotMaxWidth_def Let_def split: ClawdisCanvasSnapshotFormat.splits)
next
  case (Some p)
  with assms have "maxWidth p = None \<or> (\<exists>w. maxWidth p = Some w \<and> w \<le> 0)" by simp
  then show ?thesis
  proof
    assume "maxWidth p = None"
    then show ?thesis
      by (simp add: Some snapshotMaxWidth_def Let_def split: ClawdisCanvasSnapshotFormat.splits)
  next
    assume "\<exists>w. maxWidth p = Some w \<and> w \<le> 0"
    then obtain w where "maxWidth p = Some w" "w \<le> 0" by blast
    then show ?thesis
      by (simp add: Some snapshotMaxWidth_def Let_def split: ClawdisCanvasSnapshotFormat.splits)
  qed
qed

lemma snapshot_given:
  "params = Some p \<and> maxWidth p = Some w \<and> 0 < w \<Longrightarrow> snapshotMaxWidth params = Some w"
  "params = None \<or> (\<exists>p. params = Some p \<and> format p = None) \<Longrightarrow> snapshotFormat params = jpeg"
  "params = None \<or> (\<exists>p. params = Some p \<and> quality p = None)
     \<Longrightarrow> snapshotQuality params = 9 / 10"
  by (auto simp: snapshotMaxWidth_def snapshotFormat_def snapshotQuality_def Let_def)

lemma clamp_id: "5 / 100 \<le> q \<and> q \<le> 1 \<Longrightarrow> min 1 (max (5 / 100) (q :: real)) = q"
  by (simp add: min_def max_def)

lemma snapshotRequest_command: "rq_command snapshotRequest = canvas_snapshot"
  by (simp add: snapshotRequest_def canvas_snapshot_def)


lemma scaleImage_cases:
  "scaleImage e img None = img"
  "w \<le> 0 \<Longrightarrow> scaleImage e img (Some w) = img"
  "0 < w \<Longrightarrow> imageWidth e img \<le> real_of_int w \<Longrightarrow> scaleImage e img (Some w) = img"
  "0 < w \<Longrightarrow> real_of_int w < imageWidth e img \<Longrightarrow> scaleImage e img (Some w) = draw e img w"
  by (simp_all add: scaleImage_def)

lemma encodeCanvasSnapshot_result:
  "fst (encodeCanvasSnapshot e img fmt width q) = Inr data
   \<longleftrightarrow> (\<exists>rep. bitmapRep e (scaleImage e img width) = Some rep
             \<and> representation e rep fmt
                 (case fmt of png \<Rightarrow> None | jpeg \<Rightarrow> Some (min 1 (max (5 / 100) q))) = Some data)"
proof (cases "bitmapRep e (scaleImage e img width)")
  case None
  then show ?thesis by (simp add: encodeCanvasSnapshot_def Let_def)
next
  case (Some rep)
  show ?thesis
  proof (cases fmt)
    case png
    with Some show ?thesis
      by (cases "representation e rep png None")
         (simp_all add: encodeCanvasSnapshot_def Let_def)
  next
    case jpeg
    with Some show ?thesis
      by (cases "representation e rep jpeg (Some (min 1 (max (5 / 100) q)))")
         (simp_all add: encodeCanvasSnapshot_def Let_def)
  qed
qed

lemma ok_not_error: "okResponse req p \<noteq> errorResponse req c m"
  by (simp add: okResponse_def errorResponse_def)

lemma okResponse_inject: "okResponse req p = okResponse req p' \<longleftrightarrow> p = p'"
  by (auto simp: okResponse_def)

lemma mac_snapshot_response:
  assumes "canvasEnabled e" and "rq_command req = canvas_snapshot"
    and "canvasSnapshot e = Inr (Some img)"
  shows "fst (mac_handleInvoke e req) = okResponse req (Some payload)
         \<longleftrightarrow> (\<exists>data. fst (encodeCanvasSnapshot e img
                             (snapshotFormat (decodeSnapshotParams e (rq_paramsJSON req)))
                             (snapshotMaxWidth (decodeSnapshotParams e (rq_paramsJSON req)))
                             (snapshotQuality (decodeSnapshotParams e (rq_paramsJSON req))))
                         = Inr data
                     \<and> encodePayload e
                         (snapshotFormat (decodeSnapshotParams e (rq_paramsJSON req))) data
                         = Inr payload)"
proof -
  let ?ps = "decodeSnapshotParams e (rq_paramsJSON req)"
  let ?enc = "encodeCanvasSnapshot e img (snapshotFormat ?ps) (snapshotMaxWidth ?ps)
                (snapshotQuality ?ps)"
  show ?thesis
  proof (cases "fst ?enc")
    case (Inl thrown)
    then have "fst (mac_handleInvoke e req) = errorResponse req unavailable thrown"
      using assms by (simp add: mac_handleInvoke_def Let_def)
    with Inl show ?thesis
      using ok_not_error [of req "Some payload" unavailable thrown] by simp
  next
    case (Inr data)
    show ?thesis
    proof (cases "encodePayload e (snapshotFormat ?ps) data")
      case (Inl thrown)
      with Inr have "fst (mac_handleInvoke e req) = errorResponse req unavailable thrown"
        using assms by (simp add: mac_handleInvoke_def Let_def)
      with Inl Inr show ?thesis
        using ok_not_error [of req "Some payload" unavailable thrown] by simp
    next
      case (Inr p)
      with \<open>fst ?enc = Inr data\<close> have "fst (mac_handleInvoke e req) = okResponse req (Some p)"
        using assms by (simp add: mac_handleInvoke_def Let_def)
      with Inr \<open>fst ?enc = Inr data\<close> show ?thesis
        by (simp add: okResponse_inject)
    qed
  qed
qed

lemma ios_snapshot_response:
  assumes "\<not> isBackgrounded e" and "rq_command req = canvas_snapshot"
  shows "fst (ios_handleInvoke e req) = okResponse req (Some payload)
         \<longleftrightarrow> (\<exists>base64.
               renderBase64 e
                 (snapshotMaxWidth (ios_decodeSnapshotParams e (rq_paramsJSON req)))
                 (snapshotFormat (ios_decodeSnapshotParams e (rq_paramsJSON req)))
                 (screen_quality (case ios_decodeSnapshotParams e (rq_paramsJSON req) of
                                    None \<Rightarrow> None | Some p \<Rightarrow> quality p)) = Inr base64
               \<and> ios_encodePayload e
                   (snapshotFormat (ios_decodeSnapshotParams e (rq_paramsJSON req))) base64
                   = Inr payload)"
proof -
  let ?ps = "ios_decodeSnapshotParams e (rq_paramsJSON req)"
  let ?q = "case ?ps of None \<Rightarrow> None | Some p \<Rightarrow> quality p"
  let ?r = "renderBase64 e (snapshotMaxWidth ?ps) (snapshotFormat ?ps) (screen_quality ?q)"
  show ?thesis
  proof (cases ?r)
    case (Inl thrown)
    then have "fst (ios_handleInvoke e req) = errorResponse req unavailable thrown"
      using assms
      by (simp add: ios_handleInvoke_def Let_def command_prefixes screen_snapshotBase64_def)
    with Inl show ?thesis
      using ok_not_error [of req "Some payload" unavailable thrown] by simp
  next
    case (Inr base64)
    show ?thesis
    proof (cases "ios_encodePayload e (snapshotFormat ?ps) base64")
      case (Inl thrown)
      with Inr have "fst (ios_handleInvoke e req) = errorResponse req unavailable thrown"
        using assms
        by (simp add: ios_handleInvoke_def Let_def command_prefixes screen_snapshotBase64_def)
      with Inl Inr show ?thesis
        using ok_not_error [of req "Some payload" unavailable thrown] by simp
    next
      case (Inr p)
      with \<open>?r = Inr base64\<close> have "fst (ios_handleInvoke e req) = okResponse req (Some p)"
        using assms
        by (simp add: ios_handleInvoke_def Let_def command_prefixes screen_snapshotBase64_def)
      with Inr \<open>?r = Inr base64\<close> show ?thesis
        by (simp add: okResponse_inject)
    qed
  qed
qed

lemma screen_quality_facts:
  "screen_quality None = 9 / 10"
  "5 / 100 \<le> screen_quality q" "screen_quality q \<le> 1"
  "5 / 100 \<le> x \<and> x \<le> 1 \<Longrightarrow> screen_quality (Some x) = x"
  by (simp_all add: screen_quality_def min_def max_def)

section \<open>Errors of a throwing handler\<close>

text \<open>
  C10: when a dispatcher handler throws during an invoke, the error of the
  \<^verbatim>\<open>invoke-res\<close> frame is read off the exception's message. Let \<open>msg\<close> be the
  trimmed message, or the simple class name when the message is absent or blank. If
  \<open>msg\<close> is some text, a colon and a rest, where the text before the first colon,
  trimmed, is a code (non-empty, only uppercase letters and underscores), then the
  result has \<open>ok = false\<close>, no payload, \<open>error.code\<close> that code and \<open>error.message\<close>
  the trimmed rest, or all of \<open>msg\<close> when the rest is empty. Otherwise the result has
  \<open>ok = false\<close>, no payload, \<open>error.code\<close> \<^verbatim>\<open>UNAVAILABLE\<close> and \<open>error.message\<close>
  \<open>msg\<close>. The read loop answers an \<^verbatim>\<open>invoke\<close> frame whose handler throws by writing
  one frame: type \<^verbatim>\<open>invoke-res\<close>, the id of the invoke, \<open>ok\<close> false, no payload, and
  the error object with the code and the message of that result.
\<close>

theorem invokeErrorFromThrowable_shape:
  assumes "msg = (case exn_message err of
                    None \<Rightarrow> simpleName err
                  | Some m \<Rightarrow> if isBlank m then simpleName err else trim m)"
  shows "(\<forall>pre post. msg = pre @ CHR '':'' # post \<and> CHR '':'' \<notin> set pre \<and> validCode (trim pre)
            \<longrightarrow> invokeErrorFromThrowable err =
                  \<lparr>ok = False, payloadJson = None,
                   error = Some \<lparr>code = trim pre,
                                 message = (if trim post = [] then msg else trim post)\<rparr>\<rparr>)
       \<and> ((\<forall>pre post. msg = pre @ CHR '':'' # post \<and> CHR '':'' \<notin> set pre
              \<longrightarrow> \<not> validCode (trim pre))
            \<longrightarrow> invokeErrorFromThrowable err =
                  \<lparr>ok = False, payloadJson = None,
                   error = Some \<lparr>code = ''UNAVAILABLE'', message = msg\<rparr>\<rparr>)
       \<and> (\<forall>e frame i s.
              asStringOrNull (map_of frame ''type'') = Some ''invoke''
              \<and> asStringOrNull (map_of frame ''id'') = Some i
              \<and> onInvoke e
                    \<lparr>req_id = i,
                     command = (case asStringOrNull (map_of frame ''command'') of
                                  None \<Rightarrow> [] | Some c \<Rightarrow> c),
                     paramsJson = asStringOrNull (map_of frame ''paramsJSON'')\<rparr> = Inl err
              \<longrightarrow> (\<exists>c m. invokeErrorFromThrowable err =
                            \<lparr>ok = False, payloadJson = None,
                             error = Some \<lparr>code = c, message = m\<rparr>\<rparr>
                         \<and> handleFrame e frame s =
                             Some (s\<lparr>trace := trace s
                                     @ [Sent (JsonObject
                                          [(''type'', JsonPrimitive ''invoke-res''),
                                           (''id'', JsonPrimitive i),
                                           (''ok'', JsonPrimitive ''false''),
                                           (''error'',
                                            JsonObject [(''code'', JsonPrimitive c),
                                                        (''message'', JsonPrimitive m)])])]\<rparr>)))"
proof -
  have m: "msg = (case exn_message err of
                    None \<Rightarrow> simpleName err
                  | Some m \<Rightarrow> if trim m = [] then simpleName err else trim m)"
    using assms by (simp add: trim_empty_iff split: option.splits)
  have a: "invokeErrorFromThrowable err =
             \<lparr>ok = False, payloadJson = None,
              error = Some \<lparr>code = trim pre,
                            message = (if trim post = [] then msg else trim post)\<rparr>\<rparr>"
    if "msg = pre @ CHR '':'' # post" "CHR '':'' \<notin> set pre" "validCode (trim pre)" for pre post
  proof -
    have "split_colon msg = [pre, post]"
      using that by (simp add: split_colon_decomp)
    then show ?thesis
      using that(3) unfolding invokeErrorFromThrowable_def m [symmetric]
      by (simp add: Let_def validCode_def list_all_iff InvokeResult_error_def)
  qed
  have b: "invokeErrorFromThrowable err =
             \<lparr>ok = False, payloadJson = None,
              error = Some \<lparr>code = ''UNAVAILABLE'', message = msg\<rparr>\<rparr>"
    if h: "\<forall>pre post. msg = pre @ CHR '':'' # post \<and> CHR '':'' \<notin> set pre \<longrightarrow> \<not> validCode (trim pre)"
  proof (cases "CHR '':'' \<in> set msg")
    case False
    then have "split_colon msg = [msg]" by (rule split_colon_none)
    then show ?thesis
      unfolding invokeErrorFromThrowable_def m [symmetric]
      by (simp add: Let_def InvokeResult_error_def)
  next
    case True
    then obtain pre post where d: "msg = pre @ CHR '':'' # post" "CHR '':'' \<notin> set pre"
      using colon_decomp by blast
    then have s: "split_colon msg = [pre, post]" by (simp add: split_colon_decomp)
    from h d have "\<not> validCode (trim pre)" by blast
    then show ?thesis
      using s unfolding invokeErrorFromThrowable_def m [symmetric]
      by (auto simp: Let_def validCode_def list_all_iff InvokeResult_error_def)
  qed
  have "\<exists>c0 m0. invokeErrorFromThrowable err = InvokeResult_error c0 m0"
    by (auto simp: invokeErrorFromThrowable_def Let_def)
  then obtain c0 m0 where r: "invokeErrorFromThrowable err = InvokeResult_error c0 m0"
    by blast
  have c: "\<exists>c m. invokeErrorFromThrowable err =
                   \<lparr>ok = False, payloadJson = None, error = Some \<lparr>code = c, message = m\<rparr>\<rparr>
                \<and> handleFrame e frame s =
                    Some (s\<lparr>trace := trace s
                            @ [Sent (JsonObject
                                 [(''type'', JsonPrimitive ''invoke-res''),
                                  (''id'', JsonPrimitive i),
                                  (''ok'', JsonPrimitive ''false''),
                                  (''error'',
                                   JsonObject [(''code'', JsonPrimitive c),
                                               (''message'', JsonPrimitive m)])])]\<rparr>)"
    if "asStringOrNull (map_of frame ''type'') = Some ''invoke''"
       "asStringOrNull (map_of frame ''id'') = Some i"
       "onInvoke e
          \<lparr>req_id = i,
           command = (case asStringOrNull (map_of frame ''command'') of
                        None \<Rightarrow> [] | Some c \<Rightarrow> c),
           paramsJson = asStringOrNull (map_of frame ''paramsJSON'')\<rparr> = Inl err"
    for e frame i s
  proof -
    have "handleFrame e frame s =
            Some (emit (Sent (invokeResFrame i (InvokeResult_error c0 m0))) s)"
      using that by (simp add: handleFrame_def Let_def r)
    then have "handleFrame e frame s =
            Some (s\<lparr>trace := trace s
                    @ [Sent (JsonObject
                         [(''type'', JsonPrimitive ''invoke-res''),
                          (''id'', JsonPrimitive i),
                          (''ok'', JsonPrimitive ''false''),
                          (''error'',
                           JsonObject [(''code'', JsonPrimitive c0),
                                       (''message'', JsonPrimitive m0)])])]\<rparr>)"
      by (simp add: emit_def invokeResFrame_def InvokeResult_error_def optField_def)
    with r show ?thesis
      unfolding InvokeResult_error_def by blast
  qed
  show ?thesis using a b c by blast
qed

theorem invokeErrorFromThrowable_shape_witness:
  "invokeErrorFromThrowable
     \<lparr>exn_message = Some ''CAMERA_DISABLED: camera is off'', simpleName = ''IllegalStateException''\<rparr>
     = \<lparr>ok = False, payloadJson = None,
        error = Some \<lparr>code = ''CAMERA_DISABLED'', message = ''camera is off''\<rparr>\<rparr>
   \<and> invokeErrorFromThrowable \<lparr>exn_message = Some ''  '', simpleName = ''IOException''\<rparr>
     = \<lparr>ok = False, payloadJson = None,
        error = Some \<lparr>code = ''UNAVAILABLE'', message = ''IOException''\<rparr>\<rparr>
   \<and> handleFrame
       \<lparr>newURI = exampleURI,
        onInvoke = (\<lambda>r. Inl \<lparr>exn_message = Some ''CAMERA_DISABLED: camera is off'',
                              simpleName = ''IllegalStateException''\<rparr>)\<rparr>
       [(''type'', JsonPrimitive ''invoke''), (''id'', JsonPrimitive ''7''),
        (''command'', JsonPrimitive ''camera.snap'')]
       newSession
     = Some (newSession
               \<lparr>trace :=
                  [Sent (JsonObject
                     [(''type'', JsonPrimitive ''invoke-res''),
                      (''id'', JsonPrimitive ''7''),
                      (''ok'', JsonPrimitive ''false''),
                      (''error'',
                       JsonObject [(''code'', JsonPrimitive ''CAMERA_DISABLED''),
                                   (''message'', JsonPrimitive ''camera is off'')])])]\<rparr>)"
proof -
  let ?err = "\<lparr>exn_message = Some ''CAMERA_DISABLED: camera is off'',
               simpleName = ''IllegalStateException''\<rparr>"
  let ?msg = "''CAMERA_DISABLED: camera is off''"
  have m: "?msg = (case exn_message ?err of
                     None \<Rightarrow> simpleName ?err
                   | Some m \<Rightarrow> if isBlank m then simpleName ?err else trim m)"
    by code_simp
  have d: "?msg = ''CAMERA_DISABLED'' @ CHR '':'' # '' camera is off''
           \<and> CHR '':'' \<notin> set ''CAMERA_DISABLED'' \<and> validCode (trim ''CAMERA_DISABLED'')"
    by code_simp
  have t: "trim ''CAMERA_DISABLED'' = ''CAMERA_DISABLED''"
          "trim '' camera is off'' = ''camera is off''"
    by code_simp+
  from invokeErrorFromThrowable_shape [OF m] d
  have "invokeErrorFromThrowable ?err =
          \<lparr>ok = False, payloadJson = None,
           error = Some \<lparr>code = trim ''CAMERA_DISABLED'',
                         message = (if trim '' camera is off'' = [] then ?msg
                                    else trim '' camera is off'')\<rparr>\<rparr>"
    by blast
  then have first: "invokeErrorFromThrowable ?err =
                      \<lparr>ok = False, payloadJson = None,
                       error = Some \<lparr>code = ''CAMERA_DISABLED'', message = ''camera is off''\<rparr>\<rparr>"
    by (simp add: t)
  let ?err2 = "\<lparr>exn_message = Some ''  '', simpleName = ''IOException''\<rparr>"
  have m2: "''IOException'' = (case exn_message ?err2 of
                     None \<Rightarrow> simpleName ?err2
                   | Some m \<Rightarrow> if isBlank m then simpleName ?err2 else trim m)"
    by code_simp
  have n: "\<forall>pre post. ''IOException'' = pre @ CHR '':'' # post \<and> CHR '':'' \<notin> set pre
             \<longrightarrow> \<not> validCode (trim pre)"
  proof (intro allI impI)
    fix pre post
    assume "''IOException'' = pre @ CHR '':'' # post \<and> CHR '':'' \<notin> set pre"
    then have "CHR '':'' \<in> set ''IOException''"
      by (metis in_set_conv_decomp)
    then show "\<not> validCode (trim pre)" by simp
  qed
  from invokeErrorFromThrowable_shape [OF m2] n
  have second: "invokeErrorFromThrowable ?err2 =
                  \<lparr>ok = False, payloadJson = None,
                   error = Some \<lparr>code = ''UNAVAILABLE'', message = ''IOException''\<rparr>\<rparr>"
    by blast
  let ?e = "\<lparr>newURI = exampleURI, onInvoke = (\<lambda>r. Inl ?err)\<rparr>"
  let ?frame = "[(''type'', JsonPrimitive ''invoke''), (''id'', JsonPrimitive ''7''),
                 (''command'', JsonPrimitive ''camera.snap'')]"
  have f: "asStringOrNull (map_of ?frame ''type'') = Some ''invoke''
           \<and> asStringOrNull (map_of ?frame ''id'') = Some ''7''
           \<and> onInvoke ?e
                 \<lparr>req_id = ''7'',
                  command = (case asStringOrNull (map_of ?frame ''command'') of
                               None \<Rightarrow> [] | Some c \<Rightarrow> c),
                  paramsJson = asStringOrNull (map_of ?frame ''paramsJSON'')\<rparr> = Inl ?err"
    by (simp add: asStringOrNull_def)
  from invokeErrorFromThrowable_shape [OF m] f
  obtain c m where
    cm: "invokeErrorFromThrowable ?err =
           \<lparr>ok = False, payloadJson = None, error = Some \<lparr>code = c, message = m\<rparr>\<rparr>"
    and hf: "handleFrame ?e ?frame newSession =
          Some (newSession
                  \<lparr>trace := trace newSession
                     @ [Sent (JsonObject
                          [(''type'', JsonPrimitive ''invoke-res''),
                           (''id'', JsonPrimitive ''7''),
                           (''ok'', JsonPrimitive ''false''),
                           (''error'',
                            JsonObject [(''code'', JsonPrimitive c),
                                        (''message'', JsonPrimitive m)])])]\<rparr>)"
    by blast
  from cm first have "c = ''CAMERA_DISABLED''" "m = ''camera is off''"
    by simp_all
  with hf have third: "handleFrame ?e ?frame newSession =
          Some (newSession
                  \<lparr>trace :=
                     [Sent (JsonObject
                        [(''type'', JsonPrimitive ''invoke-res''),
                         (''id'', JsonPrimitive ''7''),
                         (''ok'', JsonPrimitive ''false''),
                         (''error'',
                          JsonObject [(''code'', JsonPrimitive ''CAMERA_DISABLED''),
                                      (''message'', JsonPrimitive ''camera is off'')])])]\<rparr>)"
    by (simp add: newSession_def)
  show ?thesis using first second third by simp
qed

section \<open>The resolved canvas host URL\<close>


text \<open>
  C1, as the code has it: canvas host resolution returns the advertised URL, trimmed,
  when it is non-empty and its host is not loopback (\<^verbatim>\<open>localhost\<close>, \<^verbatim>\<open>127.*\<close>,
  \<^verbatim>\<open>::1\<close>, \<^verbatim>\<open>0.0.0.0\<close>, \<^verbatim>\<open>::\<close>, matched on the trimmed, lowercased host).
  Otherwise it returns \<^verbatim>\<open>scheme://fallbackHost:port\<close>, where the fallback host is the
  first non-empty of the endpoint's tailnet DNS name, its LAN host and its connect
  host (in square brackets when it contains a colon), the port is the endpoint's
  \<^verbatim>\<open>canvasPort\<close> if provided, else the port of the advertised URL when that is
  positive, else 18793, and the scheme is the advertised scheme or \<^verbatim>\<open>http\<close>. When
  no fallback host exists the advertised URL is returned as it is (nothing when it is
  empty).
\<close>

theorem normalizeCanvasHostUrl_resolution:
  assumes "trimmed = trimmedOrEmpty raw"
    and "parsed = (if trimmed = [] then None else parseURI trimmed)"
    and "advertisedHost = (case parsed of None \<Rightarrow> [] | Some u \<Rightarrow> trimmedOrEmpty (uri_host u))"
    and "advertisedScheme = (case parsed of None \<Rightarrow> [] | Some u \<Rightarrow> trimmedOrEmpty (uri_scheme u))"
    and "advertisedPort = (case parsed of None \<Rightarrow> - 1 | Some u \<Rightarrow> uri_port u)"
    and "fallbackHost = firstNonEmpty [trimmedOrEmpty (tailnetDns endpoint),
                                       trimmedOrEmpty (lanHost endpoint), trim (host endpoint)]"
    and "fallbackPort = (case canvasPort endpoint of
                           Some p \<Rightarrow> p
                         | None \<Rightarrow> if advertisedPort > 0 then advertisedPort else 18793)"
  shows "(trimmed \<noteq> [] \<and> \<not> loopbackName (lowercase advertisedHost)
            \<longrightarrow> normalizeCanvasHostUrl parseURI raw endpoint = Some trimmed)
       \<and> ((trimmed = [] \<or> loopbackName (lowercase advertisedHost)) \<and> fallbackHost \<noteq> []
            \<longrightarrow> normalizeCanvasHostUrl parseURI raw endpoint =
                  Some ((if isBlank advertisedScheme then ''http'' else advertisedScheme)
                        @ ''://''
                        @ (if CHR '':'' \<in> set fallbackHost then ''['' @ fallbackHost @ '']''
                           else fallbackHost)
                        @ '':'' @ showInt fallbackPort))
       \<and> ((trimmed = [] \<or> loopbackName (lowercase advertisedHost)) \<and> fallbackHost = []
            \<longrightarrow> normalizeCanvasHostUrl parseURI raw endpoint
                  = (if trimmed = [] then None else Some trimmed))"
  unfolding normalizeCanvasHostUrl_cases
      [where parseURI = parseURI and trimmed = trimmed and raw = raw, OF assms]
  by auto

theorem normalizeCanvasHostUrl_port_counterexample:
  "normalizeCanvasHostUrl exampleURI (Some ''http://127.0.0.1:9000'')
     \<lparr>host = ''203.0.113.9'', port = 18790, lanHost = None, tailnetDns = None,
      canvasPort = None\<rparr>
   = Some ''http://203.0.113.9:9000''
   \<and> normalizeCanvasHostUrl exampleURI (Some ''http://127.0.0.1:9000'')
     \<lparr>host = ''203.0.113.9'', port = 18790, lanHost = None, tailnetDns = None,
      canvasPort = None\<rparr>
   \<noteq> Some ''http://203.0.113.9:18793''"
proof -
  let ?ep = "\<lparr>host = ''203.0.113.9'', port = 18790, lanHost = None, tailnetDns = None,
              canvasPort = None\<rparr>"
  let ?u = "\<lparr>uri_scheme = Some ''http'', uri_host = Some ''127.0.0.1'', uri_port = 9000\<rparr>"
  have a1: "''http://127.0.0.1:9000'' = trimmedOrEmpty (Some ''http://127.0.0.1:9000'')"
    by code_simp
  have a2: "Some ?u = (if ''http://127.0.0.1:9000'' = [] then None
                       else exampleURI ''http://127.0.0.1:9000'')"
    by code_simp
  have a3: "''127.0.0.1'' = (case Some ?u of None \<Rightarrow> [] | Some u \<Rightarrow> trimmedOrEmpty (uri_host u))"
    by code_simp
  have a4: "''http'' = (case Some ?u of None \<Rightarrow> [] | Some u \<Rightarrow> trimmedOrEmpty (uri_scheme u))"
    by code_simp
  have a5: "9000 = (case Some ?u of None \<Rightarrow> - 1 | Some u \<Rightarrow> uri_port u)"
    by simp
  have a6: "''203.0.113.9'' = firstNonEmpty [trimmedOrEmpty (tailnetDns ?ep),
                                trimmedOrEmpty (lanHost ?ep), trim (host ?ep)]"
    by code_simp
  have a7: "9000 = (case canvasPort ?ep of
                      Some p \<Rightarrow> p
                    | None \<Rightarrow> if (9000 :: int) > 0 then 9000 else 18793)"
    by simp
  have l: "loopbackName (lowercase ''127.0.0.1'')"
    by code_simp
  have s: "\<not> isBlank ''http''"
    by code_simp
  have "normalizeCanvasHostUrl exampleURI (Some ''http://127.0.0.1:9000'') ?ep
          = Some ''http://203.0.113.9:9000''"
    unfolding normalizeCanvasHostUrl_cases
      [where parseURI = exampleURI and trimmed = "''http://127.0.0.1:9000''"
         and raw = "Some ''http://127.0.0.1:9000''", OF a1 a2 a3 a4 a5 a6 a7]
    using l s by (simp add: showInt_9000)
  then show ?thesis by simp
qed


theorem normalizeCanvasHostUrl_resolution_witness:
  "normalizeCanvasHostUrl exampleURI (Some ''http://10.0.0.5:18793'')
     \<lparr>host = ''203.0.113.9'', port = 18790, lanHost = None, tailnetDns = None,
      canvasPort = None\<rparr>
   = Some ''http://10.0.0.5:18793''
   \<and> normalizeCanvasHostUrl exampleURI (Some [])
     \<lparr>host = ''203.0.113.9'', port = 18790, lanHost = None, tailnetDns = Some ''node1.ts.net'',
      canvasPort = Some 18793\<rparr>
   = Some ''http://node1.ts.net:18793''
   \<and> normalizeCanvasHostUrl exampleURI (Some ''http://127.0.0.1:9000'')
     \<lparr>host = ''203.0.113.9'', port = 18790, lanHost = None, tailnetDns = None,
      canvasPort = None\<rparr>
   = Some ''http://203.0.113.9:9000''"
proof -
  let ?ep = "\<lparr>host = ''203.0.113.9'', port = 18790, lanHost = None, tailnetDns = None,
              canvasPort = None\<rparr>"
  let ?ep2 = "\<lparr>host = ''203.0.113.9'', port = 18790, lanHost = None,
               tailnetDns = Some ''node1.ts.net'', canvasPort = Some 18793\<rparr>"
  let ?u1 = "\<lparr>uri_scheme = Some ''http'', uri_host = Some ''10.0.0.5'', uri_port = 18793\<rparr>"
  let ?u3 = "\<lparr>uri_scheme = Some ''http'', uri_host = Some ''127.0.0.1'', uri_port = 9000\<rparr>"
  have s: "\<not> isBlank ''http''" "isBlank []"
    by code_simp+
  have f: "''203.0.113.9'' = firstNonEmpty [trimmedOrEmpty (tailnetDns ?ep),
                               trimmedOrEmpty (lanHost ?ep), trim (host ?ep)]"
    by code_simp
  \<comment> \<open>an advertised URL that is not loopback\<close>
  have a1: "''http://10.0.0.5:18793'' = trimmedOrEmpty (Some ''http://10.0.0.5:18793'')"
    by code_simp
  have a2: "Some ?u1 = (if ''http://10.0.0.5:18793'' = [] then None
                        else exampleURI ''http://10.0.0.5:18793'')"
    by code_simp
  have a3: "''10.0.0.5'' = (case Some ?u1 of None \<Rightarrow> [] | Some u \<Rightarrow> trimmedOrEmpty (uri_host u))"
    by code_simp
  have a4: "''http'' = (case Some ?u1 of None \<Rightarrow> [] | Some u \<Rightarrow> trimmedOrEmpty (uri_scheme u))"
    by code_simp
  have a5: "18793 = (case Some ?u1 of None \<Rightarrow> - 1 | Some u \<Rightarrow> uri_port u)"
    by simp
  have a7: "18793 = (case canvasPort ?ep of
                       Some p \<Rightarrow> p
                     | None \<Rightarrow> if (18793 :: int) > 0 then 18793 else 18793)"
    by simp
  have l1: "\<not> loopbackName (lowercase ''10.0.0.5'')"
    by code_simp
  have p1: "normalizeCanvasHostUrl exampleURI (Some ''http://10.0.0.5:18793'') ?ep
              = Some ''http://10.0.0.5:18793''"
    using normalizeCanvasHostUrl_resolution
            [where parseURI = exampleURI and trimmed = "''http://10.0.0.5:18793''"
               and raw = "Some ''http://10.0.0.5:18793''", OF a1 a2 a3 a4 a5 f a7] l1
    by simp
  \<comment> \<open>nothing advertised: the tailnet name and the explicit canvas port\<close>
  have b1: "[] = trimmedOrEmpty (Some [])"
    by code_simp
  have b2: "None = (if ([] :: string) = [] then None else exampleURI [])"
    by simp
  have b3: "[] = (case (None :: URI option) of None \<Rightarrow> []
                  | Some u \<Rightarrow> trimmedOrEmpty (uri_host u))"
    by simp
  have b4: "[] = (case (None :: URI option) of None \<Rightarrow> []
                  | Some u \<Rightarrow> trimmedOrEmpty (uri_scheme u))"
    by simp
  have b5: "- 1 = (case (None :: URI option) of None \<Rightarrow> - 1 | Some u \<Rightarrow> uri_port u)"
    by simp
  have b6: "''node1.ts.net'' = firstNonEmpty [trimmedOrEmpty (tailnetDns ?ep2),
                                 trimmedOrEmpty (lanHost ?ep2), trim (host ?ep2)]"
    by code_simp
  have b7: "18793 = (case canvasPort ?ep2 of
                       Some p \<Rightarrow> p
                     | None \<Rightarrow> if (- 1 :: int) > 0 then - 1 else 18793)"
    by simp
  have p2: "normalizeCanvasHostUrl exampleURI (Some []) ?ep2 = Some ''http://node1.ts.net:18793''"
    using normalizeCanvasHostUrl_resolution
            [where parseURI = exampleURI and trimmed = "[]" and raw = "Some []",
             OF b1 b2 b3 b4 b5 b6 b7] s
    by (simp add: showInt_18793)
  \<comment> \<open>a loopback URL: the connect host and the advertised port\<close>
  have c1: "''http://127.0.0.1:9000'' = trimmedOrEmpty (Some ''http://127.0.0.1:9000'')"
    by code_simp
  have c2: "Some ?u3 = (if ''http://127.0.0.1:9000'' = [] then None
                        else exampleURI ''http://127.0.0.1:9000'')"
    by code_simp
  have c3: "''127.0.0.1'' = (case Some ?u3 of None \<Rightarrow> [] | Some u \<Rightarrow> trimmedOrEmpty (uri_host u))"
    by code_simp
  have c4: "''http'' = (case Some ?u3 of None \<Rightarrow> [] | Some u \<Rightarrow> trimmedOrEmpty (uri_scheme u))"
    by code_simp
  have c5: "9000 = (case Some ?u3 of None \<Rightarrow> - 1 | Some u \<Rightarrow> uri_port u)"
    by simp
  have c7: "9000 = (case canvasPort ?ep of
                      Some p \<Rightarrow> p
                    | None \<Rightarrow> if (9000 :: int) > 0 then 9000 else 18793)"
    by simp
  have l3: "loopbackName (lowercase ''127.0.0.1'')"
    by code_simp
  have p3: "normalizeCanvasHostUrl exampleURI (Some ''http://127.0.0.1:9000'') ?ep
              = Some ''http://203.0.113.9:9000''"
    using normalizeCanvasHostUrl_resolution
            [where parseURI = exampleURI and trimmed = "''http://127.0.0.1:9000''"
               and raw = "Some ''http://127.0.0.1:9000''", OF c1 c2 c3 c4 c5 f c7] l3 s
    by (simp add: showInt_9000)
  show ?thesis using p1 p2 p3 by blast
qed

section \<open>The camera gate\<close>

text \<open>
  C2, as the code has it: for every invoke of \<^verbatim>\<open>camera.snap\<close> or \<^verbatim>\<open>camera.clip\<close>
  while the camera is disabled, the macOS dispatcher, and the iOS dispatcher in the
  foreground, return \<^verbatim>\<open>ok:false\<close> with the error code \<^verbatim>\<open>unavailable\<close> and a message
  that begins with \<^verbatim>\<open>CAMERA_DISABLED:\<close>, without decoding the parameters and without
  calling the capture handler (no call is made at all). On iOS in the background the
  background gate answers first, with the code \<^verbatim>\<open>backgroundUnavailable\<close> and the
  message \<^verbatim>\<open>NODE_BACKGROUND_UNAVAILABLE: ...\<close>, again without any call.
\<close>

theorem camera_gate:
  "(\<not> cameraEnabled e \<and> (rq_command req = camera_snap \<or> rq_command req = camera_clip) \<longrightarrow>
      mac_handleInvoke e req
        = (\<lparr>rs_id = rq_id req, rs_ok = False, rs_payloadJSON = None,
            rs_error = Some \<lparr>ne_code = unavailable,
                             ne_message = ''CAMERA_DISABLED: enable Camera in Settings''\<rparr>\<rparr>,
           []))
   \<and> (\<not> isCameraEnabled i \<and> \<not> isBackgrounded i
        \<and> (rq_command req = camera_snap \<or> rq_command req = camera_clip) \<longrightarrow>
      ios_handleInvoke i req
        = (\<lparr>rs_id = rq_id req, rs_ok = False, rs_payloadJSON = None,
            rs_error = Some \<lparr>ne_code = unavailable,
                             ne_message = ''CAMERA_DISABLED: enable Camera in iOS Settings ''
                                          @ arrow @ '' Camera '' @ arrow @ '' Allow Camera''\<rparr>\<rparr>,
           []))
   \<and> (isBackgrounded i \<and> (rq_command req = camera_snap \<or> rq_command req = camera_clip) \<longrightarrow>
      ios_handleInvoke i req
        = (\<lparr>rs_id = rq_id req, rs_ok = False, rs_payloadJSON = None,
            rs_error = Some \<lparr>ne_code = backgroundUnavailable,
                             ne_message = ''NODE_BACKGROUND_UNAVAILABLE: canvas/camera/screen commands require foreground''\<rparr>\<rparr>,
           []))"
proof (intro conjI impI)
  assume "\<not> cameraEnabled e \<and> (rq_command req = camera_snap \<or> rq_command req = camera_clip)"
  then show "mac_handleInvoke e req
        = (\<lparr>rs_id = rq_id req, rs_ok = False, rs_payloadJSON = None,
            rs_error = Some \<lparr>ne_code = unavailable,
                             ne_message = ''CAMERA_DISABLED: enable Camera in Settings''\<rparr>\<rparr>,
           [])"
    using mac_camera_disabled [of e req] by (simp add: errorResponse_def)
next
  assume a: "\<not> isCameraEnabled i \<and> \<not> isBackgrounded i
        \<and> (rq_command req = camera_snap \<or> rq_command req = camera_clip)"
  then have "startsWith (rq_command req) ''camera.''"
    using command_prefixes by auto
  with a show "ios_handleInvoke i req
        = (\<lparr>rs_id = rq_id req, rs_ok = False, rs_payloadJSON = None,
            rs_error = Some \<lparr>ne_code = unavailable,
                             ne_message = ''CAMERA_DISABLED: enable Camera in iOS Settings ''
                                          @ arrow @ '' Camera '' @ arrow @ '' Allow Camera''\<rparr>\<rparr>,
           [])"
    using ios_camera_disabled [of i req] by (simp add: errorResponse_def)
next
  assume a: "isBackgrounded i \<and> (rq_command req = camera_snap \<or> rq_command req = camera_clip)"
  then have "startsWith (rq_command req) ''camera.''"
    using command_prefixes by auto
  with a show "ios_handleInvoke i req
        = (\<lparr>rs_id = rq_id req, rs_ok = False, rs_payloadJSON = None,
            rs_error = Some \<lparr>ne_code = backgroundUnavailable,
                             ne_message = ''NODE_BACKGROUND_UNAVAILABLE: canvas/camera/screen commands require foreground''\<rparr>\<rparr>,
           [])"
    using ios_backgrounded [of i req] by (simp add: errorResponse_def)
qed

theorem camera_gate_witness:
  "mac_handleInvoke (exampleMac False) snapRequest
     = (\<lparr>rs_id = ''1'', rs_ok = False, rs_payloadJSON = None,
         rs_error = Some \<lparr>ne_code = unavailable,
                          ne_message = ''CAMERA_DISABLED: enable Camera in Settings''\<rparr>\<rparr>,
        [])
   \<and> snd (ios_handleInvoke (exampleIos False) snapRequest) = []
   \<and> map_option ne_code (rs_error (fst (ios_handleInvoke (exampleIos False) snapRequest)))
       = Some unavailable
   \<and> snd (ios_handleInvoke (exampleIos True) snapRequest) = []
   \<and> map_option ne_code (rs_error (fst (ios_handleInvoke (exampleIos True) snapRequest)))
       = Some backgroundUnavailable"
proof -
  have m: "\<not> cameraEnabled (exampleMac False)
           \<and> (rq_command snapRequest = camera_snap \<or> rq_command snapRequest = camera_clip)"
    by (simp add: exampleMac_def snapRequest_command)
  from camera_gate [where e = "exampleMac False" and req = snapRequest] m
  have "mac_handleInvoke (exampleMac False) snapRequest
        = (\<lparr>rs_id = rq_id snapRequest, rs_ok = False, rs_payloadJSON = None,
            rs_error = Some \<lparr>ne_code = unavailable,
                             ne_message = ''CAMERA_DISABLED: enable Camera in Settings''\<rparr>\<rparr>,
           [])"
    by blast
  then have p1: "mac_handleInvoke (exampleMac False) snapRequest
     = (\<lparr>rs_id = ''1'', rs_ok = False, rs_payloadJSON = None,
         rs_error = Some \<lparr>ne_code = unavailable,
                          ne_message = ''CAMERA_DISABLED: enable Camera in Settings''\<rparr>\<rparr>,
        [])"
    by (simp add: snapRequest_def)
  have f: "\<not> isCameraEnabled (exampleIos False) \<and> \<not> isBackgrounded (exampleIos False)
           \<and> (rq_command snapRequest = camera_snap \<or> rq_command snapRequest = camera_clip)"
    by (simp add: exampleIos_def snapRequest_command)
  from camera_gate [where i = "exampleIos False" and req = snapRequest] f
  have "ios_handleInvoke (exampleIos False) snapRequest
        = (\<lparr>rs_id = rq_id snapRequest, rs_ok = False, rs_payloadJSON = None,
            rs_error = Some \<lparr>ne_code = unavailable,
                             ne_message = ''CAMERA_DISABLED: enable Camera in iOS Settings ''
                                          @ arrow @ '' Camera '' @ arrow @ '' Allow Camera''\<rparr>\<rparr>,
           [])"
    by blast
  then have p2: "snd (ios_handleInvoke (exampleIos False) snapRequest) = []"
    and p3: "map_option ne_code (rs_error (fst (ios_handleInvoke (exampleIos False) snapRequest)))
               = Some unavailable"
    by simp_all
  have b: "isBackgrounded (exampleIos True)
           \<and> (rq_command snapRequest = camera_snap \<or> rq_command snapRequest = camera_clip)"
    by (simp add: exampleIos_def snapRequest_command)
  from camera_gate [where i = "exampleIos True" and req = snapRequest] b
  have "ios_handleInvoke (exampleIos True) snapRequest
        = (\<lparr>rs_id = rq_id snapRequest, rs_ok = False, rs_payloadJSON = None,
            rs_error = Some \<lparr>ne_code = backgroundUnavailable,
                             ne_message = ''NODE_BACKGROUND_UNAVAILABLE: canvas/camera/screen commands require foreground''\<rparr>\<rparr>,
           [])"
    by blast
  then have p4: "snd (ios_handleInvoke (exampleIos True) snapRequest) = []"
    and p5: "map_option ne_code (rs_error (fst (ios_handleInvoke (exampleIos True) snapRequest)))
               = Some backgroundUnavailable"
    by simp_all
  show ?thesis using p1 p2 p3 p4 p5 by blast
qed

theorem camera_gate_code_counterexample:
  "map_option ne_code (rs_error (fst (mac_handleInvoke (exampleMac False) snapRequest)))
     = Some unavailable
   \<and> map_option ne_message (rs_error (fst (mac_handleInvoke (exampleMac False) snapRequest)))
     = Some ''CAMERA_DISABLED: enable Camera in Settings''
   \<and> rawValue unavailable \<noteq> ''CAMERA_DISABLED''
   \<and> mac_handleInvoke (exampleMac True) snapRequest
     = (errorResponse snapRequest unavailable ''camera failed'', [DecodeParams, CameraSnap])
   \<and> map_option ne_code (rs_error (fst (ios_handleInvoke (exampleIos True) snapRequest)))
     = Some backgroundUnavailable"
proof -
  have "mac_handleInvoke (exampleMac False) snapRequest
          = (errorResponse snapRequest unavailable ''CAMERA_DISABLED: enable Camera in Settings'',
             [])"
    by (rule mac_camera_disabled) (simp_all add: exampleMac_def snapRequest_command)
  moreover have "mac_handleInvoke (exampleMac True) snapRequest
     = (errorResponse snapRequest unavailable ''camera failed'', [DecodeParams, CameraSnap])"
    by (simp add: mac_handleInvoke_def Let_def snapRequest_command command_prefixes
          exampleMac_def)
  moreover have "ios_handleInvoke (exampleIos True) snapRequest
           = (errorResponse snapRequest backgroundUnavailable
                ''NODE_BACKGROUND_UNAVAILABLE: canvas/camera/screen commands require foreground'',
              [])"
    by (rule ios_backgrounded) (simp_all add: exampleIos_def snapRequest_command command_prefixes)
  ultimately show ?thesis
    by (simp add: errorResponse_def rawValue_def)
qed

section \<open>Lines the read loop cannot use\<close>

text \<open>
  C3, evaluated: on a connected session a line that parses to something other than an
  object, and an object of an unknown type, are skipped, and the \<^verbatim>\<open>ping\<close> that
  follows them is answered. A line that is not JSON makes \<^verbatim>\<open>parseToJsonElement\<close>
  throw: the read loop is left with that exception at once, whatever lines follow, the
  \<^verbatim>\<open>ping\<close> after it is never read, and \<^verbatim>\<open>connectOnce\<close> ends throwing.
\<close>

theorem malformed_line_ends_session:
  "connectOnce exampleEnv exampleEndpoint exampleHello
     (Connects None
        [helloOkLine ''http://10.0.0.5:18793'', Json (JsonArray []), bogusLine, pingLine])
     newSession
   = (None, connectOnce_finally (emit (Sent (pongFrame ''p1'')) exampleConnected))
   \<and> connectOnce exampleEnv exampleEndpoint exampleHello
     (Connects None [helloOkLine ''http://10.0.0.5:18793'', BadJson parseError, pingLine])
     newSession
   = (Some parseError, connectOnce_finally exampleConnected)
   \<and> readLoop e (BadJson x # rest) s = (Some x, s)"
  by (simp add: connectOnce_example readLoop_skips asObjectOrNull_def)

section \<open>Backoff\<close>





section \<open>Leaving the connected state\<close>

text \<open>
  C5, as the code has it: \<open>canvasHostUrl\<close> is null in a new session; a connection
  attempt that fails before or during the handshake leaves it as it was, and
  processing a \<^verbatim>\<open>hello-ok\<close> frame sets it to the URL resolved from that frame. When
  a connection attempt leaves a connected socket (by a failure or by a clean end) the
  current connection is unset, every deferred of the correlation table is cancelled
  and the table emptied, and the socket is closed. A failed attempt makes the
  supervisor report the status \<^verbatim>\<open>Bridge error\<close> with the exception's message and
  then sleep. \<^verbatim>\<open>disconnect\<close> without a job, or with a job that waits in a delay,
  clears \<open>canvasHostUrl\<close> and reports \<^verbatim>\<open>Offline\<close>. \<^verbatim>\<open>disconnect\<close> with a job inside
  the read loop ends when the loop leaves (the peer closes the stream, a read or a
  line fails): then the teardown above has run, the supervisor has reported a
  \<^verbatim>\<open>Bridge error\<close>, \<open>canvasHostUrl\<close> is cleared and \<^verbatim>\<open>Offline\<close> is the last status.
  While the peer keeps the stream open and sends nothing more, \<^verbatim>\<open>disconnect\<close> does
  not end and the session stays as the read loop left it, with its connection and its
  \<open>canvasHostUrl\<close>.
\<close>

theorem session_exit_effects:
  "canvasHostUrl newSession = None
   \<and> canvasHostUrl (snd (connectOnce e endpoint hello (ConnectFails x) s)) = canvasHostUrl s
   \<and> (input = [] \<or> \<not> isHelloOk (hd input) \<longrightarrow>
         canvasHostUrl (snd (connectOnce e endpoint hello (Connects addr input) s))
           = canvasHostUrl s)
   \<and> (isHelloOk l \<longrightarrow>
         canvasHostUrl (snd (connectOnce_try e endpoint hello addr (l # rest) s))
           = normalizeCanvasHostUrl (newURI e) (advertisedCanvasUrl (frameOf l)) endpoint)
   \<and> currentConnection (snd (connectOnce e endpoint hello (Connects addr input) s)) = None
   \<and> pending (snd (connectOnce e endpoint hello (Connects addr input) s)) = []
   \<and> (\<exists>t. trace (snd (connectOnce e endpoint hello (Connects addr input) s)) = t @ [SocketClosed])
   \<and> (\<forall>kv \<in> set (pending s).
         deferreds (connectOnce_finally s) (snd kv) = map_option cancel (deferreds s (snd kv)))
   \<and> (fst (connectOnce e endpoint hello sock
               (emit (OnDisconnected (if attempt = 0 then ''Connecting'' @ ellipsis
                                      else ''Reconnecting'' @ ellipsis)) s)) = Some x \<longrightarrow>
         (\<exists>t. trace (snd (runLoop e [Target endpoint hello sock] attempt s))
                = t @ [OnDisconnected (''Bridge error: '' @ errorText x),
                       Delay (sleepMs (inc32 attempt))]))
   \<and> disconnect e c NoJob s
       = Finished (s\<lparr>canvasHostUrl := None, trace := trace s @ [OnDisconnected ''Offline'']\<rparr>)
   \<and> disconnect e c InDelay s
       = Finished (s\<lparr>canvasHostUrl := None, trace := trace s @ [OnDisconnected ''Offline'']\<rparr>)
   \<and> (after = Closes \<or> readLoop_waits e input s = None \<longrightarrow>
         (\<exists>s'. disconnect e c (InReadLoop input after) s = Finished s'
               \<and> canvasHostUrl s' = None
               \<and> currentConnection s' = None
               \<and> pending s' = []
               \<and> trace s'
                   = trace (snd (readLoop e input s))
                     @ [SocketClosed,
                        OnDisconnected
                          (''Bridge error: ''
                           @ errorText (case fst (readLoop e input s) of
                                          None \<Rightarrow> c | Some x \<Rightarrow> x)),
                        OnDisconnected ''Offline'']
               \<and> (\<forall>kv \<in> set (pending (snd (readLoop e input s))).
                     deferreds s' (snd kv)
                       = map_option cancel (deferreds (snd (readLoop e input s)) (snd kv)))))
   \<and> (readLoop_waits e input s = Some w \<longrightarrow>
         disconnect e c (InReadLoop input Silent) s = Blocked w
         \<and> readLoop e input s = (None, w)
         \<and> canvasHostUrl w = canvasHostUrl s
         \<and> currentConnection w = currentConnection s)"
proof (intro conjI impI ballI)
  show "canvasHostUrl newSession = None"
    by (simp add: newSession_def)
  show "canvasHostUrl (snd (connectOnce e endpoint hello (ConnectFails x) s)) = canvasHostUrl s"
    by (simp add: connectOnce_ConnectFails)
  show "currentConnection (snd (connectOnce e endpoint hello (Connects addr input) s)) = None"
    "pending (snd (connectOnce e endpoint hello (Connects addr input) s)) = []"
    "\<exists>t. trace (snd (connectOnce e endpoint hello (Connects addr input) s)) = t @ [SocketClosed]"
    by (rule connectOnce_pending)+
next
  assume a: "input = [] \<or> \<not> isHelloOk (hd input)"
  from connectOnce_try_rejected [OF a]
  obtain y where "connectOnce_try e endpoint hello addr input (s\<lparr>currentConnection := Some addr\<rparr>)
                  = (Some y, emit (Sent (helloFrame hello)) (s\<lparr>currentConnection := Some addr\<rparr>))"
    by blast
  then show "canvasHostUrl (snd (connectOnce e endpoint hello (Connects addr input) s))
               = canvasHostUrl s"
    by (simp add: connectOnce_Connects)
next
  assume "isHelloOk l"
  then show "canvasHostUrl (snd (connectOnce_try e endpoint hello addr (l # rest) s))
               = normalizeCanvasHostUrl (newURI e) (advertisedCanvasUrl (frameOf l)) endpoint"
    using readLoop_frame by (simp add: connectOnce_try_hello_ok)
next
  fix kv assume "kv \<in> set (pending s)"
  then show "deferreds (connectOnce_finally s) (snd kv) = map_option cancel (deferreds s (snd kv))"
    by (simp add: connectOnce_finally_deferreds)
next
  assume "fst (connectOnce e endpoint hello sock
               (emit (OnDisconnected (if attempt = 0 then ''Connecting'' @ ellipsis
                                      else ''Reconnecting'' @ ellipsis)) s)) = Some x"
  from runLoop_failure [OF this, of "[]"]
  show "\<exists>t. trace (snd (runLoop e [Target endpoint hello sock] attempt s))
                = t @ [OnDisconnected (''Bridge error: '' @ errorText x),
                       Delay (sleepMs (inc32 attempt))]"
    by simp
next
  show "disconnect e c NoJob s
          = Finished (s\<lparr>canvasHostUrl := None, trace := trace s @ [OnDisconnected ''Offline'']\<rparr>)"
    "disconnect e c InDelay s
          = Finished (s\<lparr>canvasHostUrl := None, trace := trace s @ [OnDisconnected ''Offline'']\<rparr>)"
    by (simp_all add: disconnect_idle emit_def)
next
  assume a: "after = Closes \<or> readLoop_waits e input s = None"
  let ?r = "readLoop e input s"
  let ?s' = "emit (OnDisconnected ''Offline'')
               ((emit (OnDisconnected
                         (''Bridge error: ''
                          @ errorText (case fst ?r of None \<Rightarrow> c | Some x \<Rightarrow> x)))
                   (connectOnce_finally (snd ?r)))
                  \<lparr>canvasHostUrl := None\<rparr>)"
  have d: "disconnect e c (InReadLoop input after) s = Finished ?s'"
    using a by (rule disconnect_finished)
  have "canvasHostUrl ?s' = None" "currentConnection ?s' = None" "pending ?s' = []"
    "trace ?s' = trace (snd ?r)
                 @ [SocketClosed,
                    OnDisconnected
                      (''Bridge error: ''
                       @ errorText (case fst ?r of None \<Rightarrow> c | Some x \<Rightarrow> x)),
                    OnDisconnected ''Offline'']"
    by simp_all
  moreover have "\<forall>kv \<in> set (pending (snd ?r)).
                   deferreds ?s' (snd kv) = map_option cancel (deferreds (snd ?r) (snd kv))"
    by (simp add: connectOnce_finally_deferreds)
  ultimately show "\<exists>s'. disconnect e c (InReadLoop input after) s = Finished s'
               \<and> canvasHostUrl s' = None
               \<and> currentConnection s' = None
               \<and> pending s' = []
               \<and> trace s'
                   = trace (snd (readLoop e input s))
                     @ [SocketClosed,
                        OnDisconnected
                          (''Bridge error: ''
                           @ errorText (case fst (readLoop e input s) of
                                          None \<Rightarrow> c | Some x \<Rightarrow> x)),
                        OnDisconnected ''Offline'']
               \<and> (\<forall>kv \<in> set (pending (snd (readLoop e input s))).
                     deferreds s' (snd kv)
                       = map_option cancel (deferreds (snd (readLoop e input s)) (snd kv)))"
    using d by blast
next
  assume a: "readLoop_waits e input s = Some w"
  then show "disconnect e c (InReadLoop input Silent) s = Blocked w"
    by (rule disconnect_blocked)
  from a have r: "readLoop e input s = (None, w)"
    by (simp add: readLoop_waits_readLoop)
  then show "readLoop e input s = (None, w)" .
  from readLoop_frame [of e input s] r
  show "canvasHostUrl w = canvasHostUrl s" "currentConnection w = currentConnection s"
    by simp_all
qed

text \<open>
  Against the claim as it is worded. A read that fails after \<^verbatim>\<open>hello-ok\<close> ends the
  attempt with \<open>canvasHostUrl\<close> still set, and the teardown cancels a waiter, which is not a
  \<^verbatim>\<open>not connected\<close> failure. After \<^verbatim>\<open>disconnect\<close>, a peer that sends a ping and then
  nothing keeps the session as it was: the ping is answered, the connection and
  \<open>canvasHostUrl\<close> stay, the socket is not closed and \<^verbatim>\<open>Offline\<close> is not reported.
\<close>

theorem session_exit_counterexample:
  "fst (connectOnce exampleEnv exampleEndpoint exampleHello
          (Connects None [helloOkLine ''http://10.0.0.5:18793'', ReadThrows connectionReset])
          newSession) = Some connectionReset
   \<and> canvasHostUrl
        (snd (connectOnce exampleEnv exampleEndpoint exampleHello
                (Connects None [helloOkLine ''http://10.0.0.5:18793'', ReadThrows connectionReset])
                newSession)) = Some ''http://10.0.0.5:18793''
   \<and> deferreds (connectOnce_finally twoRequests) 0 = Some Cancelled
   \<and> request_await Cancelled \<noteq> Throws (IllegalStateException ''not connected'')
   \<and> disconnect exampleEnv jobCancelled (InReadLoop [pingLine] Silent) exampleConnected
       = Blocked (emit (Sent (pongFrame ''p1'')) exampleConnected)
   \<and> canvasHostUrl (emit (Sent (pongFrame ''p1'')) exampleConnected)
       = Some ''http://10.0.0.5:18793''
   \<and> currentConnection (emit (Sent (pongFrame ''p1'')) exampleConnected) = Some None
   \<and> SocketClosed \<notin> set (trace (emit (Sent (pongFrame ''p1'')) exampleConnected))
   \<and> OnDisconnected ''Offline'' \<notin> set (trace (emit (Sent (pongFrame ''p1'')) exampleConnected))"
proof -
  have a: "fst (connectOnce exampleEnv exampleEndpoint exampleHello
                  (Connects None
                     [helloOkLine ''http://10.0.0.5:18793'', ReadThrows connectionReset])
                  newSession) = Some connectionReset"
    "canvasHostUrl
        (snd (connectOnce exampleEnv exampleEndpoint exampleHello
                (Connects None [helloOkLine ''http://10.0.0.5:18793'', ReadThrows connectionReset])
                newSession)) = Some ''http://10.0.0.5:18793''"
    by (simp_all add: connectOnce_example exampleConnected_def)
  have b: "deferreds (connectOnce_finally twoRequests) 0 = Some Cancelled"
    using connectOnce_finally_cancels [of "(''r1'', 0)" twoRequests]
    by (simp add: twoRequests_facts)
  have c: "request_await Cancelled \<noteq> Throws (IllegalStateException ''not connected'')"
    by (simp add: request_await_def)
  have "readLoop_waits exampleEnv [pingLine] exampleConnected
          = Some (emit (Sent (pongFrame ''p1'')) exampleConnected)"
    by (simp add: pingLine_def asObjectOrNull_def handleFrame_def asStringOrNull_def)
  then have d: "disconnect exampleEnv jobCancelled (InReadLoop [pingLine] Silent) exampleConnected
               = Blocked (emit (Sent (pongFrame ''p1'')) exampleConnected)"
    by (rule disconnect_blocked)
  have e: "canvasHostUrl (emit (Sent (pongFrame ''p1'')) exampleConnected)
             = Some ''http://10.0.0.5:18793''"
    "currentConnection (emit (Sent (pongFrame ''p1'')) exampleConnected) = Some None"
    "SocketClosed \<notin> set (trace (emit (Sent (pongFrame ''p1'')) exampleConnected))"
    "OnDisconnected ''Offline'' \<notin> set (trace (emit (Sent (pongFrame ''p1'')) exampleConnected))"
    by (simp_all add: exampleConnected_def newSession_def)
  show ?thesis
    using a b c d e by blast
qed

theorem session_exit_effects_witness:
  "canvasHostUrl
     (snd (connectOnce exampleEnv exampleEndpoint exampleHello (Connects None [pingLine])
             newSession)) = None
   \<and> canvasHostUrl
       (snd (connectOnce_try exampleEnv exampleEndpoint exampleHello None
               [helloOkLine ''http://10.0.0.5:18793''] newSession))
     = Some ''http://10.0.0.5:18793''
   \<and> deferreds (connectOnce_finally twoRequests) 1 = Some Cancelled
   \<and> (\<exists>t. trace (snd (runLoop exampleEnv
                         [Target exampleEndpoint exampleHello (Connects None [])] 0 newSession))
          = t @ [OnDisconnected ''Bridge error: bridge closed connection'', Delay 595])
   \<and> disconnect exampleEnv jobCancelled NoJob newSession
       = Finished (newSession\<lparr>canvasHostUrl := None, trace := [OnDisconnected ''Offline'']\<rparr>)
   \<and> (\<exists>s'. disconnect exampleEnv jobCancelled (InReadLoop [] Closes) twoRequests = Finished s'
            \<and> canvasHostUrl s' = None \<and> currentConnection s' = None \<and> pending s' = []
            \<and> trace s'
                = trace twoRequests
                  @ [SocketClosed,
                     OnDisconnected ''Bridge error: StandaloneCoroutine was cancelled'',
                     OnDisconnected ''Offline'']
            \<and> deferreds s' 0 = Some Cancelled)
   \<and> (\<exists>s'. disconnect exampleEnv jobCancelled (InReadLoop [ReadThrows connectionReset] Silent)
               exampleConnected = Finished s'
            \<and> canvasHostUrl s' = None
            \<and> trace s'
                = trace exampleConnected
                  @ [SocketClosed,
                     OnDisconnected ''Bridge error: Connection reset'',
                     OnDisconnected ''Offline''])
   \<and> disconnect exampleEnv jobCancelled (InReadLoop [] Silent) twoRequests = Blocked twoRequests"
proof -
  have n: "[pingLine] = [] \<or> \<not> isHelloOk (hd [pingLine])"
    by (simp add: isHelloOk_def pingLine_def asStringOrNull_def)
  from session_exit_effects
         [where input = "[pingLine]" and e = exampleEnv and endpoint = exampleEndpoint
            and hello = exampleHello and addr = None and s = newSession] n
  have "canvasHostUrl
          (snd (connectOnce exampleEnv exampleEndpoint exampleHello (Connects None [pingLine])
                  newSession)) = canvasHostUrl newSession"
    by blast
  then have p1: "canvasHostUrl
          (snd (connectOnce exampleEnv exampleEndpoint exampleHello (Connects None [pingLine])
                  newSession)) = None"
    by (simp add: newSession_def)
  have h: "isHelloOk (helloOkLine ''http://10.0.0.5:18793'')"
    by (rule helloOkLine_facts)
  from session_exit_effects
         [where l = "helloOkLine ''http://10.0.0.5:18793''" and e = exampleEnv
            and endpoint = exampleEndpoint and hello = exampleHello and addr = None
            and s = newSession and rest = "[]"] h
  have "canvasHostUrl
          (snd (connectOnce_try exampleEnv exampleEndpoint exampleHello None
                  [helloOkLine ''http://10.0.0.5:18793''] newSession))
        = normalizeCanvasHostUrl (newURI exampleEnv)
            (advertisedCanvasUrl (frameOf (helloOkLine ''http://10.0.0.5:18793''))) exampleEndpoint"
    by blast
  then have p2: "canvasHostUrl
          (snd (connectOnce_try exampleEnv exampleEndpoint exampleHello None
                  [helloOkLine ''http://10.0.0.5:18793''] newSession))
        = Some ''http://10.0.0.5:18793''"
    by (simp add: helloOkLine_facts example_trims newURI_exampleEnv normalize_example_verbatim)
  have m1: "(''r1'', 0) \<in> set (pending twoRequests)"
    and m2: "(''r2'', 1) \<in> set (pending twoRequests)"
    by (simp_all add: twoRequests_facts)
  from session_exit_effects [where s = twoRequests]
  have f: "\<forall>kv \<in> set (pending twoRequests).
             deferreds (connectOnce_finally twoRequests) (snd kv)
               = map_option cancel (deferreds twoRequests (snd kv))"
    by blast
  from bspec [OF f m2] have p3: "deferreds (connectOnce_finally twoRequests) 1 = Some Cancelled"
    by (simp add: twoRequests_facts cancel_def)
  let ?s1 = "emit (OnDisconnected (if (0 :: int) = 0 then ''Connecting'' @ ellipsis
                                   else ''Reconnecting'' @ ellipsis)) newSession"
  have x: "fst (connectOnce exampleEnv exampleEndpoint exampleHello (Connects None []) ?s1)
             = Some (IllegalStateException ''bridge closed connection'')"
    by (simp add: connectOnce_Connects connectOnce_try_def)
  from session_exit_effects
         [where sock = "Connects None []" and e = exampleEnv and endpoint = exampleEndpoint
            and hello = exampleHello and attempt = 0 and s = newSession
            and x = "IllegalStateException ''bridge closed connection''"] x
  have "\<exists>t. trace (snd (runLoop exampleEnv
                          [Target exampleEndpoint exampleHello (Connects None [])] 0 newSession))
          = t @ [OnDisconnected
                   (''Bridge error: ''
                    @ errorText (IllegalStateException ''bridge closed connection'')),
                 Delay (sleepMs (inc32 0))]"
    by blast
  then have p4: "\<exists>t. trace (snd (runLoop exampleEnv
                          [Target exampleEndpoint exampleHello (Connects None [])] 0 newSession))
          = t @ [OnDisconnected ''Bridge error: bridge closed connection'', Delay 595]"
    by (simp add: inc32_small sleepMs_first errorText_def IllegalStateException_def)
  from session_exit_effects [where s = newSession and e = exampleEnv and c = jobCancelled]
  have "disconnect exampleEnv jobCancelled NoJob newSession
          = Finished (newSession\<lparr>canvasHostUrl := None,
                                 trace := trace newSession @ [OnDisconnected ''Offline'']\<rparr>)"
    by blast
  then have p5: "disconnect exampleEnv jobCancelled NoJob newSession
          = Finished (newSession\<lparr>canvasHostUrl := None, trace := [OnDisconnected ''Offline'']\<rparr>)"
    by (simp add: newSession_def)
  have c: "Closes = Closes \<or> readLoop_waits exampleEnv [] twoRequests = None"
    by simp
  from session_exit_effects
         [where s = twoRequests and e = exampleEnv and c = jobCancelled and input = "[]"
            and after = Closes] c
  obtain s' where s': "disconnect exampleEnv jobCancelled (InReadLoop [] Closes) twoRequests
                         = Finished s'"
      "canvasHostUrl s' = None" "currentConnection s' = None" "pending s' = []"
      "trace s'
         = trace (snd (readLoop exampleEnv [] twoRequests))
           @ [SocketClosed,
              OnDisconnected
                (''Bridge error: ''
                 @ errorText (case fst (readLoop exampleEnv [] twoRequests) of
                                None \<Rightarrow> jobCancelled | Some x \<Rightarrow> x)),
              OnDisconnected ''Offline'']"
      "\<forall>kv \<in> set (pending (snd (readLoop exampleEnv [] twoRequests))).
         deferreds s' (snd kv)
           = map_option cancel (deferreds (snd (readLoop exampleEnv [] twoRequests)) (snd kv))"
    by blast
  from s'(6) m1 have "deferreds s' 0 = map_option cancel (deferreds twoRequests 0)"
    by fastforce
  then have d0: "deferreds s' 0 = Some Cancelled"
    by (simp add: twoRequests_facts cancel_def)
  from s'(5) have t: "trace s'
         = trace twoRequests
           @ [SocketClosed,
              OnDisconnected ''Bridge error: StandaloneCoroutine was cancelled'',
              OnDisconnected ''Offline'']"
    by (simp add: errorText_def jobCancelled_def)
  from s'(1-4) t d0
  have p6: "\<exists>s'. disconnect exampleEnv jobCancelled (InReadLoop [] Closes) twoRequests = Finished s'
            \<and> canvasHostUrl s' = None \<and> currentConnection s' = None \<and> pending s' = []
            \<and> trace s'
                = trace twoRequests
                  @ [SocketClosed,
                     OnDisconnected ''Bridge error: StandaloneCoroutine was cancelled'',
                     OnDisconnected ''Offline'']
            \<and> deferreds s' 0 = Some Cancelled"
    by blast
  have c2: "Silent = Closes
            \<or> readLoop_waits exampleEnv [ReadThrows connectionReset] exampleConnected = None"
    by simp
  from session_exit_effects
         [where s = exampleConnected and e = exampleEnv and c = jobCancelled
            and input = "[ReadThrows connectionReset]" and after = Silent] c2
  obtain s2 where s2: "disconnect exampleEnv jobCancelled
                         (InReadLoop [ReadThrows connectionReset] Silent) exampleConnected
                       = Finished s2"
      "canvasHostUrl s2 = None"
      "trace s2
         = trace (snd (readLoop exampleEnv [ReadThrows connectionReset] exampleConnected))
           @ [SocketClosed,
              OnDisconnected
                (''Bridge error: ''
                 @ errorText (case fst (readLoop exampleEnv [ReadThrows connectionReset]
                                          exampleConnected) of
                                None \<Rightarrow> jobCancelled | Some x \<Rightarrow> x)),
              OnDisconnected ''Offline'']"
    by blast
  from s2(3) have "trace s2
         = trace exampleConnected
           @ [SocketClosed,
              OnDisconnected ''Bridge error: Connection reset'',
              OnDisconnected ''Offline'']"
    by (simp add: errorText_def connectionReset_def)
  with s2(1,2)
  have p7: "\<exists>s'. disconnect exampleEnv jobCancelled
                    (InReadLoop [ReadThrows connectionReset] Silent) exampleConnected
                  = Finished s'
            \<and> canvasHostUrl s' = None
            \<and> trace s'
                = trace exampleConnected
                  @ [SocketClosed,
                     OnDisconnected ''Bridge error: Connection reset'',
                     OnDisconnected ''Offline'']"
    by blast
  have c3: "readLoop_waits exampleEnv [] twoRequests = Some twoRequests"
    by simp
  from session_exit_effects
         [where s = twoRequests and e = exampleEnv and c = jobCancelled and input = "[]"
            and w = twoRequests] c3
  have p8: "disconnect exampleEnv jobCancelled (InReadLoop [] Silent) twoRequests
              = Blocked twoRequests"
    by blast
  show ?thesis using p1 p2 p3 p4 p5 p6 p7 p8 by blast
qed

section \<open>Requests outstanding at teardown\<close>

text \<open>
  C6, as the code has it: whatever requests are outstanding when the connection is
  torn down, the teardown cancels the deferred of every one of them and leaves the
  correlation table empty, so that a caller of \<^verbatim>\<open>request\<close> is resumed with the
  cancellation (a CancellationException) and does not stay suspended. Over a whole
  connection attempt on a connected socket, every request that was in the table ends
  completed or cancelled and the table ends empty. \<^verbatim>\<open>disconnect\<close> itself cancels no
  request: with a job inside the read loop it ends when the loop leaves, which it
  does when the peer closes the stream, and then every request that was in the table
  has ended completed or cancelled and the table is empty; while the peer keeps the
  stream open and sends nothing, the session stays as the read loop left it, and the
  deferreds that the lines did not reach are as they were.
\<close>

theorem teardown_cancels_waiters:
  "pending (connectOnce_finally s) = []
   \<and> (\<forall>kv \<in> set (pending s). deferreds s (snd kv) = Some Active \<longrightarrow>
         deferreds (connectOnce_finally s) (snd kv) = Some Cancelled
         \<and> request_await Cancelled = ThrowsCancellation)
   \<and> (distinct (map fst (pending s)) \<longrightarrow>
         pending (snd (connectOnce e endpoint hello (Connects addr input) s)) = []
         \<and> (\<forall>kv \<in> set (pending s). \<forall>d. deferreds s (snd kv) = Some d \<longrightarrow>
               (\<exists>d'. deferreds (snd (connectOnce e endpoint hello (Connects addr input) s)) (snd kv)
                        = Some d'
                     \<and> request_await d' \<noteq> Suspended)))
   \<and> (distinct (map fst (pending s))
        \<and> (after = Closes \<or> readLoop_waits e input s = None) \<longrightarrow>
         (\<exists>s'. disconnect e c (InReadLoop input after) s = Finished s'
               \<and> pending s' = []
               \<and> (\<forall>kv \<in> set (pending s). \<forall>d. deferreds s (snd kv) = Some d \<longrightarrow>
                     (\<exists>d'. deferreds s' (snd kv) = Some d' \<and> request_await d' \<noteq> Suspended))))
   \<and> (readLoop_waits e input s = Some w \<longrightarrow>
         disconnect e c (InReadLoop input Silent) s = Blocked w
         \<and> readLoop e input s = (None, w)
         \<and> (\<forall>h. h \<notin> snd ` set (pending s) \<longrightarrow> deferreds w h = deferreds s h))"
proof (intro conjI impI ballI allI)
  show "pending (connectOnce_finally s) = []" by simp
  show "request_await Cancelled = ThrowsCancellation" by (simp add: request_await_def)
  show "pending (snd (connectOnce e endpoint hello (Connects addr input) s)) = []"
    by (rule connectOnce_pending)
next
  fix kv assume "kv \<in> set (pending s)" "deferreds s (snd kv) = Some Active"
  then show "deferreds (connectOnce_finally s) (snd kv) = Some Cancelled"
    by (rule connectOnce_finally_cancels)
next
  fix kv d assume "distinct (map fst (pending s))" "kv \<in> set (pending s)"
    "deferreds s (snd kv) = Some d"
  then show "\<exists>d'. deferreds (snd (connectOnce e endpoint hello (Connects addr input) s)) (snd kv)
                    = Some d' \<and> request_await d' \<noteq> Suspended"
    by (rule connectOnce_resolves)
next
  assume a: "distinct (map fst (pending s))
             \<and> (after = Closes \<or> readLoop_waits e input s = None)"
  let ?r = "readLoop e input s"
  let ?s' = "emit (OnDisconnected ''Offline'')
               ((emit (OnDisconnected
                         (''Bridge error: ''
                          @ errorText (case fst ?r of None \<Rightarrow> c | Some x \<Rightarrow> x)))
                   (connectOnce_finally (snd ?r)))
                  \<lparr>canvasHostUrl := None\<rparr>)"
  have d: "disconnect e c (InReadLoop input after) s = Finished ?s'"
    using a by (intro disconnect_finished) simp
  have p: "pending ?s' = []" by simp
  have r: "\<exists>d'. deferreds ?s' (snd kv) = Some d' \<and> request_await d' \<noteq> Suspended"
    if "kv \<in> set (pending s)" "deferreds s (snd kv) = Some d" for kv d
  proof -
    have "waiting s (snd kv)"
      using that(1) by (auto simp: waiting_def)
    with a have "waiting (snd ?r) (snd kv)"
      by (intro readLoop_waiting) simp_all
    then have n: "deferreds (connectOnce_finally (snd ?r)) (snd kv) \<noteq> Some Active"
      by (rule connectOnce_finally_resolved)
    have "deferreds (connectOnce_finally (snd ?r)) (snd kv) \<noteq> None"
      using that(2) by (simp add: connectOnce_finally_defined readLoop_defined)
    then obtain d' where d': "deferreds (connectOnce_finally (snd ?r)) (snd kv) = Some d'"
      by auto
    with n have "d' \<noteq> Active" by simp
    with d' show ?thesis
      by (simp add: request_await_Suspended)
  qed
  from d p r
  show "\<exists>s'. disconnect e c (InReadLoop input after) s = Finished s'
               \<and> pending s' = []
               \<and> (\<forall>kv \<in> set (pending s). \<forall>d. deferreds s (snd kv) = Some d \<longrightarrow>
                     (\<exists>d'. deferreds s' (snd kv) = Some d' \<and> request_await d' \<noteq> Suspended))"
    by blast
next
  assume a: "readLoop_waits e input s = Some w"
  then show "disconnect e c (InReadLoop input Silent) s = Blocked w"
    by (rule disconnect_blocked)
  from a show r: "readLoop e input s = (None, w)"
    by (simp add: readLoop_waits_readLoop)
  fix h assume "h \<notin> snd ` set (pending s)"
  from readLoop_deferreds_other [OF this, of e input] r
  show "deferreds w h = deferreds s h"
    by simp
qed

text \<open>
  Against the claim as it is worded. The teardown cancels the waiters, and a caller
  of \<^verbatim>\<open>request\<close> sees the cancellation, not a \<^verbatim>\<open>not connected\<close> failure. After
  \<^verbatim>\<open>disconnect\<close>, while the peer keeps the stream open and sends nothing, the two
  requests stay in the table with their deferreds active, and their callers stay
  suspended.
\<close>

theorem teardown_failure_counterexample:
  "deferreds (connectOnce_finally twoRequests) 0 = Some Cancelled
   \<and> deferreds (connectOnce_finally twoRequests) 1 = Some Cancelled
   \<and> request_await Cancelled = ThrowsCancellation
   \<and> request_await Cancelled \<noteq> Throws (IllegalStateException ''not connected'')
   \<and> disconnect exampleEnv jobCancelled (InReadLoop [] Silent) twoRequests = Blocked twoRequests
   \<and> pending twoRequests = [(''r2'', 1), (''r1'', 0)]
   \<and> deferreds twoRequests 0 = Some Active
   \<and> deferreds twoRequests 1 = Some Active
   \<and> request_await Active = Suspended"
proof -
  have "deferreds (connectOnce_finally twoRequests) 0 = Some Cancelled"
    using connectOnce_finally_cancels [of "(''r1'', 0)" twoRequests]
    by (simp add: twoRequests_facts)
  moreover have "deferreds (connectOnce_finally twoRequests) 1 = Some Cancelled"
    using connectOnce_finally_cancels [of "(''r2'', 1)" twoRequests]
    by (simp add: twoRequests_facts)
  moreover have "disconnect exampleEnv jobCancelled (InReadLoop [] Silent) twoRequests
                   = Blocked twoRequests"
    by (intro disconnect_blocked) simp
  ultimately show ?thesis
    by (simp add: request_await_def twoRequests_facts)
qed

theorem teardown_cancels_waiters_witness:
  "deferreds (connectOnce_finally twoRequests) 0 = Some Cancelled
   \<and> (\<exists>d'. deferreds
               (snd (connectOnce exampleEnv exampleEndpoint exampleHello
                       (Connects None [helloOkLine ''http://10.0.0.5:18793'', BadJson parseError])
                       twoRequests)) 0 = Some d'
            \<and> request_await d' \<noteq> Suspended)
   \<and> (\<exists>s'. disconnect exampleEnv jobCancelled (InReadLoop [] Closes) twoRequests = Finished s'
            \<and> pending s' = []
            \<and> (\<exists>d'. deferreds s' 0 = Some d' \<and> request_await d' \<noteq> Suspended)
            \<and> (\<exists>d'. deferreds s' 1 = Some d' \<and> request_await d' \<noteq> Suspended))
   \<and> disconnect exampleEnv jobCancelled (InReadLoop [pingLine] Silent) twoRequests
       = Blocked (emit (Sent (pongFrame ''p1'')) twoRequests)"
proof -
  have m1: "(''r1'', 0) \<in> set (pending twoRequests)"
    and m2: "(''r2'', 1) \<in> set (pending twoRequests)"
    by (simp_all add: twoRequests_facts)
  have a1: "deferreds twoRequests (snd (''r1'', 0 :: nat)) = Some Active"
    and a2: "deferreds twoRequests (snd (''r2'', 1 :: nat)) = Some Active"
    by (simp_all add: twoRequests_facts)
  have d: "distinct (map fst (pending twoRequests))"
    by (simp add: twoRequests_facts)
  from teardown_cancels_waiters
         [where s = twoRequests, THEN conjunct2, THEN conjunct1, THEN bspec, OF m1, THEN mp, OF a1]
  have p1: "deferreds (connectOnce_finally twoRequests) 0 = Some Cancelled"
    by simp
  let ?c = "snd (connectOnce exampleEnv exampleEndpoint exampleHello
                   (Connects None [helloOkLine ''http://10.0.0.5:18793'', BadJson parseError])
                   twoRequests)"
  from teardown_cancels_waiters
         [where s = twoRequests and e = exampleEnv and endpoint = exampleEndpoint
            and hello = exampleHello and addr = None
            and input = "[helloOkLine ''http://10.0.0.5:18793'', BadJson parseError]",
          THEN conjunct2, THEN conjunct2, THEN conjunct1, THEN mp, OF d, THEN conjunct2,
          THEN bspec, OF m1, THEN spec, THEN mp, OF a1]
  have p2: "\<exists>d'. deferreds ?c 0 = Some d' \<and> request_await d' \<noteq> Suspended"
    by simp
  have h: "distinct (map fst (pending twoRequests))
           \<and> (Closes = Closes \<or> readLoop_waits exampleEnv [] twoRequests = None)"
    by (simp add: twoRequests_facts)
  from teardown_cancels_waiters
         [where s = twoRequests and e = exampleEnv and c = jobCancelled and input = "[]"
            and after = Closes,
          THEN conjunct2, THEN conjunct2, THEN conjunct2, THEN conjunct1, THEN mp, OF h]
  obtain s' where s': "disconnect exampleEnv jobCancelled (InReadLoop [] Closes) twoRequests
                         = Finished s'"
      "pending s' = []"
      "\<forall>kv \<in> set (pending twoRequests). \<forall>d. deferreds twoRequests (snd kv) = Some d \<longrightarrow>
         (\<exists>d'. deferreds s' (snd kv) = Some d' \<and> request_await d' \<noteq> Suspended)"
    by (elim exE conjE)
  from s'(3) [THEN bspec, OF m1, THEN spec, THEN mp, OF a1]
  have q1: "\<exists>d'. deferreds s' 0 = Some d' \<and> request_await d' \<noteq> Suspended"
    by simp
  from s'(3) [THEN bspec, OF m2, THEN spec, THEN mp, OF a2]
  have q2: "\<exists>d'. deferreds s' 1 = Some d' \<and> request_await d' \<noteq> Suspended"
    by simp
  have p3: "\<exists>s'. disconnect exampleEnv jobCancelled (InReadLoop [] Closes) twoRequests
                    = Finished s'
            \<and> pending s' = []
            \<and> (\<exists>d'. deferreds s' 0 = Some d' \<and> request_await d' \<noteq> Suspended)
            \<and> (\<exists>d'. deferreds s' 1 = Some d' \<and> request_await d' \<noteq> Suspended)"
    by (rule exI [of _ s']) (simp only: s'(1,2) q1 q2 simp_thms)
  have w: "readLoop_waits exampleEnv [pingLine] twoRequests
             = Some (emit (Sent (pongFrame ''p1'')) twoRequests)"
    by (simp add: pingLine_def asObjectOrNull_def handleFrame_def asStringOrNull_def)
  from teardown_cancels_waiters
         [where s = twoRequests and e = exampleEnv and c = jobCancelled
            and input = "[pingLine]"
            and w = "emit (Sent (pongFrame ''p1'')) twoRequests",
          THEN conjunct2, THEN conjunct2, THEN conjunct2, THEN conjunct2, THEN mp, OF w,
          THEN conjunct1]
  have p4: "disconnect exampleEnv jobCancelled (InReadLoop [pingLine] Silent) twoRequests
              = Blocked (emit (Sent (pongFrame ''p1'')) twoRequests)" .
  show ?thesis using p1 p2 p3 p4 by (intro conjI)
qed

section \<open>Responses and their waiters\<close>

text \<open>
  C7: take a session whose correlation table is as \<^verbatim>\<open>request\<close> builds it (one entry
  for an id, a deferred of its own for every entry) and any request registered in it
  under id \<open>i\<close>, still waiting. Whatever \<^verbatim>\<open>res\<close> frames arrive, in whatever order,
  the read loop goes through them all, and the request's deferred is completed by the
  first frame that carries \<open>i\<close>, with the response built from that frame, whose id is
  \<open>i\<close>; it stays active when no frame carries \<open>i\<close>. A \<^verbatim>\<open>res\<close> frame whose id is not
  in the table changes nothing. Registering a further request under another id keeps
  the first in the table, waiting, beside the new one.
\<close>

theorem responses_reach_their_waiters:
  fixes rs :: "(string \<times> bool \<times> string option) list"
  assumes "wellFormed s" and "(i, h) \<in> set (pending s)" and "deferreds s h = Some Active"
  shows "fst (readLoop e (map resLine rs) s) = None
       \<and> deferreds (snd (readLoop e (map resLine rs) s)) h =
           (case find (\<lambda>r. fst r = i) rs of
              None \<Rightarrow> Some Active
            | Some r \<Rightarrow> Some (Completed (resResponse r)))
       \<and> (\<forall>r :: string \<times> bool \<times> string option.
             find (\<lambda>r. fst r = i) rs = Some r \<longrightarrow> res_id (resResponse r) = i)
       \<and> (\<forall>j (r :: string \<times> bool \<times> string option) rest.
             fst r = j \<and> map_of (pending s) j = None
             \<longrightarrow> readLoop e (resLine r # rest) s = readLoop e rest s)
       \<and> (\<forall>j method params h' s'. request j method params s = Inr (h', s') \<and> j \<noteq> i
             \<longrightarrow> wellFormed s' \<and> (i, h) \<in> set (pending s') \<and> deferreds s' h = Some Active
                 \<and> (j, h') \<in> set (pending s') \<and> deferreds s' h' = Some Active)"
proof (intro conjI allI impI)
  show "fst (readLoop e (map resLine rs) s) = None"
    by (rule readLoop_resLines_returns)
  show "deferreds (snd (readLoop e (map resLine rs) s)) h =
           (case find (\<lambda>r. fst r = i) rs of
              None \<Rightarrow> Some Active
            | Some r \<Rightarrow> Some (Completed (resResponse r)))"
    using assms by (rule readLoop_resLines_deferred)
next
  fix r :: "string \<times> bool \<times> string option"
  assume "find (\<lambda>r. fst r = i) rs = Some r"
  then have "fst r = i"
    by (auto simp: find_Some_iff)
  then show "res_id (resResponse r) = i"
    by (simp add: resResponse_def)
next
  fix j and r :: "string \<times> bool \<times> string option" and rest :: "line list"
  assume "fst r = j \<and> map_of (pending s) j = None"
  then have "completePending (fst r) (resResponse r) s = s"
    by (simp add: completePending_def)
  then show "readLoop e (resLine r # rest) s = readLoop e rest s"
    by (simp add: readLoop_resLine)
next
  fix j m params h' s'
  assume a: "request j m params s = Inr (h', s') \<and> j \<noteq> i"
  then have r: "request j m params s = Inr (h', s')" and n: "j \<noteq> i"
    by simp_all
  show "wellFormed s'" "(j, h') \<in> set (pending s')" "deferreds s' h' = Some Active"
    using request_wellFormed [OF assms(1) r] by simp_all
  show "(i, h) \<in> set (pending s')"
    using request_keeps(1) [OF assms(1) r n assms(2)] .
  show "deferreds s' h = Some Active"
    using request_keeps(2) [OF assms(1) r n assms(2)] assms(3) by simp
qed

theorem responses_reach_their_waiters_witness:
  "deferreds
     (snd (readLoop exampleEnv
             (map resLine [(''r2'', True, Some ''b''), (''r1'', False, None)]) twoRequests)) 0
     = Some (Completed (resResponse (''r1'', False, None)))
   \<and> deferreds
     (snd (readLoop exampleEnv
             (map resLine [(''r2'', True, Some ''b''), (''r1'', False, None)]) twoRequests)) 1
     = Some (Completed (resResponse (''r2'', True, Some ''b'')))
   \<and> readLoop exampleEnv [resLine (''late'', True, None)] twoRequests = (None, twoRequests)"
proof -
  let ?rs = "[(''r2'', True, Some ''b''), (''r1'', False, None)]"
  have m1: "(''r1'', 0) \<in> set (pending twoRequests)"
    and m2: "(''r2'', 1) \<in> set (pending twoRequests)"
    by (simp_all add: twoRequests_facts)
  have a1: "deferreds twoRequests 0 = Some Active" and a2: "deferreds twoRequests 1 = Some Active"
    by (simp_all add: twoRequests_facts)
  from responses_reach_their_waiters [OF wellFormed_twoRequests m1 a1, of exampleEnv ?rs]
  have p1: "deferreds (snd (readLoop exampleEnv (map resLine ?rs) twoRequests)) 0
              = Some (Completed (resResponse (''r1'', False, None)))"
    by simp
  from responses_reach_their_waiters [OF wellFormed_twoRequests m2 a2, of exampleEnv ?rs]
  have p2: "deferreds (snd (readLoop exampleEnv (map resLine ?rs) twoRequests)) 1
              = Some (Completed (resResponse (''r2'', True, Some ''b'')))"
    by simp
  have n: "fst (''late'', True, None :: string option) = ''late''
           \<and> map_of (pending twoRequests) ''late'' = None"
    by (simp add: twoRequests_facts)
  from responses_reach_their_waiters [OF wellFormed_twoRequests m1 a1, of exampleEnv ?rs] n
  have "readLoop exampleEnv [resLine (''late'', True, None)] twoRequests
          = readLoop exampleEnv [] twoRequests"
    by blast
  then have p3: "readLoop exampleEnv [resLine (''late'', True, None)] twoRequests
                   = (None, twoRequests)"
    by simp
  show ?thesis using p1 p2 p3 by blast
qed

section \<open>The handshake\<close>

text \<open>
  C8, as the code has it: after sending \<^verbatim>\<open>hello\<close> the session reads one line. If it
  parses to an object of type \<^verbatim>\<open>hello-ok\<close>, the session is connected: it calls
  \<^verbatim>\<open>onConnected\<close> with the advertised server name (\<^verbatim>\<open>Bridge\<close> when absent) and the
  remote address, stores as \<open>canvasHostUrl\<close> the result of canvas host resolution on
  the advertised URL (not the raw URL), and runs the read loop on the lines that
  follow. In every other case (end of stream, an \<^verbatim>\<open>error\<close> frame, any other frame,
  a line that is no object) the attempt throws with only \<^verbatim>\<open>hello\<close> sent, whatever
  lines follow; and a throwing attempt makes the supervisor count a failure, report
  \<^verbatim>\<open>Bridge error\<close> and sleep before the next attempt.
\<close>

theorem handshake_outcome:
  "(isHelloOk l \<longrightarrow>
      connectOnce e endpoint hello (Connects addr (l # rest)) s =
        (fst (readLoop e rest
                (emit (OnConnected (advertisedName (frameOf l)) addr)
                   ((emit (Sent (helloFrame hello)) (s\<lparr>currentConnection := Some addr\<rparr>))
                      \<lparr>canvasHostUrl :=
                         normalizeCanvasHostUrl (newURI e) (advertisedCanvasUrl (frameOf l))
                           endpoint\<rparr>))),
         connectOnce_finally
           (snd (readLoop e rest
                   (emit (OnConnected (advertisedName (frameOf l)) addr)
                      ((emit (Sent (helloFrame hello)) (s\<lparr>currentConnection := Some addr\<rparr>))
                         \<lparr>canvasHostUrl :=
                            normalizeCanvasHostUrl (newURI e) (advertisedCanvasUrl (frameOf l))
                              endpoint\<rparr>))))))
   \<and> (input = [] \<or> \<not> isHelloOk (hd input) \<longrightarrow>
        (\<exists>x. connectOnce e endpoint hello (Connects addr input) s =
               (Some x,
                connectOnce_finally
                  (emit (Sent (helloFrame hello)) (s\<lparr>currentConnection := Some addr\<rparr>)))))
   \<and> (fst (connectOnce e endpoint hello sock
               (emit (OnDisconnected (if attempt = 0 then ''Connecting'' @ ellipsis
                                      else ''Reconnecting'' @ ellipsis)) s)) = Some x \<longrightarrow>
        runLoop e (Target endpoint hello sock # its) attempt s =
          runLoop e its (inc32 attempt)
            (emit (Delay (sleepMs (inc32 attempt)))
               (emit (OnDisconnected (''Bridge error: '' @ errorText x))
                  (snd (connectOnce e endpoint hello sock
                          (emit (OnDisconnected (if attempt = 0 then ''Connecting'' @ ellipsis
                                                 else ''Reconnecting'' @ ellipsis)) s))))))"
proof (intro conjI impI)
  assume "isHelloOk l"
  then show "connectOnce e endpoint hello (Connects addr (l # rest)) s =
        (fst (readLoop e rest
                (emit (OnConnected (advertisedName (frameOf l)) addr)
                   ((emit (Sent (helloFrame hello)) (s\<lparr>currentConnection := Some addr\<rparr>))
                      \<lparr>canvasHostUrl :=
                         normalizeCanvasHostUrl (newURI e) (advertisedCanvasUrl (frameOf l))
                           endpoint\<rparr>))),
         connectOnce_finally
           (snd (readLoop e rest
                   (emit (OnConnected (advertisedName (frameOf l)) addr)
                      ((emit (Sent (helloFrame hello)) (s\<lparr>currentConnection := Some addr\<rparr>))
                         \<lparr>canvasHostUrl :=
                            normalizeCanvasHostUrl (newURI e) (advertisedCanvasUrl (frameOf l))
                              endpoint\<rparr>)))))"
    by (simp add: connectOnce_Connects connectOnce_try_hello_ok)
next
  assume a: "input = [] \<or> \<not> isHelloOk (hd input)"
  from connectOnce_try_rejected [OF a]
  obtain x where "connectOnce_try e endpoint hello addr input (s\<lparr>currentConnection := Some addr\<rparr>)
                  = (Some x, emit (Sent (helloFrame hello)) (s\<lparr>currentConnection := Some addr\<rparr>))"
    by blast
  then show "\<exists>x. connectOnce e endpoint hello (Connects addr input) s =
               (Some x,
                connectOnce_finally
                  (emit (Sent (helloFrame hello)) (s\<lparr>currentConnection := Some addr\<rparr>)))"
    by (simp add: connectOnce_Connects)
next
  assume "fst (connectOnce e endpoint hello sock
               (emit (OnDisconnected (if attempt = 0 then ''Connecting'' @ ellipsis
                                      else ''Reconnecting'' @ ellipsis)) s)) = Some x"
  then show "runLoop e (Target endpoint hello sock # its) attempt s =
          runLoop e its (inc32 attempt)
            (emit (Delay (sleepMs (inc32 attempt)))
               (emit (OnDisconnected (''Bridge error: '' @ errorText x))
                  (snd (connectOnce e endpoint hello sock
                          (emit (OnDisconnected (if attempt = 0 then ''Connecting'' @ ellipsis
                                                 else ''Reconnecting'' @ ellipsis)) s)))))"
    by (rule runLoop_failure)
qed

theorem handshake_outcome_witness:
  "connectOnce exampleEnv exampleEndpoint exampleHello
     (Connects None [helloOkLine ''http://10.0.0.5:18793'']) newSession
   = (None,
      connectOnce_finally
        (emit (OnConnected ''gw'' None)
           ((emit (Sent (helloFrame exampleHello)) (newSession\<lparr>currentConnection := Some None\<rparr>))
              \<lparr>canvasHostUrl := Some ''http://10.0.0.5:18793''\<rparr>)))
   \<and> (\<exists>x. connectOnce exampleEnv exampleEndpoint exampleHello (Connects None [pingLine]) newSession
          = (Some x,
             connectOnce_finally
               (emit (Sent (helloFrame exampleHello))
                  (newSession\<lparr>currentConnection := Some None\<rparr>))))
   \<and> fst (runLoop exampleEnv
            [Target exampleEndpoint exampleHello (Connects None [])] 0 newSession) = 1"
proof -
  note t = handshake_outcome
  have h: "isHelloOk (helloOkLine ''http://10.0.0.5:18793'')"
    by (rule helloOkLine_facts)
  from t [of "helloOkLine ''http://10.0.0.5:18793''" exampleEnv exampleEndpoint exampleHello
            None "[]" newSession] h
  have p1: "connectOnce exampleEnv exampleEndpoint exampleHello
              (Connects None [helloOkLine ''http://10.0.0.5:18793'']) newSession
            = (None,
               connectOnce_finally
                 (emit (OnConnected ''gw'' None)
                    ((emit (Sent (helloFrame exampleHello))
                        (newSession\<lparr>currentConnection := Some None\<rparr>))
                       \<lparr>canvasHostUrl := Some ''http://10.0.0.5:18793''\<rparr>)))"
    by (simp add: helloOkLine_facts example_trims newURI_exampleEnv normalize_example_verbatim)
  have n: "[pingLine] = [] \<or> \<not> isHelloOk (hd [pingLine])"
    by (simp add: isHelloOk_def pingLine_def asStringOrNull_def)
  from t [where input = "[pingLine]" and e = exampleEnv and endpoint = exampleEndpoint
            and hello = exampleHello and addr = None and s = newSession] n
  have p2: "\<exists>x. connectOnce exampleEnv exampleEndpoint exampleHello (Connects None [pingLine])
                  newSession
                = (Some x,
                   connectOnce_finally
                     (emit (Sent (helloFrame exampleHello))
                        (newSession\<lparr>currentConnection := Some None\<rparr>)))"
    by blast
  let ?s1 = "emit (OnDisconnected (if (0 :: int) = 0 then ''Connecting'' @ ellipsis
                                   else ''Reconnecting'' @ ellipsis)) newSession"
  have f: "fst (connectOnce exampleEnv exampleEndpoint exampleHello (Connects None []) ?s1)
             = Some (IllegalStateException ''bridge closed connection'')"
    by (simp add: connectOnce_Connects connectOnce_try_def)
  from t [where sock = "Connects None []" and e = exampleEnv and endpoint = exampleEndpoint
            and hello = exampleHello and attempt = 0 and s = newSession and its = "[]"
            and x = "IllegalStateException ''bridge closed connection''"] f
  have "runLoop exampleEnv [Target exampleEndpoint exampleHello (Connects None [])] 0 newSession
          = runLoop exampleEnv [] (inc32 0)
              (emit (Delay (sleepMs (inc32 0)))
                 (emit (OnDisconnected
                          (''Bridge error: ''
                           @ errorText (IllegalStateException ''bridge closed connection'')))
                    (snd (connectOnce exampleEnv exampleEndpoint exampleHello (Connects None [])
                            ?s1))))"
    by blast
  then have p3: "fst (runLoop exampleEnv
                        [Target exampleEndpoint exampleHello (Connects None [])] 0 newSession) = 1"
    by (simp add: inc32_small)
  show ?thesis using p1 p2 p3 by blast
qed

theorem handshake_canvas_url_counterexample:
  "advertisedCanvasUrl (frameOf (helloOkLine ''http://127.0.0.1:9000''))
     = Some ''http://127.0.0.1:9000''
   \<and> canvasHostUrl
       (snd (connectOnce exampleEnv exampleEndpoint exampleHello
               (Connects None [helloOkLine ''http://127.0.0.1:9000'']) newSession))
     = Some ''http://203.0.113.9:9000''
   \<and> canvasHostUrl
       (snd (connectOnce exampleEnv exampleEndpoint exampleHello
               (Connects None [helloOkLine ''http://127.0.0.1:9000'']) newSession))
     \<noteq> Some ''http://127.0.0.1:9000''"
  by (simp add: connectOnce_Connects connectOnce_try_hello_ok helloOkLine_facts example_trims
        newURI_exampleEnv normalize_example_loopback)

section \<open>Snapshot defaults\<close>

text \<open>
  C9: for every \<^verbatim>\<open>canvas.snapshot\<close> invoke, on both dispatchers, when the parameters
  are absent or do not decode, or \<^verbatim>\<open>maxWidth\<close> is absent or not positive, the maximum
  width is 900 for PNG and 1600 for JPEG (a positive \<^verbatim>\<open>maxWidth\<close> is taken as given;
  the format is JPEG when none is given). On macOS the width is applied by
  \<^verbatim>\<open>scaleImage\<close>: an image wider than the maximum is drawn at that width, any other
  is left as it is. When \<^verbatim>\<open>quality\<close> is absent the quality is 0.9, and the JPEG
  quality applied is \<open>min 1 (max 0.05 quality)\<close>, which lies in \<open>[0.05, 1]\<close> and is the
  quality itself when that lies there: on macOS as the compression factor of every
  JPEG encoding of \<^verbatim>\<open>encodeCanvasSnapshot\<close>, on iOS as the quality of the screen's
  snapshot. The macOS dispatcher answers \<open>ok\<close> with a payload exactly when the bitmap
  of the scaled image encodes with that factor and the payload encodes; the iOS
  dispatcher exactly when the screen renders at that width, format and quality and
  the payload encodes.
\<close>

theorem snapshot_defaults:
  "(params = None \<or> (\<exists>p. params = Some p
                        \<and> (maxWidth p = None \<or> (\<exists>w. maxWidth p = Some w \<and> w \<le> 0))) \<longrightarrow>
      snapshotMaxWidth params = Some (case snapshotFormat params of png \<Rightarrow> 900 | jpeg \<Rightarrow> 1600))
   \<and> (params = Some p \<and> maxWidth p = Some w \<and> 0 < w \<longrightarrow> snapshotMaxWidth params = Some w)
   \<and> (params = None \<or> (\<exists>p. params = Some p \<and> format p = None) \<longrightarrow>
        snapshotFormat params = jpeg)
   \<and> (params = None \<or> (\<exists>p. params = Some p \<and> quality p = None) \<longrightarrow>
        snapshotQuality params = 9 / 10
        \<and> screen_quality (case params of None \<Rightarrow> None | Some p \<Rightarrow> quality p) = 9 / 10)
   \<and> (0 < w \<and> real_of_int w < imageWidth e img \<longrightarrow>
        scaleImage e img (Some w) = draw e img w)
   \<and> (0 < w \<and> imageWidth e img \<le> real_of_int w \<longrightarrow> scaleImage e img (Some w) = img)
   \<and> (\<forall>c \<in> set (snd (encodeCanvasSnapshot e img fmt width q)).
         c = Representation png None
         \<or> (\<exists>k. c = Representation jpeg (Some k) \<and> k = min 1 (max (5 / 100) q)
                 \<and> 5 / 100 \<le> k \<and> k \<le> 1))
   \<and> screen_quality given = min 1 (max (5 / 100) (case given of None \<Rightarrow> 9 / 10 | Some x \<Rightarrow> x))
   \<and> 5 / 100 \<le> screen_quality given \<and> screen_quality given \<le> 1
   \<and> (5 / 100 \<le> q \<and> q \<le> 1 \<longrightarrow> min 1 (max (5 / 100) q) = q \<and> screen_quality (Some q) = q)
   \<and> (canvasEnabled e \<and> rq_command req = canvas_snapshot \<and> canvasSnapshot e = Inr (Some img) \<longrightarrow>
        (fst (mac_handleInvoke e req) = okResponse req (Some payload)
         \<longleftrightarrow> (\<exists>rep data.
                bitmapRep e
                  (scaleImage e img
                     (snapshotMaxWidth (decodeSnapshotParams e (rq_paramsJSON req)))) = Some rep
                \<and> representation e rep
                    (snapshotFormat (decodeSnapshotParams e (rq_paramsJSON req)))
                    (case snapshotFormat (decodeSnapshotParams e (rq_paramsJSON req)) of
                       png \<Rightarrow> None
                     | jpeg \<Rightarrow>
                         Some (min 1 (max (5 / 100)
                                 (snapshotQuality
                                    (decodeSnapshotParams e (rq_paramsJSON req)))))) = Some data
                \<and> encodePayload e
                    (snapshotFormat (decodeSnapshotParams e (rq_paramsJSON req))) data
                    = Inr payload))
        \<and> (\<exists>rest. snd (mac_handleInvoke e req) =
              [DecodeParams, CanvasSnapshot]
              @ snd (encodeCanvasSnapshot e img
                       (snapshotFormat (decodeSnapshotParams e (rq_paramsJSON req)))
                       (snapshotMaxWidth (decodeSnapshotParams e (rq_paramsJSON req)))
                       (snapshotQuality (decodeSnapshotParams e (rq_paramsJSON req))))
              @ rest))
   \<and> (\<not> isBackgrounded i \<and> rq_command req = canvas_snapshot \<longrightarrow>
        (fst (ios_handleInvoke i req) = okResponse req (Some payload)
         \<longleftrightarrow> (\<exists>base64.
                renderBase64 i
                  (snapshotMaxWidth (ios_decodeSnapshotParams i (rq_paramsJSON req)))
                  (snapshotFormat (ios_decodeSnapshotParams i (rq_paramsJSON req)))
                  (screen_quality (case ios_decodeSnapshotParams i (rq_paramsJSON req) of
                                     None \<Rightarrow> None | Some p \<Rightarrow> quality p)) = Inr base64
                \<and> ios_encodePayload i
                    (snapshotFormat (ios_decodeSnapshotParams i (rq_paramsJSON req))) base64
                    = Inr payload))
        \<and> (\<exists>rest. snd (ios_handleInvoke i req) =
              DecodeParams
              # SnapshotBase64
                  (snapshotMaxWidth (ios_decodeSnapshotParams i (rq_paramsJSON req)))
                  (snapshotFormat (ios_decodeSnapshotParams i (rq_paramsJSON req)))
                  (case ios_decodeSnapshotParams i (rq_paramsJSON req) of
                     None \<Rightarrow> None | Some p \<Rightarrow> quality p)
              # rest))"
proof (intro conjI impI ballI)
  assume "params = None \<or> (\<exists>p. params = Some p
                        \<and> (maxWidth p = None \<or> (\<exists>w. maxWidth p = Some w \<and> w \<le> 0)))"
  then show "snapshotMaxWidth params
               = Some (case snapshotFormat params of png \<Rightarrow> 900 | jpeg \<Rightarrow> 1600)"
    by (rule snapshotMaxWidth_default)
next
  assume "params = Some p \<and> maxWidth p = Some w \<and> 0 < w"
  then show "snapshotMaxWidth params = Some w"
    by (rule snapshot_given)
next
  assume "params = None \<or> (\<exists>p. params = Some p \<and> format p = None)"
  then show "snapshotFormat params = jpeg"
    by (rule snapshot_given)
next
  assume a: "params = None \<or> (\<exists>p. params = Some p \<and> quality p = None)"
  then show "snapshotQuality params = 9 / 10"
    by (rule snapshot_given)
  from a have "(case params of None \<Rightarrow> None | Some p \<Rightarrow> quality p) = None"
    by auto
  then show "screen_quality (case params of None \<Rightarrow> None | Some p \<Rightarrow> quality p) = 9 / 10"
    by (simp add: screen_quality_facts)
next
  assume "0 < w \<and> real_of_int w < imageWidth e img"
  then show "scaleImage e img (Some w) = draw e img w"
    by (simp add: scaleImage_cases)
next
  assume "0 < w \<and> imageWidth e img \<le> real_of_int w"
  then show "scaleImage e img (Some w) = img"
    by (simp add: scaleImage_cases)
next
  fix c assume "c \<in> set (snd (encodeCanvasSnapshot e img fmt width q))"
  from encodeCanvasSnapshot_calls [OF this]
  have "c = Representation png None \<or> c = Representation jpeg (Some (min 1 (max (5 / 100) q)))"
    by blast
  then show "c = Representation png None
         \<or> (\<exists>k. c = Representation jpeg (Some k) \<and> k = min 1 (max (5 / 100) q)
                 \<and> 5 / 100 \<le> k \<and> k \<le> 1)"
  proof
    assume "c = Representation png None"
    then show ?thesis by (rule disjI1)
  next
    assume "c = Representation jpeg (Some (min 1 (max (5 / 100) q)))"
    with clamp_range [of q] show ?thesis by (intro disjI2 exI [of _ "min 1 (max (5 / 100) q)"]) simp
  qed
next
  show "screen_quality given = min 1 (max (5 / 100) (case given of None \<Rightarrow> 9 / 10 | Some x \<Rightarrow> x))"
    by (simp add: screen_quality_def)
  show "5 / 100 \<le> screen_quality given" "screen_quality given \<le> 1"
    by (rule screen_quality_facts)+
next
  assume a: "5 / 100 \<le> q \<and> q \<le> 1"
  then show "min 1 (max (5 / 100) q) = q"
    by (rule clamp_id)
  from a show "screen_quality (Some q) = q"
    by (rule screen_quality_facts)
next
  assume a: "canvasEnabled e \<and> rq_command req = canvas_snapshot
             \<and> canvasSnapshot e = Inr (Some img)"
  let ?ps = "decodeSnapshotParams e (rq_paramsJSON req)"
  have "fst (mac_handleInvoke e req) = okResponse req (Some payload)
         \<longleftrightarrow> (\<exists>data. fst (encodeCanvasSnapshot e img (snapshotFormat ?ps)
                             (snapshotMaxWidth ?ps) (snapshotQuality ?ps)) = Inr data
                     \<and> encodePayload e (snapshotFormat ?ps) data = Inr payload)"
    by (rule mac_snapshot_response) (simp_all add: a)
  then show "fst (mac_handleInvoke e req) = okResponse req (Some payload)
         \<longleftrightarrow> (\<exists>rep data.
                bitmapRep e (scaleImage e img (snapshotMaxWidth ?ps)) = Some rep
                \<and> representation e rep (snapshotFormat ?ps)
                    (case snapshotFormat ?ps of
                       png \<Rightarrow> None
                     | jpeg \<Rightarrow> Some (min 1 (max (5 / 100) (snapshotQuality ?ps)))) = Some data
                \<and> encodePayload e (snapshotFormat ?ps) data = Inr payload)"
    unfolding encodeCanvasSnapshot_result by blast
  show "\<exists>rest. snd (mac_handleInvoke e req) =
           [DecodeParams, CanvasSnapshot]
           @ snd (encodeCanvasSnapshot e img (snapshotFormat ?ps) (snapshotMaxWidth ?ps)
                    (snapshotQuality ?ps))
           @ rest"
    by (rule mac_snapshot_calls) (simp_all add: a)
next
  assume a: "\<not> isBackgrounded i \<and> rq_command req = canvas_snapshot"
  let ?ps = "ios_decodeSnapshotParams i (rq_paramsJSON req)"
  show "fst (ios_handleInvoke i req) = okResponse req (Some payload)
         \<longleftrightarrow> (\<exists>base64.
                renderBase64 i (snapshotMaxWidth ?ps) (snapshotFormat ?ps)
                  (screen_quality (case ?ps of None \<Rightarrow> None | Some p \<Rightarrow> quality p)) = Inr base64
                \<and> ios_encodePayload i (snapshotFormat ?ps) base64 = Inr payload)"
    by (rule ios_snapshot_response) (simp_all add: a)
  show "\<exists>rest. snd (ios_handleInvoke i req) =
           DecodeParams
           # SnapshotBase64 (snapshotMaxWidth ?ps) (snapshotFormat ?ps)
               (case ?ps of None \<Rightarrow> None | Some p \<Rightarrow> quality p)
           # rest"
    by (rule ios_snapshot_calls) (simp_all add: a)
qed


theorem snapshot_defaults_witness:
  "snapshotMaxWidth None = Some 1600
   \<and> snapshotMaxWidth (Some \<lparr>format = Some png, maxWidth = Some 0, quality = None\<rparr>) = Some 900
   \<and> snapshotMaxWidth (Some \<lparr>format = Some png, maxWidth = Some 640, quality = None\<rparr>)
       = Some 640
   \<and> snapshotFormat (Some \<lparr>format = None, maxWidth = None, quality = None\<rparr>) = jpeg
   \<and> snapshotQuality (Some \<lparr>format = None, maxWidth = None, quality = None\<rparr>) = 9 / 10
   \<and> scaleImage (exampleMac True) 2000 (Some 1600) = 1600
   \<and> scaleImage (exampleMac True) 2000 (Some 2000) = 2000
   \<and> (\<exists>k. Representation jpeg (Some k)
              \<in> set (snd (encodeCanvasSnapshot (exampleMac True) 2000 jpeg (Some 1600) 7))
            \<and> 5 / 100 \<le> k \<and> k \<le> 1)
   \<and> screen_quality (Some 7) = 1
   \<and> min 1 (max (5 / 100) (1 / 2 :: real)) = 1 / 2
   \<and> fst (mac_handleInvoke (exampleMac True) snapshotRequest)
       = okResponse snapshotRequest (Some ''jpeg 1600 0.9'')
   \<and> fst (ios_handleInvoke (exampleIos False) snapshotRequest)
       = okResponse snapshotRequest (Some ''jpeg 1600 0.9'')
   \<and> (\<exists>rest. snd (ios_handleInvoke (exampleIos False) snapshotRequest)
                = DecodeParams # SnapshotBase64 (Some 1600) jpeg None # rest)"
proof -
  have f: "snapshotFormat None = jpeg"
    "snapshotFormat (Some \<lparr>format = Some png, maxWidth = Some 0, quality = None\<rparr>) = png"
    by (simp_all add: snapshotFormat_def)
  have h1: "(None :: ClawdisCanvasSnapshotParams option) = None
            \<or> (\<exists>p. (None :: ClawdisCanvasSnapshotParams option) = Some p
                    \<and> (maxWidth p = None \<or> (\<exists>w. maxWidth p = Some w \<and> w \<le> 0)))"
    by simp
  from snapshot_defaults
         [where params = None,
          THEN conjunct1, THEN mp, OF h1]
  have p1: "snapshotMaxWidth None = Some 1600"
    by (simp add: f)
  let ?z = "\<lparr>format = Some png, maxWidth = Some 0, quality = None\<rparr>"
  have h2: "Some ?z = None
            \<or> (\<exists>p. Some ?z = Some p
                    \<and> (maxWidth p = None \<or> (\<exists>w. maxWidth p = Some w \<and> w \<le> 0)))"
    by simp
  from snapshot_defaults
         [where params = "Some ?z",
          THEN conjunct1, THEN mp, OF h2]
  have p2: "snapshotMaxWidth (Some ?z) = Some 900"
    by (simp add: f)
  let ?g = "\<lparr>format = Some png, maxWidth = Some 640, quality = None\<rparr>"
  have h3: "Some ?g = Some ?g \<and> maxWidth ?g = Some 640 \<and> (0 :: int) < 640"
    by simp
  from snapshot_defaults
         [where params = "Some ?g" and p = ?g and w = 640,
          THEN conjunct2, THEN conjunct1, THEN mp, OF h3]
  have p3: "snapshotMaxWidth (Some ?g) = Some 640" .
  let ?n = "\<lparr>format = None, maxWidth = None, quality = None\<rparr>"
  have h4: "Some ?n = None \<or> (\<exists>p. Some ?n = Some p \<and> format p = None)"
    by simp
  from snapshot_defaults
         [where params = "Some ?n",
          THEN conjunct2, THEN conjunct2, THEN conjunct1, THEN mp, OF h4]
  have p4: "snapshotFormat (Some ?n) = jpeg" .
  have h5: "Some ?n = None \<or> (\<exists>p. Some ?n = Some p \<and> quality p = None)"
    by simp
  from snapshot_defaults
         [where params = "Some ?n",
          THEN conjunct2, THEN conjunct2, THEN conjunct2, THEN conjunct1, THEN mp, OF h5]
  have p5: "snapshotQuality (Some ?n) = 9 / 10"
    by simp
  have h6: "(0 :: int) < 1600 \<and> real_of_int 1600 < imageWidth (exampleMac True) 2000"
    by (simp add: exampleMac_def)
  from snapshot_defaults
         [where e = "exampleMac True" and img = 2000 and w = 1600,
          THEN conjunct2, THEN conjunct2, THEN conjunct2, THEN conjunct2, THEN conjunct1,
          THEN mp, OF h6]
  have p6: "scaleImage (exampleMac True) 2000 (Some 1600) = 1600"
    by (simp add: exampleMac_def)
  have h7: "(0 :: int) < 2000 \<and> imageWidth (exampleMac True) 2000 \<le> real_of_int 2000"
    by (simp add: exampleMac_def)
  from snapshot_defaults
         [where e = "exampleMac True" and img = 2000 and w = 2000,
          THEN conjunct2, THEN conjunct2, THEN conjunct2, THEN conjunct2, THEN conjunct2,
          THEN conjunct1, THEN mp, OF h7]
  have p7: "scaleImage (exampleMac True) 2000 (Some 2000) = 2000" .
  let ?calls = "snd (encodeCanvasSnapshot (exampleMac True) 2000 jpeg (Some 1600) 7)"
  have m: "Representation jpeg (Some (min 1 (max (5 / 100) 7))) \<in> set ?calls"
    by (simp add: encodeCanvasSnapshot_def exampleMac_def Let_def)
  from snapshot_defaults
         [where e = "exampleMac True" and img = 2000 and fmt = jpeg and width = "Some 1600"
             and q = 7,
          THEN conjunct2, THEN conjunct2, THEN conjunct2, THEN conjunct2, THEN conjunct2,
          THEN conjunct2, THEN conjunct1, THEN bspec, OF m]
  have "\<exists>k. Representation jpeg (Some (min 1 (max (5 / 100) 7))) = Representation jpeg (Some k)
             \<and> k = min 1 (max (5 / 100) 7) \<and> 5 / 100 \<le> k \<and> k \<le> 1"
    by simp
  with m have p8: "\<exists>k. Representation jpeg (Some k) \<in> set ?calls \<and> 5 / 100 \<le> k \<and> k \<le> 1"
    by blast
  from snapshot_defaults
         [where given = "Some 7",
          THEN conjunct2, THEN conjunct2, THEN conjunct2, THEN conjunct2, THEN conjunct2,
          THEN conjunct2, THEN conjunct2, THEN conjunct1]
  have p9: "screen_quality (Some 7) = 1"
    by simp
  have h10: "5 / 100 \<le> (1 / 2 :: real) \<and> (1 / 2 :: real) \<le> 1"
    by simp
  from snapshot_defaults
         [where q = "1 / 2",
          THEN conjunct2, THEN conjunct2, THEN conjunct2, THEN conjunct2, THEN conjunct2,
          THEN conjunct2, THEN conjunct2, THEN conjunct2, THEN conjunct2, THEN conjunct2,
          THEN conjunct1, THEN mp, OF h10]
  have p10: "min 1 (max (5 / 100) (1 / 2 :: real)) = 1 / 2"
    by blast
  have h11: "canvasEnabled (exampleMac True) \<and> rq_command snapshotRequest = canvas_snapshot
            \<and> canvasSnapshot (exampleMac True) = Inr (Some 2000)"
    by (simp add: exampleMac_def snapshotRequest_command)
  have d: "decodeSnapshotParams (exampleMac True) (rq_paramsJSON snapshotRequest) = None"
    by (simp add: exampleMac_def)
  have q: "snapshotQuality None = 9 / 10"
    by (simp add: snapshotQuality_def)
  have r: "bitmapRep (exampleMac True) (scaleImage (exampleMac True) 2000 (Some 1600)) = Some 1600
           \<and> representation (exampleMac True) 1600 jpeg
               (case jpeg of png \<Rightarrow> None
                | jpeg \<Rightarrow> Some (min 1 (max (5 / 100) (9 / 10)))) = Some ''jpeg 1600 0.9''
           \<and> encodePayload (exampleMac True) jpeg ''jpeg 1600 0.9'' = Inr ''jpeg 1600 0.9''"
    by (simp add: p6) (simp add: exampleMac_def)
  from snapshot_defaults
         [where e = "exampleMac True" and req = snapshotRequest and img = 2000
             and payload = "''jpeg 1600 0.9''",
          THEN conjunct2, THEN conjunct2, THEN conjunct2, THEN conjunct2, THEN conjunct2,
          THEN conjunct2, THEN conjunct2, THEN conjunct2, THEN conjunct2, THEN conjunct2,
          THEN conjunct2, THEN conjunct1, THEN mp, OF h11, THEN conjunct1]
  have "fst (mac_handleInvoke (exampleMac True) snapshotRequest)
          = okResponse snapshotRequest (Some ''jpeg 1600 0.9'')
        \<longleftrightarrow> (\<exists>rep data.
               bitmapRep (exampleMac True) (scaleImage (exampleMac True) 2000 (Some 1600))
                 = Some rep
               \<and> representation (exampleMac True) rep jpeg
                   (case jpeg of png \<Rightarrow> None
                    | jpeg \<Rightarrow> Some (min 1 (max (5 / 100) (9 / 10)))) = Some data
               \<and> encodePayload (exampleMac True) jpeg data = Inr ''jpeg 1600 0.9'')"
    by (simp only: d f p1 q)
  with r have p11: "fst (mac_handleInvoke (exampleMac True) snapshotRequest)
                      = okResponse snapshotRequest (Some ''jpeg 1600 0.9'')"
    by blast
  have h12: "\<not> isBackgrounded (exampleIos False) \<and> rq_command snapshotRequest = canvas_snapshot"
    by (simp add: exampleIos_def snapshotRequest_command)
  have d': "ios_decodeSnapshotParams (exampleIos False) (rq_paramsJSON snapshotRequest) = None"
    by (simp add: exampleIos_def)
  have sq: "screen_quality None = 9 / 10"
    by (simp add: screen_quality_def)
  have r': "renderBase64 (exampleIos False) (Some 1600) jpeg (9 / 10) = Inr ''jpeg 1600 0.9''
            \<and> ios_encodePayload (exampleIos False) jpeg ''jpeg 1600 0.9'' = Inr ''jpeg 1600 0.9''"
    by (simp add: exampleIos_def)
  note ios = snapshot_defaults
         [where i = "exampleIos False" and req = snapshotRequest
             and payload = "''jpeg 1600 0.9''",
          THEN conjunct2, THEN conjunct2, THEN conjunct2, THEN conjunct2, THEN conjunct2,
          THEN conjunct2, THEN conjunct2, THEN conjunct2, THEN conjunct2, THEN conjunct2,
          THEN conjunct2, THEN conjunct2, THEN mp, OF h12]
  from ios [THEN conjunct1]
  have "fst (ios_handleInvoke (exampleIos False) snapshotRequest)
          = okResponse snapshotRequest (Some ''jpeg 1600 0.9'')
        \<longleftrightarrow> (\<exists>base64.
               renderBase64 (exampleIos False) (Some 1600) jpeg (9 / 10) = Inr base64
               \<and> ios_encodePayload (exampleIos False) jpeg base64 = Inr ''jpeg 1600 0.9'')"
    by (simp only: d' f p1 sq option.case)
  with r' have p12: "fst (ios_handleInvoke (exampleIos False) snapshotRequest)
                      = okResponse snapshotRequest (Some ''jpeg 1600 0.9'')"
    by blast
  from ios [THEN conjunct2]
  have p13: "\<exists>rest. snd (ios_handleInvoke (exampleIos False) snapshotRequest)
                = DecodeParams # SnapshotBase64 (Some 1600) jpeg None # rest"
    by (simp only: d' f p1 option.case)
  show ?thesis using p1 p2 p3 p4 p5 p6 p7 p8 p9 p10 p11 p12 p13 by blast
qed

end
